theory Spec2Isabelle
  imports Complex_Main "HOL-Library.Word"
begin

unbundle bit_operations_syntax

section \<open>Values, faults and loops\<close>

text \<open>
  The C++ scalar types \<open>float\<close> and \<open>double\<close> are modelled by the real number a finite
  value denotes. Copying such a value, negating it and comparing it with zero are exact.
  What rounds is not computed: the narrowing casts \<open>static_cast<float>\<close> from \<open>double\<close>
  and from \<open>int\<close>, and the four arithmetic operations on \<open>float\<close>, are the functions
  of a \<open>casts\<close> record, given by the caller.
\<close>

type_synonym float = real
type_synonym double = real
type_synonym GfVec2f = "float \<times> float"
type_synonym GfVec3f = "float \<times> float \<times> float"
type_synonym GfVec4f = "float \<times> float \<times> float \<times> float"
type_synonym GfVec2d = "double \<times> double"
type_synonym GfVec3d = "double \<times> double \<times> double"
type_synonym GfVec4d = "double \<times> double \<times> double \<times> double"
type_synonym GfVec2i = "int \<times> int"
type_synonym GfVec3i = "int \<times> int \<times> int"
type_synonym GfVec4i = "int \<times> int \<times> int \<times> int"
type_synonym float2 = "float \<times> float"
type_synonym float3 = "float \<times> float \<times> float"
type_synonym float4 = "float \<times> float \<times> float \<times> float"

record casts =
  float_of_double :: "double \<Rightarrow> float"
  float_of_int :: "int \<Rightarrow> float"
  float_add :: "float \<Rightarrow> float \<Rightarrow> float"
  float_sub :: "float \<Rightarrow> float \<Rightarrow> float"
  float_mul :: "float \<Rightarrow> float \<Rightarrow> float"
  float_div :: "float \<Rightarrow> float \<Rightarrow> float"

text \<open>
  A C++ access outside an array, through a null pointer, through a pointer to an erased
  object, or of an uninitialised local has no defined behaviour. Each such access is a
  \<open>fault\<close>; a function that can reach one returns \<open>fault + 'a\<close>.
\<close>

datatype fault = OutOfBounds | NullPointer | DanglingPointer | Uninitialised

fun and_then :: "fault + 'a \<Rightarrow> ('a \<Rightarrow> fault + 'b) \<Rightarrow> fault + 'b" where
  "and_then (Inl e) f = Inl e"
| "and_then (Inr x) f = f x"

text \<open>A \<open>for\<close> loop over the index values \<open>is\<close>, stopping at the first fault.\<close>

fun for_each :: "'i list \<Rightarrow> ('i \<Rightarrow> 's \<Rightarrow> fault + 's) \<Rightarrow> 's \<Rightarrow> fault + 's" where
  "for_each [] body s = Inr s"
| "for_each (i # is) body s = and_then (body i s) (for_each is body)"

definition load :: "'a list \<Rightarrow> nat \<Rightarrow> fault + 'a" where
  "load xs i = (if i < length xs then Inr (xs ! i) else Inl OutOfBounds)"

definition load_int :: "'a list \<Rightarrow> int \<Rightarrow> fault + 'a" where
  "load_int xs i = (if 0 \<le> i then load xs (nat i) else Inl OutOfBounds)"

definition store :: "'a list \<Rightarrow> nat \<Rightarrow> 'a \<Rightarrow> fault + 'a list" where
  "store xs i v = (if i < length xs then Inr (xs[i := v]) else Inl OutOfBounds)"

definition store_int :: "'a list \<Rightarrow> int \<Rightarrow> 'a \<Rightarrow> fault + 'a list" where
  "store_int xs i v = (if 0 \<le> i then store xs (nat i) v else Inl OutOfBounds)"

text \<open>The conversion of an \<open>int\<close> to the 64-bit \<open>size_t\<close> it is compared with.\<close>

definition size_t_of_int :: "int \<Rightarrow> nat" where
  "size_t_of_int i = nat (i mod 2 ^ 64)"

text \<open>
  The value a 32-bit \<open>int\<close> holds after an addition whose exact result is \<open>i\<close>: the
  addition wraps around.
\<close>

definition int32_t_of_int :: "int \<Rightarrow> int" where
  "int32_t_of_int i = (i + 2 ^ 31) mod 2 ^ 32 - 2 ^ 31"

section \<open>Scene-graph values\<close>

text \<open>
  \<open>VtValue\<close> is the runtime-tagged value of the scene graph. The twelve array types the
  attribute populators dispatch on are constructors of their own, with \<open>VtArray<bool>\<close>
  (tested by \<open>_AddColors\<close>); \<open>VtOtherArray n\<close> is an array of \<open>n\<close> elements of any other
  type and \<open>VtScalar\<close> a held value that is no array.
\<close>

datatype VtValue =
    VtEmpty
  | VtFloatArray "float list"
  | VtDoubleArray "double list"
  | VtIntArray "int list"
  | VtBoolArray "bool list"
  | VtVec2fArray "GfVec2f list"
  | VtVec2dArray "GfVec2d list"
  | VtVec2iArray "GfVec2i list"
  | VtVec3fArray "GfVec3f list"
  | VtVec3dArray "GfVec3d list"
  | VtVec3iArray "GfVec3i list"
  | VtVec4fArray "GfVec4f list"
  | VtVec4dArray "GfVec4d list"
  | VtVec4iArray "GfVec4i list"
  | VtOtherArray nat
  | VtScalar

fun GetArraySize :: "VtValue \<Rightarrow> nat" where
  "GetArraySize VtEmpty = 0"
| "GetArraySize (VtFloatArray xs) = length xs"
| "GetArraySize (VtDoubleArray xs) = length xs"
| "GetArraySize (VtIntArray xs) = length xs"
| "GetArraySize (VtBoolArray xs) = length xs"
| "GetArraySize (VtVec2fArray xs) = length xs"
| "GetArraySize (VtVec2dArray xs) = length xs"
| "GetArraySize (VtVec2iArray xs) = length xs"
| "GetArraySize (VtVec3fArray xs) = length xs"
| "GetArraySize (VtVec3dArray xs) = length xs"
| "GetArraySize (VtVec3iArray xs) = length xs"
| "GetArraySize (VtVec4fArray xs) = length xs"
| "GetArraySize (VtVec4dArray xs) = length xs"
| "GetArraySize (VtVec4iArray xs) = length xs"
| "GetArraySize (VtOtherArray n) = n"
| "GetArraySize VtScalar = 0"

definition IsEmpty :: "VtValue \<Rightarrow> bool" where
  "IsEmpty v = (v = VtEmpty)"

datatype HdInterpolation =
    HdInterpolationConstant
  | HdInterpolationUniform
  | HdInterpolationVarying
  | HdInterpolationVertex
  | HdInterpolationFaceVarying
  | HdInterpolationInstance

section \<open>Renderer attribute cells and the \<open>to_cycles\<close> conversions\<close>

text \<open>
  An attribute buffer is an array of cells of the renderer's element type \<open>U\<close>
  (\<open>float\<close>, \<open>float2\<close>, \<open>float3\<close> or \<open>float4\<close>); the write \<open>((U*)data)[i] = v\<close> is the
  store of the cell \<open>i\<close>. The byte layout of the buffer is not modelled.
\<close>

datatype cell = F1 float | F2 float2 | F3 float3 | F4 float4

definition to_cycles_float :: "float \<Rightarrow> float" where
  "to_cycles_float v = v"

definition to_cycles_double :: "casts \<Rightarrow> double \<Rightarrow> float" where
  "to_cycles_double cv v = float_of_double cv v"

definition to_cycles_int :: "casts \<Rightarrow> int \<Rightarrow> float" where
  "to_cycles_int cv v = float_of_int cv v"

definition to_cycles_GfVec2f :: "GfVec2f \<Rightarrow> float2" where
  "to_cycles_GfVec2f v = (fst v, snd v)"

definition to_cycles_GfVec2d :: "casts \<Rightarrow> GfVec2d \<Rightarrow> float2" where
  "to_cycles_GfVec2d cv v = (float_of_double cv (fst v), float_of_double cv (snd v))"

definition to_cycles_GfVec2i :: "casts \<Rightarrow> GfVec2i \<Rightarrow> float2" where
  "to_cycles_GfVec2i cv v = (float_of_int cv (fst v), float_of_int cv (snd v))"

definition to_cycles_GfVec3f :: "GfVec3f \<Rightarrow> float3" where
  "to_cycles_GfVec3f v = (case v of (x, y, z) \<Rightarrow> (x, y, z))"

definition to_cycles_GfVec3d :: "casts \<Rightarrow> GfVec3d \<Rightarrow> float3" where
  "to_cycles_GfVec3d cv v =
     (case v of (x, y, z) \<Rightarrow> (float_of_double cv x, float_of_double cv y, float_of_double cv z))"

definition to_cycles_GfVec3i :: "casts \<Rightarrow> GfVec3i \<Rightarrow> float3" where
  "to_cycles_GfVec3i cv v =
     (case v of (x, y, z) \<Rightarrow> (float_of_int cv x, float_of_int cv y, float_of_int cv z))"

definition to_cycles_GfVec4f :: "GfVec4f \<Rightarrow> float4" where
  "to_cycles_GfVec4f v = (case v of (x, y, z, w) \<Rightarrow> (x, y, z, w))"

definition to_cycles_GfVec4d :: "casts \<Rightarrow> GfVec4d \<Rightarrow> float4" where
  "to_cycles_GfVec4d cv v =
     (case v of (x, y, z, w) \<Rightarrow>
        (float_of_double cv x, float_of_double cv y, float_of_double cv z, float_of_double cv w))"

definition to_cycles_GfVec4i :: "casts \<Rightarrow> GfVec4i \<Rightarrow> float4" where
  "to_cycles_GfVec4i cv v =
     (case v of (x, y, z, w) \<Rightarrow>
        (float_of_int cv x, float_of_int cv y, float_of_int cv z, float_of_int cv w))"

definition vec3f_to_float3 :: "GfVec3f \<Rightarrow> float3" where
  "vec3f_to_float3 a_vec = (case a_vec of (x, y, z) \<Rightarrow> (x, y, z))"

definition vec1f_to_float4 :: "float \<Rightarrow> float4" where
  "vec1f_to_float4 a_val = (a_val, a_val, a_val, a_val)"

definition vec2f_to_float4 :: "GfVec2f \<Rightarrow> float \<Rightarrow> float \<Rightarrow> float4" where
  "vec2f_to_float4 a_vec a_z a_alpha = (fst a_vec, snd a_vec, a_z, a_alpha)"

definition vec3f_to_float4 :: "GfVec3f \<Rightarrow> float \<Rightarrow> float4" where
  "vec3f_to_float4 a_vec a_alpha = (case a_vec of (x, y, z) \<Rightarrow> (x, y, z, a_alpha))"

definition vec4f_to_float4 :: "GfVec4f \<Rightarrow> float4" where
  "vec4f_to_float4 a_vec = (case a_vec of (x, y, z, w) \<Rightarrow> (x, y, z, w))"

section \<open>Renderer and primitive state\<close>

text \<open>
  The renderer (Cycles) and the scene-graph library (USD/Hydra) are not code of this
  repository. Their data is modelled by records holding the fields this code reads and
  writes; what their functions compute is not defined here but taken from an
  \<open>Environment\<close> record, so every theorem holds for any behaviour of those functions,
  and says which of their properties it uses.
\<close>

type_synonym Shader = nat
type_synonym Transform = "float4 \<times> float4 \<times> float4"
type_synonym GfMatrix4d = "GfVec4d \<times> GfVec4d \<times> GfVec4d \<times> GfVec4d"

datatype AttributeStandard =
    ATTR_STD_VERTEX_NORMAL
  | ATTR_STD_FACE_NORMAL
  | ATTR_STD_UV
  | ATTR_STD_UV_TANGENT
  | ATTR_STD_UV_TANGENT_SIGN
  | ATTR_STD_VERTEX_COLOR
  | ATTR_STD_GENERATED
  | ATTR_STD_MOTION_VERTEX_POSITION
  | ATTR_STD_NONE

datatype AttributeElement =
    ATTR_ELEMENT_NONE
  | ATTR_ELEMENT_MESH
  | ATTR_ELEMENT_FACE
  | ATTR_ELEMENT_VERTEX
  | ATTR_ELEMENT_VERTEX_MOTION
  | ATTR_ELEMENT_CORNER
  | ATTR_ELEMENT_CURVE_KEY

datatype TypeDesc =
    TypeUnknown
  | TypeFloat
  | TypeFloat2
  | TypeColor
  | TypeVector
  | TypeNormal
  | TypePoint

record Attribute =
  attr_name :: string
  attr_std :: AttributeStandard
  attr_type :: TypeDesc
  attr_element :: AttributeElement
  attr_data :: "cell list"

datatype SubdivisionType = SUBDIVISION_NONE | SUBDIVISION_LINEAR | SUBDIVISION_CATMULL_CLARK

record ccl_Mesh =
  verts :: "float3 list"
  triangles :: "GfVec3i list"
  shader :: "int list"
  smooth :: "bool list"
  attributes :: "Attribute list"
  subd_attributes :: "Attribute list"
  motion_steps :: nat
  use_motion_blur :: bool
  used_shaders :: "Shader list"
  subdivision_type :: SubdivisionType
  subd_params :: "Transform option"
  transform_applied :: bool
  need_update :: bool
  bounds :: "float3 \<times> float3"

record ccl_Object =
  tfm :: Transform
  motion :: "Transform list"
  color :: float3
  pass_id :: int
  visibility :: "32 word"
  is_shadow_catcher :: bool
  use_holdout :: bool

text \<open>
  \<open>HdCyclesMeshRefiner\<close> is declared in \<open>meshRefiner.h\<close>, which is not among the
  sources: a refiner is the record of what its member functions return.
\<close>

record HdCyclesMeshRefiner =
  RefinedIndices :: "GfVec3i list"
  RefinedCounts :: "int list"
  GetNumVertices :: nat
  GetNumTriangles :: nat
  RefineVertexData :: "VtValue \<Rightarrow> VtValue"
  RefineUniformData :: "VtValue \<Rightarrow> VtValue"
  RefineData :: "VtValue \<Rightarrow> HdInterpolation \<Rightarrow> VtValue"

record HdGeomSubset =
  subset_materialId :: string
  subset_indices :: "int list"

record HdMeshTopology =
  GetNumFaces :: nat
  GetGeomSubsets :: "HdGeomSubset list"

type_synonym HdDirtyBits = "32 word"

text \<open>
  The members of \<open>HdCyclesMesh\<close> that the embedded functions use. \<open>m_cyclesMesh\<close> and
  \<open>m_cyclesObject\<close> are created by the constructor and released by the destructor only,
  so both pointers are never null between them and the records stand for the objects
  pointed to. \<open>m_refiner\<close> is a shared pointer: \<open>None\<close> is null. A sample array
  (\<open>HdTimeSampleArray\<close>) is the list of its \<open>count\<close> pairs of a time and a value.
\<close>

record HdCyclesMesh =
  m_cyclesMesh :: ccl_Mesh
  m_cyclesObject :: ccl_Object
  m_cyclesInstances :: "ccl_Object list"
  m_hasVertexColors :: bool
  m_visibilityFlags :: "32 word"
  m_visCamera :: bool
  m_visDiffuse :: bool
  m_visGlossy :: bool
  m_visScatter :: bool
  m_visShadow :: bool
  m_visTransmission :: bool
  m_useMotionBlur :: bool
  m_useDeformMotionBlur :: bool
  m_motionSteps :: int
  m_useSubdivision :: bool
  m_dicingRate :: float
  m_maxSubdivision :: int
  m_points :: "GfVec3f list"
  m_numMeshVerts :: nat
  m_normalsValid :: bool
  m_adjacencyValid :: bool
  m_topology :: HdMeshTopology
  m_refiner :: "HdCyclesMeshRefiner option"
  m_orientation :: string
  m_doubleSided :: bool
  m_displayStyle_refineLevel :: int
  m_refineLevel :: int
  m_usedShaders :: "Shader list"
  m_materialMap :: "(string \<times> nat) list"
  m_cachedMaterialId :: string
  m_transformSamples :: "(float \<times> GfMatrix4d) list"
  m_pointSamples :: "(float \<times> VtValue) list"
  sharedData_visible :: bool

record HdPrimvarDescriptor =
  pv_name :: string
  pv_role :: string

text \<open>
  What the scene delegate answers for this primitive during one \<open>Sync\<close>.
  \<open>GetSprim\<close> is the lookup of a material prim in the render index followed by
  \<open>GetCyclesShader\<close>: \<open>None\<close> when there is no such prim, \<open>Some None\<close> when the prim has
  no shader. \<open>GetInstancer\<close> is the instancer's \<open>SampleInstanceTransforms\<close>.
\<close>

record HdSceneDelegate =
  GetExtComputationPrimvarDescriptors :: "HdInterpolation \<Rightarrow> string list"
  GetComputedPrimvarValues :: "string \<Rightarrow> VtValue option"
  GetDisplayStyle_refineLevel :: int
  GetMeshTopology :: HdMeshTopology
  GetPrimvarDescriptors :: "HdInterpolation \<Rightarrow> HdPrimvarDescriptor list"
  GetDoubleSided :: bool
  GetPrimvar :: "string \<Rightarrow> VtValue"
  GetSprim :: "string \<Rightarrow> Shader option option"
  GetMaterialId :: string
  GetVisible :: bool
  GetPrimId :: int
  SampleTransform :: "(float \<times> GfMatrix4d) list"
  GetInstancer :: "(float \<times> GfMatrix4d list) list option"

text \<open>
  The functions and constants of the renderer, of the scene-graph library and of the
  headers of this repository that are not among the sources. \<open>HdCyclesGetMeshParam_*\<close>
  is the template \<open>_HdCyclesGetMeshParam<T>\<close> of \<open>utils.h\<close>; \<open>vec2f_to_float4_a_z\<close>
  is the default argument of \<open>vec2f_to_float4\<close> declared there; \<open>USE_USD_CYCLES_SCHEMA\<close>
  tells whether the build defines the macro of that name.
\<close>

record Environment =
  numeric :: casts
  USE_USD_CYCLES_SCHEMA :: bool
  vec2f_to_float4_a_z :: float
  vec2f_to_float4_a_alpha :: float
  vec3f_to_float4_a_alpha :: float
  standard_name :: "AttributeStandard \<Rightarrow> string"
  standard_type :: "AttributeStandard \<Rightarrow> TypeDesc"
  standard_element :: "AttributeStandard \<Rightarrow> AttributeElement"
  element_size :: "AttributeElement \<Rightarrow> ccl_Mesh \<Rightarrow> nat"
  Mesh_clear :: "ccl_Mesh \<Rightarrow> ccl_Mesh"
  Mesh_reserve_mesh :: "nat \<Rightarrow> nat \<Rightarrow> ccl_Mesh \<Rightarrow> ccl_Mesh"
  Mesh_add_face_normals :: "ccl_Mesh \<Rightarrow> ccl_Mesh"
  Mesh_add_vertex_normals :: "ccl_Mesh \<Rightarrow> ccl_Mesh"
  Mesh_compute_bounds :: "ccl_Mesh \<Rightarrow> float3 \<times> float3"
  Mesh_need_attribute :: "ccl_Mesh \<Rightarrow> AttributeStandard \<Rightarrow> bool"
  genTangSpaceDefault :: "ccl_Mesh \<Rightarrow> string \<Rightarrow> cell list \<times> cell list \<Rightarrow> cell list \<times> cell list"
  HdCyclesMeshRefiner_Create :: "HdMeshTopology \<Rightarrow> HdCyclesMeshRefiner option"
  HdCyclesGetMeshParam_bool ::
    "HdSceneDelegate \<Rightarrow> HdPrimvarDescriptor \<Rightarrow> HdDirtyBits \<Rightarrow> string \<Rightarrow> bool \<Rightarrow> bool"
  HdCyclesGetMeshParam_int ::
    "HdSceneDelegate \<Rightarrow> HdPrimvarDescriptor \<Rightarrow> HdDirtyBits \<Rightarrow> string \<Rightarrow> int \<Rightarrow> int"
  HdCyclesGetMeshParam_float ::
    "HdSceneDelegate \<Rightarrow> HdPrimvarDescriptor \<Rightarrow> HdDirtyBits \<Rightarrow> string \<Rightarrow> float \<Rightarrow> float"
  HdCyclesGetMeshParam_TfToken ::
    "HdSceneDelegate \<Rightarrow> HdPrimvarDescriptor \<Rightarrow> HdDirtyBits \<Rightarrow> string \<Rightarrow> string \<Rightarrow> string"
  Resample :: "(float \<times> GfMatrix4d) list \<Rightarrow> float \<Rightarrow> GfMatrix4d"
  GfMatrix4d_mult :: "GfMatrix4d \<Rightarrow> GfMatrix4d \<Rightarrow> GfMatrix4d"
  default_surface :: Shader
  default_vcol_surface :: Shader
  PATH_RAY_ALL_VISIBILITY :: "32 word"
  PATH_RAY_CAMERA :: "32 word"
  PATH_RAY_DIFFUSE :: "32 word"
  PATH_RAY_GLOSSY :: "32 word"
  PATH_RAY_VOLUME_SCATTER :: "32 word"
  PATH_RAY_SHADOW :: "32 word"
  PATH_RAY_TRANSMIT :: "32 word"

text \<open>
  What a \<open>Sync\<close> tells the renderer and the log: the \<open>tag_update\<close> calls, the interrupt
  of the render, the objects added to and removed from the scene, the lines written to
  \<open>std::cout\<close> and the coding warnings.
\<close>

datatype diagnostic =
    ConstantIncompatibleSize nat
  | UniformSizes nat nat
  | Oversized
  | InterpolationUnsupported HdInterpolation
  | InvalidColorSize

datatype event =
    Mesh_tag_update
  | Object_tag_update
  | Shader_tag_update Shader
  | Interrupt
  | AddObject ccl_Object
  | RemoveObject ccl_Object
  | Cout diagnostic
  | TF_CODING_WARNING string

definition leftHanded :: string where
  "leftHanded = ''leftHanded''"

definition rightHanded :: string where
  "rightHanded = ''rightHanded''"

definition GetFaceVertexCounts :: "HdCyclesMesh \<Rightarrow> fault + int list" where
  "GetFaceVertexCounts mesh =
     (case m_refiner mesh of None \<Rightarrow> Inl NullPointer | Some r \<Rightarrow> Inr (RefinedCounts r))"

definition GetOrientation :: "HdCyclesMesh \<Rightarrow> string" where
  "GetOrientation mesh = m_orientation mesh"

section \<open>The attribute populators\<close>

text \<open>
  The four templates \<open>_PopulateAttribte_*<T, U>\<close> take the conversion \<open>to_cycles<T, U>\<close>,
  the held array \<open>usd_data\<close>, the attribute's buffer \<open>data\<close> and the mesh. Each returns
  the \<open>bool\<close> of the source with the buffer as written. The elements of a \<open>VtIntArray\<close>
  and the \<open>int\<close> counters are 32-bit in the source and unbounded here.
\<close>

definition PopulateAttribte_Vertex ::
  "('t \<Rightarrow> 'u) \<Rightarrow> 't list \<Rightarrow> 'u list \<Rightarrow> fault + bool \<times> 'u list" where
  "PopulateAttribte_Vertex to_cycles usd_data data =
     (let arr_size = length usd_data in
      if arr_size \<le> 0 then Inr (False, data)
      else
        and_then
          (for_each [0..<arr_size]
             (\<lambda>i d. and_then (load usd_data i) (\<lambda>x. store d i (to_cycles x)))
             data)
          (\<lambda>d. Inr (True, d)))"

text \<open>
  The body of the inner loop of \<open>_PopulateAttribte_Uniform\<close>, and one round of its outer
  loop: the face \<open>i\<close>. The loop condition \<open>j < (mesh->GetFaceVertexCounts()[i] - 2)\<close>
  compares a \<open>size_t\<close> with an \<open>int\<close>, which is converted to \<open>size_t\<close>.
\<close>

definition Uniform_write ::
  "('t \<Rightarrow> 'u) \<Rightarrow> 't list \<Rightarrow> nat \<Rightarrow> nat \<Rightarrow> nat \<times> 'u list \<Rightarrow> fault + nat \<times> 'u list" where
  "Uniform_write to_cycles usd_data i j s =
     (case s of (idx, d) \<Rightarrow>
        and_then (load usd_data i)
          (\<lambda>x. and_then (store d idx (to_cycles x)) (\<lambda>d'. Inr (idx + 1, d'))))"

definition Uniform_face ::
  "('t \<Rightarrow> 'u) \<Rightarrow> 't list \<Rightarrow> HdCyclesMesh \<Rightarrow> nat \<Rightarrow> nat \<times> 'u list \<Rightarrow> fault + nat \<times> 'u list" where
  "Uniform_face to_cycles usd_data mesh i s =
     and_then (GetFaceVertexCounts mesh)
       (\<lambda>counts.
          and_then (load counts i)
            (\<lambda>c. for_each [0..<size_t_of_int (c - 2)] (Uniform_write to_cycles usd_data i) s))"

definition PopulateAttribte_Uniform ::
  "('t \<Rightarrow> 'u) \<Rightarrow> 't list \<Rightarrow> 'u list \<Rightarrow> HdCyclesMesh \<Rightarrow> fault + bool \<times> 'u list" where
  "PopulateAttribte_Uniform to_cycles usd_data data mesh =
     (let arr_size = length usd_data in
      if arr_size \<le> 0 then Inr (False, data)
      else
        and_then
          (for_each [0..<arr_size] (Uniform_face to_cycles usd_data mesh) (0, data))
          (\<lambda>s. Inr (True, snd s)))"

text \<open>
  The body of the inner loop of \<open>_PopulateAttribte_FaceVarying\<close>: the fan triangle \<open>j\<close>
  of a face of \<open>vCount\<close> corners whose first corner is \<open>count\<close>. \<open>pos\<close> is the write
  pointer \<open>data\<close>, counted in cells. One round of the outer loop is the face \<open>i\<close>.
\<close>

definition FaceVarying_triangle ::
  "('t \<Rightarrow> 'u) \<Rightarrow> 't list \<Rightarrow> HdCyclesMesh \<Rightarrow> int \<Rightarrow> int \<Rightarrow> int \<Rightarrow> nat \<times> 'u list
   \<Rightarrow> fault + nat \<times> 'u list" where
  "FaceVarying_triangle to_cycles usd_data mesh count vCount j s =
     (case s of (pos, d) \<Rightarrow>
        let v0 = count;
            v1 = (if GetOrientation mesh = leftHanded
                  then count + ((vCount - 1) - j) + 0 else count + j + 0);
            v2 = (if GetOrientation mesh = leftHanded
                  then count + ((vCount - 1) - j) + 1 else count + j + 1)
        in
          and_then (load_int usd_data v0) (\<lambda>x0.
          and_then (store d pos (to_cycles x0)) (\<lambda>d0.
          and_then (load_int usd_data v1) (\<lambda>x1.
          and_then (store d0 (pos + 1) (to_cycles x1)) (\<lambda>d1.
          and_then (load_int usd_data v2) (\<lambda>x2.
          and_then (store d1 (pos + 2) (to_cycles x2)) (\<lambda>d2.
          Inr (pos + 3, d2))))))))"

definition FaceVarying_face ::
  "('t \<Rightarrow> 'u) \<Rightarrow> 't list \<Rightarrow> HdCyclesMesh \<Rightarrow> int list \<Rightarrow> nat \<Rightarrow> int \<times> nat \<times> 'u list
   \<Rightarrow> fault + int \<times> nat \<times> 'u list" where
  "FaceVarying_face to_cycles usd_data mesh counts i s =
     (case s of (count, w) \<Rightarrow>
        and_then (load counts i)
          (\<lambda>vCount.
             and_then
               (for_each [1..vCount - 2]
                  (FaceVarying_triangle to_cycles usd_data mesh count vCount) w)
               (\<lambda>w'. Inr (count + vCount, w'))))"

definition PopulateAttribte_FaceVarying ::
  "('t \<Rightarrow> 'u) \<Rightarrow> 't list \<Rightarrow> 'u list \<Rightarrow> HdCyclesMesh \<Rightarrow> fault + bool \<times> 'u list" where
  "PopulateAttribte_FaceVarying to_cycles usd_data data mesh =
     (let arr_size = length usd_data in
      if arr_size \<le> 0 then Inr (False, data)
      else
        and_then (GetFaceVertexCounts mesh)
          (\<lambda>counts.
             and_then
               (for_each [0..<length counts]
                  (FaceVarying_face to_cycles usd_data mesh counts) (0, 0, data))
               (\<lambda>s. Inr (True, snd (snd s)))))"

definition PopulateAttribte_Constant ::
  "('t \<Rightarrow> 'u) \<Rightarrow> 't list \<Rightarrow> 'u list \<Rightarrow> fault + bool \<times> 'u list \<times> diagnostic list" where
  "PopulateAttribte_Constant to_cycles usd_data data =
     (let arr_size = length usd_data in
      if arr_size \<noteq> 1 then Inr (False, data, [ConstantIncompatibleSize arr_size])
      else
        and_then (load usd_data 0)
          (\<lambda>x. and_then (store data 0 (to_cycles x)) (\<lambda>d. Inr (True, d, []))))"

text \<open>
  \<open>_PopulateAttribute\<close> tests \<open>value.IsHolding<VtArray<T>>()\<close> for twelve types \<open>T\<close>
  under each of four interpolations and calls the template for the pair \<open>T, U\<close>; the
  \<open>bool\<close> it gets back is dropped. The four chains of tests are the four functions
  below; a value of any other type falls through every test.
\<close>

definition written :: "fault + bool \<times> cell list \<Rightarrow> fault + cell list \<times> diagnostic list" where
  "written r = and_then r (\<lambda>p. Inr (snd p, []))"

definition written_Constant ::
  "fault + bool \<times> cell list \<times> diagnostic list \<Rightarrow> fault + cell list \<times> diagnostic list" where
  "written_Constant r = and_then r (\<lambda>p. Inr (snd p))"

definition PopulateAttribute_Vertex ::
  "casts \<Rightarrow> VtValue \<Rightarrow> cell list \<Rightarrow> fault + cell list \<times> diagnostic list" where
  "PopulateAttribute_Vertex cv v data =
     (case v of
          VtFloatArray xs \<Rightarrow> written (PopulateAttribte_Vertex (\<lambda>x. F1 (to_cycles_float x)) xs data)
        | VtDoubleArray xs \<Rightarrow> written (PopulateAttribte_Vertex (\<lambda>x. F1 (to_cycles_double cv x)) xs data)
        | VtIntArray xs \<Rightarrow> written (PopulateAttribte_Vertex (\<lambda>x. F1 (to_cycles_int cv x)) xs data)
        | VtVec2fArray xs \<Rightarrow> written (PopulateAttribte_Vertex (\<lambda>x. F2 (to_cycles_GfVec2f x)) xs data)
        | VtVec2dArray xs \<Rightarrow> written (PopulateAttribte_Vertex (\<lambda>x. F2 (to_cycles_GfVec2d cv x)) xs data)
        | VtVec2iArray xs \<Rightarrow> written (PopulateAttribte_Vertex (\<lambda>x. F2 (to_cycles_GfVec2i cv x)) xs data)
        | VtVec3fArray xs \<Rightarrow> written (PopulateAttribte_Vertex (\<lambda>x. F3 (to_cycles_GfVec3f x)) xs data)
        | VtVec3dArray xs \<Rightarrow> written (PopulateAttribte_Vertex (\<lambda>x. F3 (to_cycles_GfVec3d cv x)) xs data)
        | VtVec3iArray xs \<Rightarrow> written (PopulateAttribte_Vertex (\<lambda>x. F3 (to_cycles_GfVec3i cv x)) xs data)
        | VtVec4fArray xs \<Rightarrow> written (PopulateAttribte_Vertex (\<lambda>x. F4 (to_cycles_GfVec4f x)) xs data)
        | VtVec4dArray xs \<Rightarrow> written (PopulateAttribte_Vertex (\<lambda>x. F4 (to_cycles_GfVec4d cv x)) xs data)
        | VtVec4iArray xs \<Rightarrow> written (PopulateAttribte_Vertex (\<lambda>x. F4 (to_cycles_GfVec4i cv x)) xs data)
        | _ \<Rightarrow> Inr (data, []))"

definition PopulateAttribute_Uniform ::
  "casts \<Rightarrow> VtValue \<Rightarrow> cell list \<Rightarrow> HdCyclesMesh \<Rightarrow> fault + cell list \<times> diagnostic list" where
  "PopulateAttribute_Uniform cv v data mesh =
     (case v of
          VtFloatArray xs \<Rightarrow> written (PopulateAttribte_Uniform (\<lambda>x. F1 (to_cycles_float x)) xs data mesh)
        | VtDoubleArray xs \<Rightarrow> written (PopulateAttribte_Uniform (\<lambda>x. F1 (to_cycles_double cv x)) xs data mesh)
        | VtIntArray xs \<Rightarrow> written (PopulateAttribte_Uniform (\<lambda>x. F1 (to_cycles_int cv x)) xs data mesh)
        | VtVec2fArray xs \<Rightarrow> written (PopulateAttribte_Uniform (\<lambda>x. F2 (to_cycles_GfVec2f x)) xs data mesh)
        | VtVec2dArray xs \<Rightarrow> written (PopulateAttribte_Uniform (\<lambda>x. F2 (to_cycles_GfVec2d cv x)) xs data mesh)
        | VtVec2iArray xs \<Rightarrow> written (PopulateAttribte_Uniform (\<lambda>x. F2 (to_cycles_GfVec2i cv x)) xs data mesh)
        | VtVec3fArray xs \<Rightarrow> written (PopulateAttribte_Uniform (\<lambda>x. F3 (to_cycles_GfVec3f x)) xs data mesh)
        | VtVec3dArray xs \<Rightarrow> written (PopulateAttribte_Uniform (\<lambda>x. F3 (to_cycles_GfVec3d cv x)) xs data mesh)
        | VtVec3iArray xs \<Rightarrow> written (PopulateAttribte_Uniform (\<lambda>x. F3 (to_cycles_GfVec3i cv x)) xs data mesh)
        | VtVec4fArray xs \<Rightarrow> written (PopulateAttribte_Uniform (\<lambda>x. F4 (to_cycles_GfVec4f x)) xs data mesh)
        | VtVec4dArray xs \<Rightarrow> written (PopulateAttribte_Uniform (\<lambda>x. F4 (to_cycles_GfVec4d cv x)) xs data mesh)
        | VtVec4iArray xs \<Rightarrow> written (PopulateAttribte_Uniform (\<lambda>x. F4 (to_cycles_GfVec4i cv x)) xs data mesh)
        | _ \<Rightarrow> Inr (data, []))"

definition PopulateAttribute_FaceVarying ::
  "casts \<Rightarrow> VtValue \<Rightarrow> cell list \<Rightarrow> HdCyclesMesh \<Rightarrow> fault + cell list \<times> diagnostic list" where
  "PopulateAttribute_FaceVarying cv v data mesh =
     (case v of
          VtFloatArray xs \<Rightarrow> written (PopulateAttribte_FaceVarying (\<lambda>x. F1 (to_cycles_float x)) xs data mesh)
        | VtDoubleArray xs \<Rightarrow> written (PopulateAttribte_FaceVarying (\<lambda>x. F1 (to_cycles_double cv x)) xs data mesh)
        | VtIntArray xs \<Rightarrow> written (PopulateAttribte_FaceVarying (\<lambda>x. F1 (to_cycles_int cv x)) xs data mesh)
        | VtVec2fArray xs \<Rightarrow> written (PopulateAttribte_FaceVarying (\<lambda>x. F2 (to_cycles_GfVec2f x)) xs data mesh)
        | VtVec2dArray xs \<Rightarrow> written (PopulateAttribte_FaceVarying (\<lambda>x. F2 (to_cycles_GfVec2d cv x)) xs data mesh)
        | VtVec2iArray xs \<Rightarrow> written (PopulateAttribte_FaceVarying (\<lambda>x. F2 (to_cycles_GfVec2i cv x)) xs data mesh)
        | VtVec3fArray xs \<Rightarrow> written (PopulateAttribte_FaceVarying (\<lambda>x. F3 (to_cycles_GfVec3f x)) xs data mesh)
        | VtVec3dArray xs \<Rightarrow> written (PopulateAttribte_FaceVarying (\<lambda>x. F3 (to_cycles_GfVec3d cv x)) xs data mesh)
        | VtVec3iArray xs \<Rightarrow> written (PopulateAttribte_FaceVarying (\<lambda>x. F3 (to_cycles_GfVec3i cv x)) xs data mesh)
        | VtVec4fArray xs \<Rightarrow> written (PopulateAttribte_FaceVarying (\<lambda>x. F4 (to_cycles_GfVec4f x)) xs data mesh)
        | VtVec4dArray xs \<Rightarrow> written (PopulateAttribte_FaceVarying (\<lambda>x. F4 (to_cycles_GfVec4d cv x)) xs data mesh)
        | VtVec4iArray xs \<Rightarrow> written (PopulateAttribte_FaceVarying (\<lambda>x. F4 (to_cycles_GfVec4i cv x)) xs data mesh)
        | _ \<Rightarrow> Inr (data, []))"

definition PopulateAttribute_Constant ::
  "casts \<Rightarrow> VtValue \<Rightarrow> cell list \<Rightarrow> fault + cell list \<times> diagnostic list" where
  "PopulateAttribute_Constant cv v data =
     (case v of
          VtFloatArray xs \<Rightarrow> written_Constant (PopulateAttribte_Constant (\<lambda>x. F1 (to_cycles_float x)) xs data)
        | VtDoubleArray xs \<Rightarrow> written_Constant (PopulateAttribte_Constant (\<lambda>x. F1 (to_cycles_double cv x)) xs data)
        | VtIntArray xs \<Rightarrow> written_Constant (PopulateAttribte_Constant (\<lambda>x. F1 (to_cycles_int cv x)) xs data)
        | VtVec2fArray xs \<Rightarrow> written_Constant (PopulateAttribte_Constant (\<lambda>x. F2 (to_cycles_GfVec2f x)) xs data)
        | VtVec2dArray xs \<Rightarrow> written_Constant (PopulateAttribte_Constant (\<lambda>x. F2 (to_cycles_GfVec2d cv x)) xs data)
        | VtVec2iArray xs \<Rightarrow> written_Constant (PopulateAttribte_Constant (\<lambda>x. F2 (to_cycles_GfVec2i cv x)) xs data)
        | VtVec3fArray xs \<Rightarrow> written_Constant (PopulateAttribte_Constant (\<lambda>x. F3 (to_cycles_GfVec3f x)) xs data)
        | VtVec3dArray xs \<Rightarrow> written_Constant (PopulateAttribte_Constant (\<lambda>x. F3 (to_cycles_GfVec3d cv x)) xs data)
        | VtVec3iArray xs \<Rightarrow> written_Constant (PopulateAttribte_Constant (\<lambda>x. F3 (to_cycles_GfVec3i cv x)) xs data)
        | VtVec4fArray xs \<Rightarrow> written_Constant (PopulateAttribte_Constant (\<lambda>x. F4 (to_cycles_GfVec4f x)) xs data)
        | VtVec4dArray xs \<Rightarrow> written_Constant (PopulateAttribte_Constant (\<lambda>x. F4 (to_cycles_GfVec4d cv x)) xs data)
        | VtVec4iArray xs \<Rightarrow> written_Constant (PopulateAttribte_Constant (\<lambda>x. F4 (to_cycles_GfVec4i cv x)) xs data)
        | _ \<Rightarrow> Inr (data, []))"

text \<open>
  \<open>_PopulateAttribute\<close>: \<open>data\<close> is the buffer of \<open>attr\<close>; the result is the buffer
  after the call with the lines written to \<open>std::cout\<close>. In the uniform branch the two
  sizes are printed first and both calls of \<open>GetFaceVertexCounts\<close> go through
  \<open>m_refiner\<close>.
\<close>

definition PopulateAttribute ::
  "casts \<Rightarrow> string \<Rightarrow> string \<Rightarrow> HdInterpolation \<Rightarrow> VtValue \<Rightarrow> cell list \<Rightarrow> HdCyclesMesh
   \<Rightarrow> fault + cell list \<times> diagnostic list" where
  "PopulateAttribute cv name role interpolation v data mesh =
     (if interpolation = HdInterpolationVertex then PopulateAttribute_Vertex cv v data
      else if interpolation = HdInterpolationUniform then
        and_then (GetFaceVertexCounts mesh)
          (\<lambda>counts.
             if GetArraySize v > length counts
             then Inr (data, [UniformSizes (GetArraySize v) (length counts), Oversized])
             else
               and_then (PopulateAttribute_Uniform cv v data mesh)
                 (\<lambda>r. Inr (fst r, UniformSizes (GetArraySize v) (length counts) # snd r)))
      else if interpolation = HdInterpolationFaceVarying
        then PopulateAttribute_FaceVarying cv v data mesh
      else if interpolation = HdInterpolationConstant then PopulateAttribute_Constant cv v data
      else Inr (data, [InterpolationUnsupported interpolation]))"

section \<open>The renderer's attribute sets\<close>

text \<open>
  An \<open>AttributeSet\<close> of the renderer is the list of its attributes. \<open>find\<close> returns
  the first attribute of a name or of a standard; \<open>add\<close> returns the attribute of the
  name when it has the asked type and element, and else puts a new attribute in its
  place, whose buffer has \<open>element_size\<close> cells of zero bytes; \<open>add\<close> for a standard
  takes the name, the type and the element of the standard and marks the attribute
  with it. A pointer to an attribute is its name.
\<close>

definition attributes_find_name :: "string \<Rightarrow> Attribute list \<Rightarrow> Attribute option" where
  "attributes_find_name n attrs = find (\<lambda>a. attr_name a = n) attrs"

definition attributes_find_std :: "AttributeStandard \<Rightarrow> Attribute list \<Rightarrow> Attribute option" where
  "attributes_find_std std attrs = find (\<lambda>a. attr_std a = std) attrs"

definition attributes_remove :: "string \<Rightarrow> Attribute list \<Rightarrow> Attribute list" where
  "attributes_remove n attrs = filter (\<lambda>a. attr_name a \<noteq> n) attrs"

fun zero_cell :: "TypeDesc \<Rightarrow> cell" where
  "zero_cell TypeFloat2 = F2 (0, 0)"
| "zero_cell TypeColor = F3 (0, 0, 0)"
| "zero_cell TypeVector = F3 (0, 0, 0)"
| "zero_cell TypeNormal = F3 (0, 0, 0)"
| "zero_cell TypePoint = F3 (0, 0, 0)"
| "zero_cell TypeFloat = F1 0"
| "zero_cell TypeUnknown = F1 0"

definition attributes_add ::
  "Environment \<Rightarrow> ccl_Mesh \<Rightarrow> string \<Rightarrow> TypeDesc \<Rightarrow> AttributeElement \<Rightarrow> Attribute list
   \<Rightarrow> Attribute list" where
  "attributes_add env geometry n ty element attrs =
     (let fresh = \<lparr>attr_name = n, attr_std = ATTR_STD_NONE, attr_type = ty,
                    attr_element = element,
                    attr_data = replicate (element_size env element geometry) (zero_cell ty)\<rparr>
      in case attributes_find_name n attrs of
           Some a \<Rightarrow>
             if attr_type a = ty \<and> attr_element a = element then attrs
             else attributes_remove n attrs @ [fresh]
         | None \<Rightarrow> attrs @ [fresh])"

definition standard_or_given :: "Environment \<Rightarrow> AttributeStandard \<Rightarrow> string \<Rightarrow> string" where
  "standard_or_given env std n = (if n = [] then standard_name env std else n)"

definition attributes_add_std ::
  "Environment \<Rightarrow> ccl_Mesh \<Rightarrow> AttributeStandard \<Rightarrow> string \<Rightarrow> Attribute list \<Rightarrow> Attribute list" where
  "attributes_add_std env geometry std n attrs =
     map (\<lambda>a. if attr_name a = standard_or_given env std n then a\<lparr>attr_std := std\<rparr> else a)
       (attributes_add env geometry (standard_or_given env std n)
          (standard_type env std) (standard_element env std) attrs)"

definition attribute_data :: "string \<Rightarrow> Attribute list \<Rightarrow> fault + cell list" where
  "attribute_data n attrs =
     (case attributes_find_name n attrs of
        None \<Rightarrow> Inl NullPointer
      | Some a \<Rightarrow> Inr (attr_data a))"

definition set_attribute_data :: "string \<Rightarrow> cell list \<Rightarrow> Attribute list \<Rightarrow> Attribute list" where
  "set_attribute_data n d attrs = map (\<lambda>a. if attr_name a = n then a\<lparr>attr_data := d\<rparr> else a) attrs"

text \<open>\<open>add_vertex\<close> and \<open>add_triangle\<close> of the renderer's mesh append to its arrays.\<close>

definition add_vertex :: "float3 \<Rightarrow> ccl_Mesh \<Rightarrow> ccl_Mesh" where
  "add_vertex P mesh = mesh\<lparr>verts := verts mesh @ [P]\<rparr>"

definition add_triangle :: "int \<Rightarrow> int \<Rightarrow> int \<Rightarrow> int \<Rightarrow> bool \<Rightarrow> ccl_Mesh \<Rightarrow> ccl_Mesh" where
  "add_triangle v0 v1 v2 material_id is_smooth mesh =
     mesh\<lparr>triangles := triangles mesh @ [(v0, v1, v2)], shader := shader mesh @ [material_id],
          smooth := smooth mesh @ [is_smooth]\<rparr>"

section \<open>Normals, vertices, motion and faces\<close>

definition neg_float3 :: "float3 \<Rightarrow> float3" where
  "neg_float3 n = (case n of (x, y, z) \<Rightarrow> (- x, - y, - z))"

definition Get_VtVec3fArray :: "VtValue \<Rightarrow> GfVec3f list" where
  "Get_VtVec3fArray v = (case v of VtVec3fArray xs \<Rightarrow> xs | _ \<Rightarrow> [])"

definition Get_VtIntArray :: "VtValue \<Rightarrow> int list" where
  "Get_VtIntArray v = (case v of VtIntArray xs \<Rightarrow> xs | _ \<Rightarrow> [])"

text \<open>
  \<open>memset(cdata, 0, n * sizeof(ccl::float3))\<close> on a buffer of \<open>float3\<close> cells.
\<close>

definition memset_float3 :: "cell list \<Rightarrow> nat \<Rightarrow> fault + cell list" where
  "memset_float3 cdata n =
     (if n \<le> length cdata then Inr (replicate n (F3 (0, 0, 0)) @ drop n cdata)
      else Inl OutOfBounds)"

text \<open>
  The inner loop of the uniform branch of \<open>_AddNormals\<close>,
  \<open>for (int j = 1; j < vCount - 1; ++idx) fN[idx] = vec3f_to_float3(normals[idx])\<close>,
  never changes \<open>j\<close>: once entered it goes on until \<open>idx\<close> leaves one of the arrays.
\<close>

function AddNormals_Uniform_face ::
  "GfVec3f list \<Rightarrow> int \<Rightarrow> nat \<times> cell list \<Rightarrow> fault + nat \<times> cell list" where
  "AddNormals_Uniform_face normals vCount s =
     (if 1 < vCount - 1 then
        (if fst s < length normals \<and> fst s < length (snd s)
         then AddNormals_Uniform_face normals vCount
                (fst s + 1, (snd s)[fst s := F3 (vec3f_to_float3 (normals ! fst s))])
         else Inl OutOfBounds)
      else Inr s)"
  by pat_completeness auto
termination
  by (relation "measure (\<lambda>(normals, vCount, s). length normals - fst s)") auto

definition AddNormals ::
  "Environment \<Rightarrow> GfVec3f list \<Rightarrow> HdInterpolation \<Rightarrow> HdCyclesMesh \<Rightarrow> fault + HdCyclesMesh" where
  "AddNormals env normals interpolation self =
     (let mesh = m_cyclesMesh self in
      if interpolation = HdInterpolationUniform then
        (let attrs = attributes_add_std env mesh ATTR_STD_FACE_NORMAL [] (attributes mesh);
             n = standard_name env ATTR_STD_FACE_NORMAL
         in and_then (attribute_data n attrs) (\<lambda>fN.
            and_then (GetFaceVertexCounts self) (\<lambda>vertex_counts.
            and_then (for_each vertex_counts (AddNormals_Uniform_face normals) (0, fN)) (\<lambda>s.
            Inr (self\<lparr>m_cyclesMesh := mesh\<lparr>attributes := set_attribute_data n (snd s) attrs\<rparr>\<rparr>)))))
      else if interpolation = HdInterpolationVertex then
        (let attrs = attributes_add_std env mesh ATTR_STD_VERTEX_NORMAL [] (attributes mesh);
             n = standard_name env ATTR_STD_VERTEX_NORMAL
         in and_then (attribute_data n attrs) (\<lambda>cdata.
            and_then (memset_float3 cdata (length (verts mesh))) (\<lambda>cdata0.
            and_then
              (for_each [0..<length (verts mesh)]
                 (\<lambda>i d. and_then (load normals i)
                    (\<lambda>x. store d i
                           (F3 (if m_orientation self = leftHanded
                                then neg_float3 (vec3f_to_float3 x) else vec3f_to_float3 x))))
                 cdata0)
              (\<lambda>d. Inr (self\<lparr>m_cyclesMesh :=
                               mesh\<lparr>attributes := set_attribute_data n d attrs\<rparr>\<rparr>)))))
      else if interpolation = HdInterpolationFaceVarying then
        Inr (self\<lparr>m_cyclesMesh := Mesh_add_vertex_normals env (Mesh_add_face_normals env mesh)\<rparr>)
      else Inr self)"

definition PopulateVertices :: "HdSceneDelegate \<Rightarrow> HdCyclesMesh \<Rightarrow> fault + HdCyclesMesh" where
  "PopulateVertices sceneDelegate self =
     (case m_refiner self of
        None \<Rightarrow> Inl NullPointer
      | Some refiner \<Rightarrow>
          (let points_value = GetPrimvar sceneDelegate ''points'';
               refined_points_value = RefineVertexData refiner points_value;
               points = Get_VtVec3fArray refined_points_value
           in Inr (self\<lparr>m_cyclesMesh :=
                          fold (\<lambda>p. add_vertex (case p of (x, y, z) \<Rightarrow> (x, y, z))) points
                            (m_cyclesMesh self)\<rparr>)))"

text \<open>
  One round of the loop of \<open>_PopulateMotion\<close> over the position samples: a sample at
  time 0 is passed over; of any other the first \<open>m_numMeshVerts\<close> points are written
  at the pointer \<open>mP\<close>, which is the position \<open>fst s\<close> in the buffer \<open>snd s\<close>.
\<close>

definition PopulateMotion_sample ::
  "nat \<Rightarrow> float \<times> VtValue \<Rightarrow> nat \<times> cell list \<Rightarrow> fault + nat \<times> cell list" where
  "PopulateMotion_sample numMeshVerts sample s =
     (if fst sample = 0 then Inr s
      else
        (let pp = Get_VtVec3fArray (snd sample)
         in for_each [0..<numMeshVerts]
              (\<lambda>j s. and_then (load pp j)
                 (\<lambda>x. and_then (store (snd s) (fst s) (F3 (vec3f_to_float3 x)))
                        (\<lambda>d. Inr (fst s + 1, d))))
              s))"

definition PopulateMotion :: "Environment \<Rightarrow> HdCyclesMesh \<Rightarrow> fault + HdCyclesMesh" where
  "PopulateMotion env self =
     (if length (m_pointSamples self) \<le> 1 then Inr self
      else
        (let mesh = (m_cyclesMesh self)
               \<lparr>use_motion_blur := True, motion_steps := length (m_pointSamples self) + 1\<rparr>;
             attrs = (if m_useSubdivision self then subd_attributes mesh else attributes mesh);
             n = standard_name env ATTR_STD_MOTION_VERTEX_POSITION
         in case attributes_find_std ATTR_STD_MOTION_VERTEX_POSITION attrs of
              Some attr_mP \<Rightarrow> Inl DanglingPointer
            | None \<Rightarrow>
                (let attrs1 = attributes_add_std env mesh ATTR_STD_MOTION_VERTEX_POSITION [] attrs
                 in and_then (attribute_data n attrs1) (\<lambda>mP.
                    and_then
                      (for_each (m_pointSamples self)
                         (PopulateMotion_sample (m_numMeshVerts self)) (0, mP))
                      (\<lambda>s. Inr (self\<lparr>m_cyclesMesh :=
                                   (if m_useSubdivision self
                                    then mesh\<lparr>subd_attributes := set_attribute_data n (snd s) attrs1\<rparr>
                                    else mesh\<lparr>attributes := set_attribute_data n (snd s) attrs1\<rparr>)\<rparr>))))))"

definition PopulateFaces ::
  "Environment \<Rightarrow> int list \<Rightarrow> HdCyclesMesh \<Rightarrow> fault + HdCyclesMesh" where
  "PopulateFaces env input_material_ids self =
     (case m_refiner self of
        None \<Rightarrow> Inl NullPointer
      | Some refiner \<Rightarrow>
          (let mesh = Mesh_reserve_mesh env (GetNumVertices refiner) (GetNumTriangles refiner)
                        (m_cyclesMesh self);
               refined_indices = RefinedIndices refiner;
               material_ids = Get_VtIntArray (RefineUniformData refiner (VtIntArray input_material_ids))
           in Inr (self\<lparr>m_cyclesMesh :=
                          fold (\<lambda>i. add_triangle (fst (refined_indices ! i))
                                      (fst (snd (refined_indices ! i)))
                                      (snd (snd (refined_indices ! i)))
                                      (if i < length material_ids then material_ids ! i else 0)
                                      True)
                            [0..<length refined_indices] mesh\<rparr>)))"

section \<open>Transforms\<close>

definition transform_identity :: Transform where
  "transform_identity = ((1, 0, 0, 0), (0, 1, 0, 0), (0, 0, 1, 0))"

definition transform_empty :: Transform where
  "transform_empty = ((0, 0, 0, 0), (0, 0, 0, 0), (0, 0, 0, 0))"

definition mat4d_to_transform :: "casts \<Rightarrow> GfMatrix4d \<Rightarrow> Transform" where
  "mat4d_to_transform cv mat =
     (case mat of
        ((m00, m01, m02, m03), (m10, m11, m12, m13), (m20, m21, m22, m23), (m30, m31, m32, m33)) \<Rightarrow>
          ((float_of_double cv m00, float_of_double cv m10, float_of_double cv m20,
            float_of_double cv m30),
           (float_of_double cv m01, float_of_double cv m11, float_of_double cv m21,
            float_of_double cv m31),
           (float_of_double cv m02, float_of_double cv m12, float_of_double cv m22,
            float_of_double cv m32)))"

text \<open>
  The first loop of \<open>HdCyclesSetTransform\<close>: every sample at time 0 sets the transform
  and \<open>foundCenter\<close>. The state is the object with the flag.
\<close>

definition SetTransform_center ::
  "casts \<Rightarrow> float \<times> GfMatrix4d \<Rightarrow> ccl_Object \<times> bool \<Rightarrow> ccl_Object \<times> bool" where
  "SetTransform_center cv sample s =
     (if fst sample = 0 then ((fst s)\<lparr>tfm := mat4d_to_transform cv (snd sample)\<rparr>, True) else s)"

text \<open>
  The last loop of \<open>HdCyclesSetTransform\<close>: the sample \<open>i\<close> sets the transform when its
  time is 0, and the motion step \<open>i\<close>. (\<open>motion_step\<close> of the geometry is called for its
  value only, which is not used.)
\<close>

definition SetTransform_step ::
  "casts \<Rightarrow> (float \<times> GfMatrix4d) list \<Rightarrow> nat \<Rightarrow> ccl_Object \<Rightarrow> ccl_Object" where
  "SetTransform_step cv xf i object =
     (let object1 = (if fst (xf ! i) = 0
                     then object\<lparr>tfm := mat4d_to_transform cv (snd (xf ! i))\<rparr> else object)
      in object1\<lparr>motion := (motion object1)[i := mat4d_to_transform cv (snd (xf ! i))]\<rparr>)"

text \<open>
  \<open>HdCyclesSetTransform\<close>: \<open>object\<close> is the pointer (\<open>None\<close> is null), \<open>geometry\<close> the
  mesh \<open>object->geometry\<close> points to. The result is the object and the geometry after
  the call, with the sample array returned.
\<close>

definition HdCyclesSetTransform ::
  "casts \<Rightarrow> ccl_Object option \<Rightarrow> ccl_Mesh option \<Rightarrow> HdSceneDelegate \<Rightarrow> bool
   \<Rightarrow> ccl_Object option \<times> ccl_Mesh option \<times> (float \<times> GfMatrix4d) list" where
  "HdCyclesSetTransform cv object_ptr geometry delegate use_motion =
     (case object_ptr of
        None \<Rightarrow> (None, geometry, [])
      | Some object \<Rightarrow>
          (let xf = SampleTransform delegate;
               sampleCount = length xf
           in if sampleCount = 0 then (Some (object\<lparr>tfm := transform_identity\<rparr>), geometry, xf)
              else
                (let object1 =
                       (if sampleCount > 1 then
                          (let r = fold (SetTransform_center cv) xf (object, False)
                           in if \<not> snd r
                              then (fst r)\<lparr>tfm := mat4d_to_transform cv (snd (xf ! 0))\<rparr>
                              else fst r)
                        else object\<lparr>tfm := mat4d_to_transform cv (snd (xf ! 0))\<rparr>)
                 in if \<not> use_motion then (Some object1, geometry, xf)
                    else
                      (let object2 = object1\<lparr>motion := []\<rparr>
                       in case geometry of
                            Some g \<Rightarrow>
                              if use_motion_blur g \<and> motion_steps g \<noteq> sampleCount
                              then (Some (object2\<lparr>motion := replicate (motion_steps g) (tfm object2)\<rparr>),
                                    geometry, xf)
                              else if motion_steps g = sampleCount
                              then
                                (let g1 = g\<lparr>use_motion_blur := True\<rparr>;
                                     g2 = (if transform_applied g1 then g1\<lparr>need_update := True\<rparr>
                                           else g1);
                                     object3 = object2\<lparr>motion := replicate sampleCount transform_empty\<rparr>
                                 in (Some (fold (SetTransform_step cv xf) [0..<sampleCount] object3),
                                     Some g2, xf))
                              else (Some object2, geometry, xf)
                          | None \<Rightarrow> (Some object2, geometry, xf)))))"

section \<open>Colours, texture coordinates and tangents\<close>

text \<open>
  \<open>_AddColors\<close>. The state is the primitive with the events so far. When the primvar is
  a constant \<open>displayColor\<close> of a type other than the four \<open>float\<close> array types, the
  source prints a line and then reads the local \<open>displayColor\<close>, which it never set.
\<close>

definition AddColors_celem :: "HdInterpolation \<Rightarrow> AttributeElement" where
  "AddColors_celem interpolation =
     (case interpolation of
        HdInterpolationConstant \<Rightarrow> ATTR_ELEMENT_MESH
      | HdInterpolationVertex \<Rightarrow> ATTR_ELEMENT_VERTEX
      | HdInterpolationVarying \<Rightarrow> ATTR_ELEMENT_CORNER
      | HdInterpolationFaceVarying \<Rightarrow> ATTR_ELEMENT_CORNER
      | HdInterpolationUniform \<Rightarrow> ATTR_ELEMENT_FACE
      | HdInterpolationInstance \<Rightarrow> ATTR_ELEMENT_NONE)"

definition AddColors_ctype :: "VtValue \<Rightarrow> TypeDesc" where
  "AddColors_ctype colors =
     (case colors of
        VtFloatArray xs \<Rightarrow> TypeFloat
      | VtDoubleArray xs \<Rightarrow> TypeFloat
      | VtIntArray xs \<Rightarrow> TypeFloat
      | VtBoolArray xs \<Rightarrow> TypeFloat
      | VtVec2fArray xs \<Rightarrow> TypeFloat2
      | VtVec2dArray xs \<Rightarrow> TypeFloat2
      | VtVec2iArray xs \<Rightarrow> TypeFloat2
      | VtVec3fArray xs \<Rightarrow> TypeColor
      | VtVec3dArray xs \<Rightarrow> TypeColor
      | VtVec3iArray xs \<Rightarrow> TypeColor
      | VtVec4fArray xs \<Rightarrow> TypeVector
      | VtVec4dArray xs \<Rightarrow> TypeVector
      | VtVec4iArray xs \<Rightarrow> TypeVector
      | _ \<Rightarrow> TypeUnknown)"

definition displayColor_of :: "Environment \<Rightarrow> VtValue \<Rightarrow> fault + float4" where
  "displayColor_of env colors =
     (case colors of
        VtFloatArray xs \<Rightarrow> and_then (load xs 0) (\<lambda>x. Inr (vec1f_to_float4 x))
      | VtVec2fArray xs \<Rightarrow>
          and_then (load xs 0)
            (\<lambda>x. Inr (vec2f_to_float4 x (vec2f_to_float4_a_z env) (vec2f_to_float4_a_alpha env)))
      | VtVec3fArray xs \<Rightarrow>
          and_then (load xs 0) (\<lambda>x. Inr (vec3f_to_float4 x (vec3f_to_float4_a_alpha env)))
      | VtVec4fArray xs \<Rightarrow> and_then (load xs 0) (\<lambda>x. Inr (vec4f_to_float4 x))
      | _ \<Rightarrow> Inl Uninitialised)"

definition displayColor_token :: string where
  "displayColor_token = ''displayColor''"

definition AddColors ::
  "Environment \<Rightarrow> string \<Rightarrow> string \<Rightarrow> VtValue \<Rightarrow> HdInterpolation \<Rightarrow> HdCyclesMesh \<times> event list
   \<Rightarrow> fault + HdCyclesMesh \<times> event list" where
  "AddColors env name role colors interpolation s =
     (if IsEmpty colors then Inr s
      else
        (let self = fst s;
             mesh = m_cyclesMesh self;
             celem = AddColors_celem interpolation;
             ctype = AddColors_ctype colors;
             attrs = attributes_add env mesh name ctype celem (attributes mesh)
         in and_then (attribute_data name attrs) (\<lambda>data.
            and_then (PopulateAttribute (numeric env) name ''vector'' interpolation colors data self)
              (\<lambda>r.
                 let self1 = self\<lparr>m_cyclesMesh :=
                                    mesh\<lparr>attributes := set_attribute_data name (fst r) attrs\<rparr>\<rparr>;
                     events1 = snd s @ map Cout (snd r)
                 in if name = displayColor_token \<and> interpolation = HdInterpolationConstant
                    then
                      and_then (displayColor_of env colors)
                        (\<lambda>displayColor.
                           Inr (self1\<lparr>m_cyclesObject :=
                                        (m_cyclesObject self1)
                                          \<lparr>color := (case displayColor of (x, y, z, w) \<Rightarrow> (x, y, z))\<rparr>\<rparr>,
                                events1))
                    else Inr (self1, events1)))))"

text \<open>
  \<open>mikk_compute_tangents\<close>, for a mesh without subdivision faces (this code creates
  none) and a layer name that is not null. \<open>genTangSpaceDefault\<close> of the tangent-space
  library fills the two buffers through the callbacks.
\<close>

definition mikk_compute_tangents ::
  "Environment \<Rightarrow> string \<Rightarrow> ccl_Mesh \<Rightarrow> bool \<Rightarrow> bool \<Rightarrow> fault + ccl_Mesh" where
  "mikk_compute_tangents env layer_name mesh need_sign active_render =
     (let tangent_name = layer_name @ ''.tangent'';
          attrs1 = (if active_render
                    then attributes_add_std env mesh ATTR_STD_UV_TANGENT tangent_name (attributes mesh)
                    else attributes_add env mesh tangent_name TypeVector ATTR_ELEMENT_CORNER
                           (attributes mesh));
          name_sign = layer_name @ ''.tangent_sign'';
          attrs2 = (if need_sign
                    then (if active_render
                          then attributes_add_std env mesh ATTR_STD_UV_TANGENT_SIGN name_sign attrs1
                          else attributes_add env mesh name_sign TypeFloat ATTR_ELEMENT_CORNER attrs1)
                    else attrs1);
          mesh2 = mesh\<lparr>attributes := attrs2\<rparr>;
          mesh3 = (case attributes_find_std ATTR_STD_VERTEX_NORMAL (attributes mesh2) of
                     None \<Rightarrow> Mesh_add_vertex_normals env (Mesh_add_face_normals env mesh2)
                   | Some attr_vN \<Rightarrow> mesh2)
      in case attributes_find_std ATTR_STD_VERTEX_NORMAL (attributes mesh3) of
           None \<Rightarrow> Inl NullPointer
         | Some attr_vN \<Rightarrow>
             and_then (attribute_data tangent_name (attributes mesh3)) (\<lambda>tangent.
             and_then (if need_sign then attribute_data name_sign (attributes mesh3) else Inr [])
               (\<lambda>tangent_sign.
                  let r = genTangSpaceDefault env mesh3 layer_name (tangent, tangent_sign);
                      attrs3 = set_attribute_data tangent_name (fst r) (attributes mesh3)
                  in Inr (mesh3\<lparr>attributes :=
                                  (if need_sign then set_attribute_data name_sign (snd r) attrs3
                                   else attrs3)\<rparr>))))"

definition AddUVSet ::
  "Environment \<Rightarrow> string \<Rightarrow> VtValue \<Rightarrow> HdInterpolation \<Rightarrow> HdCyclesMesh \<times> event list
   \<Rightarrow> fault + HdCyclesMesh \<times> event list" where
  "AddUVSet env name uvs interpolation s =
     (let self = fst s;
          mesh = m_cyclesMesh self;
          attrs = attributes_add_std env mesh ATTR_STD_UV name (attributes mesh);
          uv_name = standard_or_given env ATTR_STD_UV name
      in and_then (attribute_data uv_name attrs) (\<lambda>data.
         and_then (PopulateAttribute (numeric env) name ''textureCoordinate'' interpolation uvs data self)
           (\<lambda>r.
              and_then
                (mikk_compute_tangents env name
                   (mesh\<lparr>attributes := set_attribute_data uv_name (fst r) attrs\<rparr>) True True)
                (\<lambda>mesh'. Inr (self\<lparr>m_cyclesMesh := mesh'\<rparr>, snd s @ map Cout (snd r))))))"

section \<open>Finishing the mesh\<close>

text \<open>
  \<open>HdCyclesMeshTextureSpace\<close> and \<open>_PopulateGenerated\<close> compute with \<open>float\<close> values,
  component by component; the operations are those of the \<open>casts\<close> record. The
  constants \<open>2.0f\<close> and \<open>0.5f\<close> are the numbers 2 and 1/2.
\<close>

definition float3_map2 :: "(float \<Rightarrow> float \<Rightarrow> float) \<Rightarrow> float3 \<Rightarrow> float3 \<Rightarrow> float3" where
  "float3_map2 f a b =
     (case a of (ax, ay, az) \<Rightarrow> case b of (bx, by, bz) \<Rightarrow> (f ax bx, f ay by, f az bz))"

definition half_reciprocal :: "casts \<Rightarrow> float \<Rightarrow> float" where
  "half_reciprocal cv x = (if x \<noteq> 0 then float_div cv (1 / 2) x else x)"

definition HdCyclesMeshTextureSpace :: "casts \<Rightarrow> ccl_Mesh \<Rightarrow> float3 \<times> float3" where
  "HdCyclesMeshTextureSpace cv a_geom =
     (let bmin = fst (bounds a_geom);
          bmax = snd (bounds a_geom);
          a_loc = float3_map2 (\<lambda>a b. float_div cv (float_add cv a b) 2) bmax bmin;
          a_size0 = float3_map2 (\<lambda>a b. float_div cv (float_sub cv a b) 2) bmax bmin;
          a_size = (case a_size0 of (x, y, z) \<Rightarrow>
                      (half_reciprocal cv x, half_reciprocal cv y, half_reciprocal cv z))
      in (float3_map2 (\<lambda>a b. float_sub cv (float_mul cv a b) (1 / 2)) a_loc a_size, a_size))"

definition PopulateGenerated :: "Environment \<Rightarrow> HdCyclesMesh \<Rightarrow> fault + HdCyclesMesh" where
  "PopulateGenerated env self =
     (let mesh = m_cyclesMesh self
      in if Mesh_need_attribute env mesh ATTR_STD_GENERATED then
           (let loc = fst (HdCyclesMeshTextureSpace (numeric env) mesh);
                size3 = snd (HdCyclesMeshTextureSpace (numeric env) mesh);
                attrs = (if m_useSubdivision self then subd_attributes mesh else attributes mesh);
                attrs1 = attributes_add_std env mesh ATTR_STD_GENERATED [] attrs;
                n = standard_name env ATTR_STD_GENERATED
            in and_then (attribute_data n attrs1) (\<lambda>generated.
               and_then
                 (for_each [0..<length (verts mesh)]
                    (\<lambda>i d. store d i
                       (F3 (float3_map2 (float_sub (numeric env))
                              (float3_map2 (float_mul (numeric env)) (verts mesh ! i) size3)
                              loc)))
                    generated)
                 (\<lambda>d. Inr (self\<lparr>m_cyclesMesh :=
                               (if m_useSubdivision self
                                then mesh\<lparr>subd_attributes := set_attribute_data n d attrs1\<rparr>
                                else mesh\<lparr>attributes := set_attribute_data n d attrs1\<rparr>)\<rparr>))))
         else Inr self)"

definition FinishMesh :: "Environment \<Rightarrow> HdCyclesMesh \<Rightarrow> fault + HdCyclesMesh" where
  "FinishMesh env self =
     PopulateGenerated env
       (self\<lparr>m_cyclesMesh :=
               (m_cyclesMesh self)\<lparr>bounds := Mesh_compute_bounds env (m_cyclesMesh self)\<rparr>\<rparr>)"

section \<open>Dirty bits\<close>

text \<open>
  The bits of \<open>HdChangeTracker\<close> and its tests, as the scene-graph library declares
  them: a primvar is dirty by the bit of points, normals or widths when it has one of
  these names, and by the bit of primvars otherwise.
\<close>

definition Clean :: HdDirtyBits where "Clean = 0"
definition DirtyPrimID :: HdDirtyBits where "DirtyPrimID = push_bit 2 1"
definition DirtyDisplayStyle :: HdDirtyBits where "DirtyDisplayStyle = push_bit 4 1"
definition DirtyPoints :: HdDirtyBits where "DirtyPoints = push_bit 5 1"
definition DirtyPrimvar :: HdDirtyBits where "DirtyPrimvar = push_bit 6 1"
definition DirtyMaterialId :: HdDirtyBits where "DirtyMaterialId = push_bit 7 1"
definition DirtyTopology :: HdDirtyBits where "DirtyTopology = push_bit 8 1"
definition DirtyTransform :: HdDirtyBits where "DirtyTransform = push_bit 9 1"
definition DirtyVisibility :: HdDirtyBits where "DirtyVisibility = push_bit 10 1"
definition DirtyNormals :: HdDirtyBits where "DirtyNormals = push_bit 11 1"
definition DirtyDoubleSided :: HdDirtyBits where "DirtyDoubleSided = push_bit 12 1"
definition DirtySubdivTags :: HdDirtyBits where "DirtySubdivTags = push_bit 14 1"
definition DirtyWidths :: HdDirtyBits where "DirtyWidths = push_bit 15 1"
definition DirtyInstancer :: HdDirtyBits where "DirtyInstancer = push_bit 16 1"

definition is_set :: "HdDirtyBits \<Rightarrow> HdDirtyBits \<Rightarrow> bool" where
  "is_set dirtyBits flag = (dirtyBits AND flag \<noteq> 0)"

definition IsPrimvarDirty :: "HdDirtyBits \<Rightarrow> string \<Rightarrow> bool" where
  "IsPrimvarDirty dirtyBits name =
     (if name = ''points'' then is_set dirtyBits DirtyPoints
      else if name = ''normals'' then is_set dirtyBits DirtyNormals
      else if name = ''widths'' then is_set dirtyBits DirtyWidths
      else is_set dirtyBits DirtyPrimvar)"

definition IsTopologyDirty :: "HdDirtyBits \<Rightarrow> bool" where
  "IsTopologyDirty dirtyBits = is_set dirtyBits DirtyTopology"

definition IsSubdivTagsDirty :: "HdDirtyBits \<Rightarrow> bool" where
  "IsSubdivTagsDirty dirtyBits = is_set dirtyBits DirtySubdivTags"

definition IsDisplayStyleDirty :: "HdDirtyBits \<Rightarrow> bool" where
  "IsDisplayStyleDirty dirtyBits = is_set dirtyBits DirtyDisplayStyle"

section \<open>\<open>HdCyclesMesh::Sync\<close>\<close>

text \<open>
  The locals of \<open>Sync\<close> that live across its blocks, with the primitive and the events
  so far. Each block of \<open>Sync\<close> is a function on this frame, in the order of the source.
\<close>

record Frame =
  rprim :: HdCyclesMesh
  events :: "event list"
  mesh_updated :: bool
  newMesh :: bool

definition Sync_points :: "HdSceneDelegate \<Rightarrow> HdDirtyBits \<Rightarrow> Frame \<Rightarrow> Frame" where
  "Sync_points sceneDelegate dirtyBits fr =
     (case find (\<lambda>desc_name. desc_name = ''points'')
             (GetExtComputationPrimvarDescriptors sceneDelegate HdInterpolationVertex) of
        None \<Rightarrow> fr
      | Some desc_name \<Rightarrow>
          if IsPrimvarDirty dirtyBits desc_name then
            (let fr1 = fr\<lparr>mesh_updated := True\<rparr>
             in case GetComputedPrimvarValues sceneDelegate desc_name of
                  None \<Rightarrow> fr1
                | Some v \<Rightarrow>
                    if \<not> IsEmpty v then
                      fr1\<lparr>rprim := (rprim fr1)
                             \<lparr>m_points := Get_VtVec3fArray v,
                              m_numMeshVerts := length (Get_VtVec3fArray v),
                              m_normalsValid := False\<rparr>,
                          newMesh := True\<rparr>
                    else fr1)
          else fr)"

definition Sync_topology ::
  "Environment \<Rightarrow> HdSceneDelegate \<Rightarrow> HdDirtyBits \<Rightarrow> Frame \<Rightarrow> Frame" where
  "Sync_topology env sceneDelegate dirtyBits fr =
     (if IsTopologyDirty dirtyBits \<or> IsSubdivTagsDirty dirtyBits \<or> IsDisplayStyleDirty dirtyBits
      then
        fr\<lparr>rprim := (rprim fr)
               \<lparr>m_topology := GetMeshTopology sceneDelegate,
                m_refiner := HdCyclesMeshRefiner_Create env (GetMeshTopology sceneDelegate),
                m_adjacencyValid := False,
                m_normalsValid := False\<rparr>,
            newMesh := True\<rparr>
      else fr)"

text \<open>
  \<open>primvarDescsPerInterpolation\<close> is a \<open>std::map\<close>: it is walked in the order of its
  keys, the values of the enumeration \<open>HdInterpolation\<close>.
\<close>

definition primvarDescsPerInterpolation ::
  "HdSceneDelegate \<Rightarrow> (HdInterpolation \<times> HdPrimvarDescriptor list) list" where
  "primvarDescsPerInterpolation sceneDelegate =
     [(HdInterpolationConstant, GetPrimvarDescriptors sceneDelegate HdInterpolationConstant),
      (HdInterpolationUniform, GetPrimvarDescriptors sceneDelegate HdInterpolationUniform),
      (HdInterpolationVertex, GetPrimvarDescriptors sceneDelegate HdInterpolationVertex),
      (HdInterpolationFaceVarying, GetPrimvarDescriptors sceneDelegate HdInterpolationFaceVarying)]"

definition Sync_doubleSided :: "HdSceneDelegate \<Rightarrow> HdDirtyBits \<Rightarrow> Frame \<Rightarrow> Frame" where
  "Sync_doubleSided sceneDelegate dirtyBits fr =
     (if is_set dirtyBits DirtyDoubleSided
      then fr\<lparr>mesh_updated := True,
              rprim := (rprim fr)\<lparr>m_doubleSided := GetDoubleSided sceneDelegate\<rparr>\<rparr>
      else fr)"

definition Sync_displayStyle :: "HdSceneDelegate \<Rightarrow> HdDirtyBits \<Rightarrow> Frame \<Rightarrow> Frame" where
  "Sync_displayStyle sceneDelegate dirtyBits fr =
     (if is_set dirtyBits DirtyDisplayStyle then
        (let fr1 = fr\<lparr>mesh_updated := True,
                       rprim := (rprim fr)\<lparr>m_displayStyle_refineLevel :=
                                            GetDisplayStyle_refineLevel sceneDelegate\<rparr>\<rparr>
         in if m_refineLevel (rprim fr1) \<noteq> m_displayStyle_refineLevel (rprim fr1)
            then fr1\<lparr>rprim := (rprim fr1)\<lparr>m_refineLevel := m_displayStyle_refineLevel (rprim fr1)\<rparr>,
                     newMesh := True\<rparr>
            else fr1)
      else fr)"

text \<open>
  The body of the loop under \<open>USE_USD_CYCLES_SCHEMA\<close>, for one primvar descriptor. The
  steps and the pass id are read through \<open>_HdCyclesGetMeshParam<bool>\<close>, so their
  \<open>int\<close> goes to \<open>bool\<close> and back.
\<close>

definition bool_to_int :: "bool \<Rightarrow> int" where
  "bool_to_int b = (if b then 1 else 0)"

definition Sync_schema_primvar ::
  "Environment \<Rightarrow> HdSceneDelegate \<Rightarrow> HdDirtyBits \<Rightarrow> HdPrimvarDescriptor \<Rightarrow> Frame \<Rightarrow> Frame" where
  "Sync_schema_primvar env sceneDelegate dirtyBits pv fr =
     (let this = rprim fr;
          get_bool = HdCyclesGetMeshParam_bool env sceneDelegate pv dirtyBits;
          subdivisionType = HdCyclesGetMeshParam_TfToken env sceneDelegate pv dirtyBits
                              ''primvarsCyclesMeshSubdivision_type'' ''catmull_clark'';
          visCamera = get_bool ''primvarsCyclesObjectVisibilityCamera'' (m_visCamera this);
          visDiffuse = get_bool ''primvarsCyclesObjectVisibilityDiffuse'' (m_visDiffuse this);
          visGlossy = get_bool ''primvarsCyclesObjectVisibilityGlossy'' (m_visGlossy this);
          visScatter = get_bool ''primvarsCyclesObjectVisibilityScatter'' (m_visScatter this);
          visShadow = get_bool ''primvarsCyclesObjectVisibilityShadow'' (m_visShadow this);
          visTransmission = get_bool ''primvarsCyclesObjectVisibilityTransmission''
                              (m_visTransmission this)
      in fr\<lparr>rprim := this
               \<lparr>m_useMotionBlur := get_bool ''primvarsCyclesObjectMblur'' (m_useMotionBlur this),
                m_useDeformMotionBlur :=
                  get_bool ''primvarsCyclesObjectMblurDeform'' (m_useDeformMotionBlur this),
                m_motionSteps :=
                  bool_to_int (get_bool ''primvarsCyclesObjectMblurSteps'' (m_motionSteps this \<noteq> 0)),
                m_cyclesMesh := (m_cyclesMesh this)
                  \<lparr>subdivision_type :=
                     (if subdivisionType = ''catmull_clark'' then SUBDIVISION_CATMULL_CLARK
                      else if subdivisionType = ''linear'' then SUBDIVISION_LINEAR
                      else SUBDIVISION_NONE)\<rparr>,
                m_dicingRate :=
                  HdCyclesGetMeshParam_float env sceneDelegate pv dirtyBits
                    ''primvarsCyclesMeshDicingRate'' (m_dicingRate this),
                m_maxSubdivision :=
                  HdCyclesGetMeshParam_int env sceneDelegate pv dirtyBits
                    ''primvarsCyclesMeshSubdivision_max_level'' (m_maxSubdivision this),
                m_cyclesObject := (m_cyclesObject this)
                  \<lparr>is_shadow_catcher :=
                     get_bool ''primvarsCyclesObjectIs_shadow_catcher''
                       (is_shadow_catcher (m_cyclesObject this)),
                   pass_id :=
                     bool_to_int (get_bool ''primvarsCyclesObjectPass_id''
                                    (pass_id (m_cyclesObject this) \<noteq> 0)),
                   use_holdout :=
                     get_bool ''primvarsCyclesObjectUse_holdout'' (use_holdout (m_cyclesObject this))\<rparr>,
                m_visCamera := visCamera,
                m_visDiffuse := visDiffuse,
                m_visGlossy := visGlossy,
                m_visScatter := visScatter,
                m_visShadow := visShadow,
                m_visTransmission := visTransmission,
                m_visibilityFlags :=
                  0 OR (if visCamera then PATH_RAY_CAMERA env else 0)
                    OR (if visDiffuse then PATH_RAY_DIFFUSE env else 0)
                    OR (if visGlossy then PATH_RAY_GLOSSY env else 0)
                    OR (if visScatter then PATH_RAY_VOLUME_SCATTER env else 0)
                    OR (if visShadow then PATH_RAY_SHADOW env else 0)
                    OR (if visTransmission then PATH_RAY_TRANSMIT env else 0)\<rparr>,
             mesh_updated := True\<rparr>)"

definition Sync_schema ::
  "Environment \<Rightarrow> HdSceneDelegate \<Rightarrow> HdDirtyBits \<Rightarrow> Frame \<Rightarrow> Frame" where
  "Sync_schema env sceneDelegate dirtyBits fr =
     (if USE_USD_CYCLES_SCHEMA env
      then fold (\<lambda>primvarDescsEntry.
                   fold (Sync_schema_primvar env sceneDelegate dirtyBits) (snd primvarDescsEntry))
             (primvarDescsPerInterpolation sceneDelegate) fr
      else fr)"

text \<open>
  One geometric subset of the new-mesh block: its material index, and the faces it
  marks in \<open>faceMaterials\<close>.
\<close>

definition Sync_subset ::
  "HdSceneDelegate \<Rightarrow> HdGeomSubset \<Rightarrow> Frame \<times> int list \<Rightarrow> fault + Frame \<times> int list" where
  "Sync_subset sceneDelegate geomSubset s =
     (let fr = fst s;
          this = rprim fr;
          r = (if subset_materialId geomSubset \<noteq> [] then
                 (case GetSprim sceneDelegate (subset_materialId geomSubset) of
                    Some (Some subMat_shader) \<Rightarrow>
                      (let r1 =
                             (case map_of (m_materialMap this) (subset_materialId geomSubset) of
                                None \<Rightarrow>
                                  (fr\<lparr>rprim := this
                                         \<lparr>m_usedShaders := m_usedShaders this @ [subMat_shader],
                                          m_materialMap :=
                                            m_materialMap this
                                            @ [(subset_materialId geomSubset,
                                                length (m_usedShaders this) + 1)]\<rparr>,
                                      events := events fr @ [Shader_tag_update subMat_shader]\<rparr>,
                                   int (length (m_usedShaders this) + 1))
                              | Some k \<Rightarrow> (fr, int k))
                       in ((fst r1)\<lparr>rprim := (rprim (fst r1))
                                    \<lparr>m_cyclesMesh := (m_cyclesMesh (rprim (fst r1)))
                                         \<lparr>used_shaders := m_usedShaders (rprim (fst r1))\<rparr>\<rparr>\<rparr>,
                           snd r1))
                  | _ \<Rightarrow> (fr, 0))
               else (fr, 0))
      in and_then
           (for_each (subset_indices geomSubset)
              (\<lambda>i faceMaterials. store_int faceMaterials i (max (snd r - 1) 0)) (snd s))
           (\<lambda>faceMaterials. Inr (fst r, faceMaterials)))"

text \<open>
  The body of the loop that ingests the primvars, for the descriptor \<open>pv\<close> of the
  interpolation \<open>interpolation\<close>.
\<close>

definition with_self_events :: "Frame \<Rightarrow> HdCyclesMesh \<times> event list \<Rightarrow> Frame" where
  "with_self_events fr p = fr\<lparr>rprim := fst p, events := snd p\<rparr>"

definition Sync_primvar ::
  "Environment \<Rightarrow> HdSceneDelegate \<Rightarrow> HdDirtyBits \<Rightarrow> HdInterpolation \<Rightarrow> HdPrimvarDescriptor
   \<Rightarrow> Frame \<Rightarrow> fault + Frame" where
  "Sync_primvar env sceneDelegate dirtyBits interpolation pv fr =
     (if \<not> IsPrimvarDirty dirtyBits (pv_name pv) then Inr fr
      else
        (let v = GetPrimvar sceneDelegate (pv_name pv)
         in if pv_name pv = ''normals'' \<or> pv_role pv = ''normal'' then
              (case m_refiner (rprim fr) of
                 None \<Rightarrow> Inl NullPointer
               | Some refiner \<Rightarrow>
                   (let refined_value = RefineData refiner v interpolation
                    in case refined_value of
                         VtVec3fArray normals \<Rightarrow>
                           if GetArraySize refined_value > 0 then
                             and_then (AddNormals env normals interpolation (rprim fr))
                               (\<lambda>this. Inr (fr\<lparr>rprim := this, mesh_updated := True\<rparr>))
                           else
                             Inr (fr\<lparr>events := events fr
                                        @ [TF_CODING_WARNING ''Failed to compute normals!'']\<rparr>)
                       | _ \<Rightarrow>
                           Inr (fr\<lparr>events := events fr
                                      @ [TF_CODING_WARNING ''Failed to compute normals!'']\<rparr>)))
            else if pv_name pv = ''velocities'' then Inr fr
            else if pv_role pv = ''textureCoordinate'' then
              (case m_refiner (rprim fr) of
                 None \<Rightarrow> Inl NullPointer
               | Some refiner \<Rightarrow>
                   (let refined_value = RefineData refiner v interpolation
                    in if GetArraySize refined_value \<ge> GetArraySize v then
                         and_then
                           (AddUVSet env (pv_name pv) refined_value interpolation
                              (rprim fr, events fr))
                           (\<lambda>p. Inr ((with_self_events fr p)\<lparr>mesh_updated := True\<rparr>))
                       else
                         Inr (fr\<lparr>events := events fr
                                    @ [TF_CODING_WARNING
                                         ''Failed to compute texture coordinates!'']\<rparr>)))
            else if pv_name pv = displayColor_token \<or> pv_role pv = ''color'' then
              (case m_refiner (rprim fr) of
                 None \<Rightarrow> Inl NullPointer
               | Some refiner \<Rightarrow>
                   (let refined_value = RefineData refiner v interpolation
                    in and_then
                         (if GetArraySize refined_value \<ge> GetArraySize v then
                            and_then
                              (AddColors env (pv_name pv) (pv_role pv) refined_value interpolation
                                 (rprim fr, events fr))
                              (\<lambda>p. Inr (with_self_events fr p))
                          else
                            Inr (fr\<lparr>events := events fr
                                       @ [TF_CODING_WARNING ''Failed to compute colors!'']\<rparr>))
                         (\<lambda>fr1.
                            Inr ((if pv_name pv = displayColor_token
                                  then fr1\<lparr>rprim := (rprim fr1)\<lparr>m_hasVertexColors := True\<rparr>\<rparr>
                                  else fr1)\<lparr>mesh_updated := True\<rparr>))))
            else Inr fr))"

definition Sync_primvars ::
  "Environment \<Rightarrow> HdSceneDelegate \<Rightarrow> HdDirtyBits \<Rightarrow> Frame \<Rightarrow> fault + Frame" where
  "Sync_primvars env sceneDelegate dirtyBits fr =
     for_each (primvarDescsPerInterpolation sceneDelegate)
       (\<lambda>primvarDescsEntry.
          for_each (snd primvarDescsEntry)
            (Sync_primvar env sceneDelegate dirtyBits (fst primvarDescsEntry)))
       fr"

definition Sync_newMesh ::
  "Environment \<Rightarrow> HdSceneDelegate \<Rightarrow> HdDirtyBits \<Rightarrow> Frame \<Rightarrow> fault + Frame" where
  "Sync_newMesh env sceneDelegate dirtyBits fr =
     (if newMesh fr then
        (let fr1 = fr\<lparr>rprim := (rprim fr)\<lparr>m_cyclesMesh := Mesh_clear env (m_cyclesMesh (rprim fr))\<rparr>\<rparr>;
             faceMaterials = replicate (GetNumFaces (m_topology (rprim fr1))) 0
         in and_then
              (for_each (GetGeomSubsets (m_topology (rprim fr1))) (Sync_subset sceneDelegate)
                 (fr1, faceMaterials))
              (\<lambda>s2.
                 and_then (PopulateFaces env (snd s2) (rprim (fst s2))) (\<lambda>this3.
                 and_then (PopulateVertices sceneDelegate this3) (\<lambda>this4.
                 and_then
                   (if m_useMotionBlur this4 \<and> m_useDeformMotionBlur this4
                    then PopulateMotion env this4 else Inr this4)
                   (\<lambda>this5.
                      and_then
                        (Sync_primvars env sceneDelegate dirtyBits ((fst s2)\<lparr>rprim := this5\<rparr>))
                        (\<lambda>fr6.
                           Inr (if length (m_usedShaders (rprim fr6)) > 0
                                then fr6\<lparr>rprim := (rprim fr6)
                                            \<lparr>m_cyclesMesh := (m_cyclesMesh (rprim fr6))
                                               \<lparr>used_shaders := m_usedShaders (rprim fr6)\<rparr>\<rparr>\<rparr>
                                else fr6)))))))
      else Inr fr)"

definition Sync_transform ::
  "Environment \<Rightarrow> HdSceneDelegate \<Rightarrow> HdDirtyBits \<Rightarrow> Frame \<Rightarrow> Frame" where
  "Sync_transform env sceneDelegate dirtyBits fr =
     (if is_set dirtyBits DirtyTransform then
        (case HdCyclesSetTransform (numeric env) (Some (m_cyclesObject (rprim fr)))
                (Some (m_cyclesMesh (rprim fr))) sceneDelegate (m_useMotionBlur (rprim fr)) of
           (Some object, Some mesh, xf) \<Rightarrow>
             fr\<lparr>rprim := (rprim fr)
                    \<lparr>m_transformSamples := xf,
                     m_cyclesObject := object,
                     m_cyclesMesh :=
                       (case subd_params mesh of
                          Some p \<Rightarrow> mesh\<lparr>subd_params := Some (tfm object)\<rparr>
                        | None \<Rightarrow> mesh)\<rparr>,
                 mesh_updated := True\<rparr>
         | _ \<Rightarrow> fr)
      else fr)"

definition Sync_primId :: "HdSceneDelegate \<Rightarrow> HdDirtyBits \<Rightarrow> Frame \<Rightarrow> Frame" where
  "Sync_primId sceneDelegate dirtyBits fr =
     (if is_set dirtyBits DirtyPrimID
      then fr\<lparr>rprim := (rprim fr)
                 \<lparr>m_cyclesObject := (m_cyclesObject (rprim fr))
                    \<lparr>pass_id := int32_t_of_int (GetPrimId sceneDelegate + 1)\<rparr>\<rparr>\<rparr>
      else fr)"

text \<open>
  \<open>fallbackShader\<close> is the vertex-colour surface of the render parameter when
  \<open>m_hasVertexColors\<close> is set, and the default surface of the scene otherwise.
\<close>

definition fallbackShader :: "Environment \<Rightarrow> HdCyclesMesh \<Rightarrow> Shader" where
  "fallbackShader env this =
     (if m_hasVertexColors this then default_vcol_surface env else default_surface env)"

definition Sync_material ::
  "Environment \<Rightarrow> HdSceneDelegate \<Rightarrow> HdDirtyBits \<Rightarrow> Frame \<Rightarrow> fault + Frame" where
  "Sync_material env sceneDelegate dirtyBits fr =
     (if is_set dirtyBits DirtyMaterialId then
        (let this = (rprim fr)\<lparr>m_cachedMaterialId := GetMaterialId sceneDelegate\<rparr>
         in and_then (GetFaceVertexCounts this)
              (\<lambda>counts.
                 if length counts > 0 then
                   (let pushed =
                          (if m_cachedMaterialId this \<noteq> [] then
                             (case GetSprim sceneDelegate (m_cachedMaterialId this) of
                                Some (Some material_shader) \<Rightarrow>
                                  fr\<lparr>rprim := this\<lparr>m_usedShaders :=
                                                     m_usedShaders this @ [material_shader]\<rparr>,
                                      events := events fr @ [Shader_tag_update material_shader]\<rparr>
                              | _ \<Rightarrow>
                                  fr\<lparr>rprim := this\<lparr>m_usedShaders :=
                                                     m_usedShaders this @ [fallbackShader env this]\<rparr>\<rparr>)
                           else
                             fr\<lparr>rprim := this\<lparr>m_usedShaders :=
                                                m_usedShaders this @ [fallbackShader env this]\<rparr>\<rparr>)
                    in Inr (pushed\<lparr>rprim := (rprim pushed)
                                     \<lparr>m_cyclesMesh := (m_cyclesMesh (rprim pushed))
                                        \<lparr>used_shaders := m_usedShaders (rprim pushed)\<rparr>\<rparr>\<rparr>))
                 else Inr (fr\<lparr>rprim := this\<rparr>)))
      else Inr fr)"

definition Sync_visibility :: "HdSceneDelegate \<Rightarrow> HdDirtyBits \<Rightarrow> Frame \<Rightarrow> Frame" where
  "Sync_visibility sceneDelegate dirtyBits fr =
     (if is_set dirtyBits DirtyVisibility
      then fr\<lparr>mesh_updated := True,
              rprim := (rprim fr)\<lparr>sharedData_visible := GetVisible sceneDelegate\<rparr>\<rparr>
      else fr)"

text \<open>
  \<open>_CreateCyclesObject\<close> sets the transform, the pass id and the visibility of a new
  object of the renderer; the other fields are those of a new object.
\<close>

definition GfMatrix4d_1 :: GfMatrix4d where
  "GfMatrix4d_1 = ((1, 0, 0, 0), (0, 1, 0, 0), (0, 0, 1, 0), (0, 0, 0, 1))"

definition CreateCyclesObject :: "Environment \<Rightarrow> ccl_Object" where
  "CreateCyclesObject env =
     \<lparr>tfm = transform_identity, motion = [], color = (0, 0, 0), pass_id = - 1,
      visibility = PATH_RAY_ALL_VISIBILITY env, is_shadow_catcher = False, use_holdout = False\<rparr>"

text \<open>
  The transforms of the instance \<open>i\<close>, one for each sample of the instancer, composed
  with the transform of the prototype unless that is absent or one identity.
\<close>

definition combinedTransform ::
  "Environment \<Rightarrow> HdCyclesMesh \<Rightarrow> (float \<times> GfMatrix4d list) list \<Rightarrow> nat \<Rightarrow> fault + GfMatrix4d list" where
  "combinedTransform env this instanceTransforms i =
     for_each instanceTransforms
       (\<lambda>sample instanceTransform.
          and_then (load (snd sample) i)
            (\<lambda>m. Inr (instanceTransform
                       @ [if length (m_transformSamples this) = 0
                             \<or> (length (m_transformSamples this) = 1
                                 \<and> snd (m_transformSamples this ! 0) = GfMatrix4d_1)
                          then m
                          else GfMatrix4d_mult env
                                 (Resample env (m_transformSamples this) (fst sample)) m])))
       []"

text \<open>
  The two loops of the instancing block: the transforms of every instance, and the new
  object of the renderer for the instance \<open>j\<close>.
\<close>

definition Sync_instances_combine ::
  "Environment \<Rightarrow> HdCyclesMesh \<Rightarrow> (float \<times> GfMatrix4d list) list \<Rightarrow> nat \<Rightarrow> GfMatrix4d list list
   \<Rightarrow> fault + GfMatrix4d list list" where
  "Sync_instances_combine env this instanceTransforms i combinedTransforms =
     and_then (combinedTransform env this instanceTransforms i)
       (\<lambda>t. Inr (combinedTransforms @ [t]))"

definition Sync_instances_add ::
  "Environment \<Rightarrow> GfMatrix4d list list \<Rightarrow> nat \<Rightarrow> Frame \<Rightarrow> fault + Frame" where
  "Sync_instances_add env combinedTransforms j fr =
     and_then (load combinedTransforms j) (\<lambda>ts.
     and_then (load ts 0) (\<lambda>m.
       let instanceObj = (CreateCyclesObject env)\<lparr>tfm := mat4d_to_transform (numeric env) m\<rparr>
       in Inr (fr\<lparr>rprim := (rprim fr)
                      \<lparr>m_cyclesInstances := m_cyclesInstances (rprim fr) @ [instanceObj]\<rparr>,
                   events := events fr @ [AddObject instanceObj]\<rparr>)))"

definition Sync_instances ::
  "Environment \<Rightarrow> HdSceneDelegate \<Rightarrow> HdDirtyBits \<Rightarrow> Frame \<Rightarrow> fault + Frame" where
  "Sync_instances env sceneDelegate dirtyBits fr =
     (if newMesh fr \<or> is_set dirtyBits DirtyInstancer then
        (let fr1 = fr\<lparr>mesh_updated := True\<rparr>
         in case GetInstancer sceneDelegate of
              None \<Rightarrow> Inr fr1
            | Some instanceTransforms \<Rightarrow>
                (let newNumInstances =
                       (if length instanceTransforms > 0
                        then length (snd (instanceTransforms ! 0)) else 0);
                     fr2 = fr1\<lparr>events := events fr1 @ map RemoveObject (m_cyclesInstances (rprim fr1)),
                               rprim := (rprim fr1)\<lparr>m_cyclesInstances := []\<rparr>\<rparr>
                 in if newNumInstances \<noteq> 0 then
                      and_then
                        (for_each [0..<newNumInstances]
                           (Sync_instances_combine env (rprim fr2) instanceTransforms) [])
                        (\<lambda>combinedTransforms.
                           and_then
                             (for_each [0..<newNumInstances]
                                (Sync_instances_add env combinedTransforms) fr2)
                             (\<lambda>fr4. Inr (fr4\<lparr>rprim := (rprim fr4)\<lparr>m_visibilityFlags := 0\<rparr>\<rparr>)))
                    else Inr fr2))
      else Inr fr)"

definition Sync_finish :: "Environment \<Rightarrow> Frame \<Rightarrow> fault + Frame" where
  "Sync_finish env fr =
     (if newMesh fr
      then and_then (FinishMesh env (rprim fr)) (\<lambda>this. Inr (fr\<lparr>rprim := this\<rparr>))
      else Inr fr)"

definition Sync_commit :: "Frame \<Rightarrow> Frame" where
  "Sync_commit fr =
     (if mesh_updated fr \<or> newMesh fr then
        fr\<lparr>rprim := (rprim fr)
               \<lparr>m_cyclesObject := (m_cyclesObject (rprim fr))
                  \<lparr>visibility := (if \<not> sharedData_visible (rprim fr) then 0
                                  else m_visibilityFlags (rprim fr))\<rparr>\<rparr>,
            events := events fr @ [Mesh_tag_update, Object_tag_update, Interrupt]\<rparr>
      else fr)"

text \<open>
  \<open>Sync_pull\<close> is \<open>Sync\<close> down to the block that creates the mesh: the blocks that
  pull the scene data and set the locals \<open>mesh_updated\<close> and \<open>newMesh\<close>. \<open>Sync\<close> takes
  the primitive with the events so far and returns them with the dirty bits it leaves.
  The scene lock it holds is not modelled.
\<close>

definition Sync_pull ::
  "Environment \<Rightarrow> HdSceneDelegate \<Rightarrow> HdDirtyBits \<Rightarrow> HdCyclesMesh \<times> event list \<Rightarrow> Frame" where
  "Sync_pull env sceneDelegate dirtyBits s =
     Sync_schema env sceneDelegate dirtyBits
       (Sync_displayStyle sceneDelegate dirtyBits
          (Sync_doubleSided sceneDelegate dirtyBits
             (Sync_topology env sceneDelegate dirtyBits
                (Sync_points sceneDelegate dirtyBits
                   \<lparr>rprim = fst s, events = snd s, mesh_updated = False, newMesh = False\<rparr>))))"

definition Sync ::
  "Environment \<Rightarrow> HdSceneDelegate \<Rightarrow> HdDirtyBits \<Rightarrow> HdCyclesMesh \<times> event list
   \<Rightarrow> fault + HdCyclesMesh \<times> event list \<times> HdDirtyBits" where
  "Sync env sceneDelegate dirtyBits s =
     and_then (Sync_newMesh env sceneDelegate dirtyBits (Sync_pull env sceneDelegate dirtyBits s))
       (\<lambda>fr6.
     and_then
       (Sync_material env sceneDelegate dirtyBits
          (Sync_primId sceneDelegate dirtyBits
             (Sync_transform env sceneDelegate dirtyBits fr6)))
       (\<lambda>fr9.
     and_then
       (Sync_instances env sceneDelegate dirtyBits
          (Sync_visibility sceneDelegate dirtyBits fr9))
       (\<lambda>fr11.
     and_then (Sync_finish env fr11) (\<lambda>fr12.
     Inr (rprim (Sync_commit fr12), events (Sync_commit fr12), Clean)))))"

section \<open>Fan triangulation, as the specification words it\<close>

text \<open>
  The specification describes the per-corner populator by the fan triangles of each
  face: a face of \<open>k\<close> corners whose corner range starts at \<open>first\<close> gives the \<open>k - 2\<close>
  triangles of the corners \<open>first\<close>, \<open>first + j\<close>, \<open>first + j + 1\<close> for \<open>j\<close> from 1 to
  \<open>k - 2\<close>. \<open>fan_faces\<close> lists, face by face, the triangles of the converted values;
  it is the right-handed output the claims compare with, not a translation of the code.
  \<open>swap_corners_2_3\<close> exchanges the second and third value of every written triangle.
\<close>

definition fan_triangle :: "('t \<Rightarrow> 'u) \<Rightarrow> 't list \<Rightarrow> int \<Rightarrow> int \<Rightarrow> 'u list" where
  "fan_triangle to_cycles usd_data first j =
     [to_cycles (usd_data ! nat first), to_cycles (usd_data ! nat (first + j)),
      to_cycles (usd_data ! nat (first + j + 1))]"

fun fan_faces :: "('t \<Rightarrow> 'u) \<Rightarrow> 't list \<Rightarrow> int \<Rightarrow> int list \<Rightarrow> 'u list list list" where
  "fan_faces to_cycles usd_data first [] = []"
| "fan_faces to_cycles usd_data first (k # ks) =
     map (fan_triangle to_cycles usd_data first) [1..k - 2]
     # fan_faces to_cycles usd_data (first + k) ks"

fun swap_corners_2_3 :: "'u list \<Rightarrow> 'u list" where
  "swap_corners_2_3 (a # b # c # rest) = a # c # b # swap_corners_2_3 rest"
| "swap_corners_2_3 rest = rest"

section \<open>Concrete inputs\<close>

text \<open>
  States, a delegate and an environment on which the functions above are run. In
  \<open>example_env\<close> the casts and the operations on \<open>float\<close> are exact, the sizes of the
  attribute buffers are those of a mesh of triangles, \<open>clear\<close> empties the arrays of the
  mesh, and the functions that compute normals, bounds and tangents return fixed values.
\<close>

definition example_casts :: casts where
  "example_casts =
     \<lparr>float_of_double = (\<lambda>x. x), float_of_int = (\<lambda>i. of_int i),
      float_add = (\<lambda>a b. a + b), float_sub = (\<lambda>a b. a - b),
      float_mul = (\<lambda>a b. a * b), float_div = (\<lambda>a b. a / b)\<rparr>"

definition example_refiner :: "int list \<Rightarrow> HdCyclesMeshRefiner" where
  "example_refiner counts =
     \<lparr>RefinedIndices = [], RefinedCounts = counts, GetNumVertices = 0, GetNumTriangles = 0,
      RefineVertexData = (\<lambda>v. v), RefineUniformData = (\<lambda>v. v), RefineData = (\<lambda>v i. v)\<rparr>"

definition example_ccl_Mesh :: ccl_Mesh where
  "example_ccl_Mesh =
     \<lparr>verts = [], triangles = [], shader = [], smooth = [], attributes = [],
      subd_attributes = [], motion_steps = 3, use_motion_blur = False, used_shaders = [],
      subdivision_type = SUBDIVISION_NONE, subd_params = None, transform_applied = False,
      need_update = False, bounds = ((0, 0, 0), (0, 0, 0))\<rparr>"

definition example_ccl_Object :: ccl_Object where
  "example_ccl_Object =
     \<lparr>tfm = ((1, 0, 0, 0), (0, 1, 0, 0), (0, 0, 1, 0)), motion = [], color = (0, 0, 0),
      pass_id = - 1, visibility = 0xFFFFFFFF, is_shadow_catcher = False, use_holdout = False\<rparr>"

definition example_mesh :: HdCyclesMesh where
  "example_mesh =
     \<lparr>m_cyclesMesh = example_ccl_Mesh, m_cyclesObject = example_ccl_Object,
      m_cyclesInstances = [], m_hasVertexColors = False, m_visibilityFlags = 0xFFFFFFFF,
      m_visCamera = True, m_visDiffuse = True, m_visGlossy = True, m_visScatter = True,
      m_visShadow = True, m_visTransmission = True, m_useMotionBlur = False,
      m_useDeformMotionBlur = False, m_motionSteps = 3, m_useSubdivision = False,
      m_dicingRate = 1, m_maxSubdivision = 12, m_points = [], m_numMeshVerts = 0,
      m_normalsValid = False, m_adjacencyValid = False,
      m_topology = \<lparr>GetNumFaces = 0, GetGeomSubsets = []\<rparr>, m_refiner = None,
      m_orientation = rightHanded, m_doubleSided = False, m_displayStyle_refineLevel = 0,
      m_refineLevel = 0, m_usedShaders = [], m_materialMap = [], m_cachedMaterialId = [],
      m_transformSamples = [], m_pointSamples = [], sharedData_visible = True\<rparr>"

fun example_standard_name :: "AttributeStandard \<Rightarrow> string" where
  "example_standard_name ATTR_STD_VERTEX_NORMAL = ''N''"
| "example_standard_name ATTR_STD_FACE_NORMAL = ''Ng''"
| "example_standard_name ATTR_STD_UV = ''uv''"
| "example_standard_name ATTR_STD_UV_TANGENT = ''uv.tangent''"
| "example_standard_name ATTR_STD_UV_TANGENT_SIGN = ''uv.tangent_sign''"
| "example_standard_name ATTR_STD_VERTEX_COLOR = ''Col''"
| "example_standard_name ATTR_STD_GENERATED = ''generated''"
| "example_standard_name ATTR_STD_MOTION_VERTEX_POSITION = ''motion_P''"
| "example_standard_name ATTR_STD_NONE = []"

fun example_standard_type :: "AttributeStandard \<Rightarrow> TypeDesc" where
  "example_standard_type ATTR_STD_VERTEX_NORMAL = TypeNormal"
| "example_standard_type ATTR_STD_FACE_NORMAL = TypeNormal"
| "example_standard_type ATTR_STD_UV = TypeFloat2"
| "example_standard_type ATTR_STD_UV_TANGENT = TypeVector"
| "example_standard_type ATTR_STD_UV_TANGENT_SIGN = TypeFloat"
| "example_standard_type ATTR_STD_VERTEX_COLOR = TypeColor"
| "example_standard_type ATTR_STD_GENERATED = TypePoint"
| "example_standard_type ATTR_STD_MOTION_VERTEX_POSITION = TypePoint"
| "example_standard_type ATTR_STD_NONE = TypeUnknown"

fun example_standard_element :: "AttributeStandard \<Rightarrow> AttributeElement" where
  "example_standard_element ATTR_STD_VERTEX_NORMAL = ATTR_ELEMENT_VERTEX"
| "example_standard_element ATTR_STD_FACE_NORMAL = ATTR_ELEMENT_FACE"
| "example_standard_element ATTR_STD_UV = ATTR_ELEMENT_CORNER"
| "example_standard_element ATTR_STD_UV_TANGENT = ATTR_ELEMENT_CORNER"
| "example_standard_element ATTR_STD_UV_TANGENT_SIGN = ATTR_ELEMENT_CORNER"
| "example_standard_element ATTR_STD_VERTEX_COLOR = ATTR_ELEMENT_CORNER"
| "example_standard_element ATTR_STD_GENERATED = ATTR_ELEMENT_VERTEX"
| "example_standard_element ATTR_STD_MOTION_VERTEX_POSITION = ATTR_ELEMENT_VERTEX_MOTION"
| "example_standard_element ATTR_STD_NONE = ATTR_ELEMENT_NONE"

fun example_element_size :: "AttributeElement \<Rightarrow> ccl_Mesh \<Rightarrow> nat" where
  "example_element_size ATTR_ELEMENT_NONE mesh = 0"
| "example_element_size ATTR_ELEMENT_MESH mesh = 1"
| "example_element_size ATTR_ELEMENT_FACE mesh = length (triangles mesh)"
| "example_element_size ATTR_ELEMENT_VERTEX mesh = length (verts mesh)"
| "example_element_size ATTR_ELEMENT_VERTEX_MOTION mesh =
     length (verts mesh) * (motion_steps mesh - 1)"
| "example_element_size ATTR_ELEMENT_CORNER mesh = 3 * length (triangles mesh)"
| "example_element_size ATTR_ELEMENT_CURVE_KEY mesh = 0"

definition example_Mesh_clear :: "ccl_Mesh \<Rightarrow> ccl_Mesh" where
  "example_Mesh_clear mesh =
     mesh\<lparr>verts := [], triangles := [], shader := [], smooth := [], attributes := [],
          subd_attributes := [], used_shaders := [], transform_applied := False\<rparr>"

definition example_normals :: "string \<Rightarrow> AttributeStandard \<Rightarrow> nat \<Rightarrow> ccl_Mesh \<Rightarrow> ccl_Mesh" where
  "example_normals n std k mesh =
     (if attributes_find_std std (attributes mesh) = None
      then mesh\<lparr>attributes := attributes mesh
                  @ [\<lparr>attr_name = n, attr_std = std, attr_type = TypeNormal,
                      attr_element = example_standard_element std,
                      attr_data = replicate k (F3 (0, 0, 1))\<rparr>]\<rparr>
      else mesh)"

definition example_env :: Environment where
  "example_env =
     \<lparr>numeric = example_casts, USE_USD_CYCLES_SCHEMA = False, vec2f_to_float4_a_z = 0,
      vec2f_to_float4_a_alpha = 1, vec3f_to_float4_a_alpha = 1,
      standard_name = example_standard_name, standard_type = example_standard_type,
      standard_element = example_standard_element, element_size = example_element_size,
      Mesh_clear = example_Mesh_clear, Mesh_reserve_mesh = (\<lambda>numverts numtris mesh. mesh),
      Mesh_add_face_normals =
        (\<lambda>mesh. example_normals ''Ng'' ATTR_STD_FACE_NORMAL (length (triangles mesh)) mesh),
      Mesh_add_vertex_normals =
        (\<lambda>mesh. example_normals ''N'' ATTR_STD_VERTEX_NORMAL (length (verts mesh)) mesh),
      Mesh_compute_bounds = (\<lambda>mesh. ((0, 0, 0), (1, 1, 1))),
      Mesh_need_attribute = (\<lambda>mesh std. False),
      genTangSpaceDefault = (\<lambda>mesh layer_name buffers. buffers),
      HdCyclesMeshRefiner_Create =
        (\<lambda>topology. Some (example_refiner (replicate (GetNumFaces topology) 3))),
      HdCyclesGetMeshParam_bool = (\<lambda>sceneDelegate pv dirtyBits token a_default. a_default),
      HdCyclesGetMeshParam_int = (\<lambda>sceneDelegate pv dirtyBits token a_default. a_default),
      HdCyclesGetMeshParam_float = (\<lambda>sceneDelegate pv dirtyBits token a_default. a_default),
      HdCyclesGetMeshParam_TfToken = (\<lambda>sceneDelegate pv dirtyBits token a_default. a_default),
      Resample = (\<lambda>xf t. case xf of [] \<Rightarrow> GfMatrix4d_1 | sample # rest \<Rightarrow> snd sample),
      GfMatrix4d_mult = (\<lambda>a b. b),
      default_surface = 0, default_vcol_surface = 1,
      PATH_RAY_ALL_VISIBILITY = 0x3FFFF, PATH_RAY_CAMERA = 0x1, PATH_RAY_DIFFUSE = 0x8,
      PATH_RAY_GLOSSY = 0x10, PATH_RAY_VOLUME_SCATTER = 0x800, PATH_RAY_SHADOW = 0x780,
      PATH_RAY_TRANSMIT = 0x4\<rparr>"

definition example_delegate :: HdSceneDelegate where
  "example_delegate =
     \<lparr>GetExtComputationPrimvarDescriptors = (\<lambda>interpolation. []),
      GetComputedPrimvarValues = (\<lambda>name. None),
      GetDisplayStyle_refineLevel = 0,
      GetMeshTopology = \<lparr>GetNumFaces = 1, GetGeomSubsets = []\<rparr>,
      GetPrimvarDescriptors = (\<lambda>interpolation. []),
      GetDoubleSided = False,
      GetPrimvar = (\<lambda>name. VtEmpty),
      GetSprim = (\<lambda>materialId. None),
      GetMaterialId = [],
      GetVisible = True,
      GetPrimId = 0,
      SampleTransform = [],
      GetInstancer = None\<rparr>"

text \<open>
  \<open>example_short_refiner\<close> refines an array of vectors to its first element, so that
  the refined array of two or more elements is shorter than its source;
  \<open>example_primvar_delegate\<close> is a scene with one point and one primvar descriptor, of
  the given interpolation, name, role and value.
\<close>

definition example_short_refiner :: "int list \<Rightarrow> HdCyclesMeshRefiner" where
  "example_short_refiner counts =
     (example_refiner counts)
       \<lparr>RefineData := (\<lambda>v interpolation.
           case v of VtVec3fArray xs \<Rightarrow> VtVec3fArray (take 1 xs)
                   | VtVec2fArray xs \<Rightarrow> VtVec2fArray (take 1 xs)
                   | _ \<Rightarrow> v)\<rparr>"

definition example_short_env :: Environment where
  "example_short_env =
     example_env\<lparr>HdCyclesMeshRefiner_Create :=
       (\<lambda>topology. Some (example_short_refiner (replicate (GetNumFaces topology) 3)))\<rparr>"

definition example_primvar_delegate ::
  "HdInterpolation \<Rightarrow> string \<Rightarrow> string \<Rightarrow> VtValue \<Rightarrow> HdSceneDelegate" where
  "example_primvar_delegate i n role v =
     example_delegate
       \<lparr>GetPrimvarDescriptors :=
          (\<lambda>interpolation. if interpolation = i then [\<lparr>pv_name = n, pv_role = role\<rparr>] else []),
        GetPrimvar := (\<lambda>name. if name = n then v
                               else if name = ''points'' then VtVec3fArray [(0, 0, 0)]
                               else VtEmpty)\<rparr>"

section \<open>Auxiliary functions of the proofs\<close>

text \<open>
  \<open>uniform_expand\<close> is the expected output of the per-face populator; \<open>oriented\<close>
  reverses a list for a left-handed mesh; \<open>face_step\<close> is a round of the outer loop of
  the per-corner populator, given the corner count it has read.
\<close>

definition uniform_expand :: "('t \<Rightarrow> 'u) \<Rightarrow> 't list \<Rightarrow> int list \<Rightarrow> 'u list" where
  "uniform_expand to_cycles usd_data counts =
     concat (map2 (\<lambda>v k. replicate (nat (k - 2)) (to_cycles v)) usd_data counts)"

definition oriented :: "HdCyclesMesh \<Rightarrow> 'a list \<Rightarrow> 'a list" where
  "oriented mesh ts = (if GetOrientation mesh = leftHanded then rev ts else ts)"

definition face_step ::
  "('t \<Rightarrow> 'u) \<Rightarrow> 't list \<Rightarrow> HdCyclesMesh \<Rightarrow> int \<Rightarrow> int \<times> nat \<times> 'u list \<Rightarrow> fault + int \<times> nat \<times> 'u list" where
  "face_step to_cycles usd_data mesh vCount s =
     (case s of (count, w) \<Rightarrow>
        and_then (for_each [1..vCount - 2] (FaceVarying_triangle to_cycles usd_data mesh count vCount) w)
          (\<lambda>w'. Inr (count + vCount, w')))"

text \<open>
  \<open>motion_positions\<close> is what the loop of \<open>_PopulateMotion\<close> is expected to write: the
  first \<open>numMeshVerts\<close> points of every sample whose time is not 0, in the order of the
  samples. \<open>center_sample\<close> is the last sample at time 0, if there is one.
\<close>

definition motion_positions :: "nat \<Rightarrow> (float \<times> VtValue) list \<Rightarrow> cell list" where
  "motion_positions numMeshVerts samples =
     concat (map (\<lambda>sample. map (\<lambda>x. F3 (vec3f_to_float3 x))
                               (take numMeshVerts (Get_VtVec3fArray (snd sample))))
               (filter (\<lambda>sample. fst sample \<noteq> 0) samples))"

definition center_sample :: "(float \<times> 'm) list \<Rightarrow> 'm option" where
  "center_sample xf =
     (case filter (\<lambda>sample. fst sample = 0) xf of
        [] \<Rightarrow> None
      | z # zs \<Rightarrow> Some (snd (last (z # zs))))"

text \<open>
  \<open>base_transform\<close> is the base transform of the object after the transform block:
  the identity when there is no sample, the (last) sample at time 0 when there is one,
  and the first sample otherwise.
\<close>

definition base_transform :: "casts \<Rightarrow> (float \<times> GfMatrix4d) list \<Rightarrow> Transform" where
  "base_transform cv xf =
     (if xf = [] then transform_identity
      else mat4d_to_transform cv
             (case center_sample xf of None \<Rightarrow> snd (xf ! 0) | Some m \<Rightarrow> m))"

section \<open>Lemmas on loops and the populators\<close>

lemma and_then_Inr_iff:
  "and_then m f = Inr y \<longleftrightarrow> (\<exists>x. m = Inr x \<and> f x = Inr y)"
  by (cases m) auto

lemma for_each_append:
  "for_each (xs @ ys) body s = and_then (for_each xs body s) (for_each ys body)"
proof (induction xs arbitrary: s)
  case Nil
  then show ?case by simp
next
  case (Cons a xs)
  then show ?case by (cases "body a s") simp_all
qed

lemma Uniform_write_loop:
  assumes "i < length usd_data" "idx + length js \<le> length d"
  shows "for_each js (Uniform_write to_cycles usd_data i) (idx, d)
         = Inr (idx + length js,
                take idx d @ replicate (length js) (to_cycles (usd_data ! i)) @ drop (idx + length js) d)"
  using assms
proof (induction js arbitrary: idx d)
  case Nil
  then show ?case by simp
next
  case (Cons j js)
  have a: "idx < length d" using Cons.prems by simp
  have b: "Suc idx + length js \<le> length (d[idx := to_cycles (usd_data ! i)])" using Cons.prems by simp
  show ?case
    using Cons.prems a Cons.IH[OF Cons.prems(1) b]
    by (simp add: Uniform_write_def load_def store_def upd_conv_take_nth_drop take_Suc_conv_app_nth
        replicate_append_same drop_Suc add.commute)
qed

lemma size_t_of_int_id: "0 \<le> i \<Longrightarrow> i < 2 ^ 31 \<Longrightarrow> size_t_of_int i = nat i"
  by (simp add: size_t_of_int_def)

lemma uniform_expand_snoc:
  "m < length usd_data \<Longrightarrow> m < length counts \<Longrightarrow>
   uniform_expand tc (take (Suc m) usd_data) (take (Suc m) counts)
   = uniform_expand tc (take m usd_data) (take m counts) @ replicate (nat (counts ! m - 2)) (tc (usd_data ! m))"
  by (simp add: uniform_expand_def take_Suc_conv_app_nth zip_append1 min_def)

lemma Uniform_face_loop:
  assumes "GetFaceVertexCounts mesh = Inr counts"
    and "m \<le> length usd_data" "m \<le> length counts"
    and "\<forall>k\<in>set (take m counts). 2 \<le> k \<and> k < 2 ^ 31"
    and "length (uniform_expand to_cycles (take m usd_data) (take m counts)) \<le> length data"
  shows "for_each [0..<m] (Uniform_face to_cycles usd_data mesh) (0, data)
         = Inr (length (uniform_expand to_cycles (take m usd_data) (take m counts)),
                uniform_expand to_cycles (take m usd_data) (take m counts)
                @ drop (length (uniform_expand to_cycles (take m usd_data) (take m counts))) data)"
  using assms(2-)
proof (induction m)
  case 0
  then show ?case by (simp add: uniform_expand_def)
next
  case (Suc m)
  let ?out = "uniform_expand to_cycles (take m usd_data) (take m counts)"
  let ?n = "nat (counts ! m - 2)"
  have m1: "m < length usd_data" and m2: "m < length counts" using Suc.prems by simp_all
  have snoc: "uniform_expand to_cycles (take (Suc m) usd_data) (take (Suc m) counts)
              = ?out @ replicate ?n (to_cycles (usd_data ! m))"
    using m1 m2 by (rule uniform_expand_snoc)
  have rng: "2 \<le> counts ! m \<and> counts ! m < 2 ^ 31"
    using Suc.prems(3) m2 by (simp add: take_Suc_conv_app_nth)
  have prev: "\<forall>k\<in>set (take m counts). 2 \<le> k \<and> k < 2 ^ 31"
    using Suc.prems(3) m2 by (simp add: take_Suc_conv_app_nth)
  have len: "length ?out + ?n \<le> length data"
    using Suc.prems(4) snoc by simp
  have IH: "for_each [0..<m] (Uniform_face to_cycles usd_data mesh) (0, data)
         = Inr (length ?out, ?out @ drop (length ?out) data)"
    using Suc.IH m1 m2 prev len by simp
  have st: "size_t_of_int (counts ! m - 2) = ?n"
    using rng by (intro size_t_of_int_id) auto
  have inner: "for_each [0..<?n] (Uniform_write to_cycles usd_data m)
           (length ?out, ?out @ drop (length ?out) data)
         = Inr (length ?out + ?n,
                ?out @ replicate ?n (to_cycles (usd_data ! m)) @ drop (length ?out + ?n) data)"
    using Uniform_write_loop[OF m1, of "length ?out" "[0..<?n]" "?out @ drop (length ?out) data" to_cycles] len
    by (simp add: add.commute)
  show ?case
    unfolding upt_Suc_append[OF le0] for_each_append IH
    using m2 inner by (simp add: Uniform_face_def assms(1) load_def st snoc)
qed


lemma for_each_cong:
  "(\<And>i s. i \<in> set js \<Longrightarrow> b1 i s = b2 i s) \<Longrightarrow> for_each js b1 s = for_each js b2 s"
proof (induction js arbitrary: s)
  case Nil
  then show ?case by simp
next
  case (Cons a js)
  then show ?case by (cases "b2 a s") simp_all
qed

lemma for_each_index:
  "for_each [0..<length xs] (\<lambda>i s. and_then (load xs i) (\<lambda>x. body x s)) s0 = for_each xs body s0"
proof (induction xs arbitrary: s0 rule: rev_induct)
  case Nil
  then show ?case by simp
next
  case (snoc x xs)
  have a: "for_each [0..<length xs] (\<lambda>i s. and_then (load (xs @ [x]) i) (\<lambda>x. body x s)) s0
        = for_each [0..<length xs] (\<lambda>i s. and_then (load xs i) (\<lambda>x. body x s)) s0"
    by (rule for_each_cong) (simp add: load_def nth_append)
  have b: "for_each [length xs] (\<lambda>i s. and_then (load (xs @ [x]) i) (\<lambda>x. body x s))
           = for_each [x] body"
  proof
    fix s show "for_each [length xs] (\<lambda>i s. and_then (load (xs @ [x]) i) (\<lambda>x. body x s)) s
           = for_each [x] body s"
      by (cases "body x s") (simp_all add: load_def)
  qed
  show ?case
    by (simp add: for_each_append a b snoc.IH)
qed

lemma list_update3:
  "Suc (Suc (Suc pos)) \<le> length d \<Longrightarrow>
   d[pos := a, Suc pos := b, Suc (Suc pos) := c] = take pos d @ [a, b, c] @ drop (Suc (Suc (Suc pos))) d"
proof (induction pos arbitrary: d)
  case 0
  then obtain x y z r where "d = x # y # z # r"
    by (cases d; simp; rename_tac d1; case_tac d1; simp; rename_tac d2; case_tac d2; simp)
  then show ?case by simp
next
  case (Suc pos)
  then obtain x r where d: "d = x # r" by (cases d) auto
  then show ?case using Suc.IH[of r] Suc.prems by simp
qed

lemma triangle_step:
  assumes "0 \<le> count" "0 \<le> g" "count + g + 1 < int (length usd_data)" "pos + 3 \<le> length d"
    and "g = (if GetOrientation mesh = leftHanded then (vCount - 1) - j else j)"
  shows "FaceVarying_triangle to_cycles usd_data mesh count vCount j (pos, d)
         = Inr (pos + 3, take pos d @ fan_triangle to_cycles usd_data count g @ drop (pos + 3) d)"
proof -
  have l0: "load_int usd_data count = Inr (usd_data ! nat count)"
    using assms by (simp add: load_int_def load_def)
  have l1: "load_int usd_data (count + g) = Inr (usd_data ! nat (count + g))"
    using assms by (simp add: load_int_def load_def)
  have l2: "load_int usd_data (count + g + 1) = Inr (usd_data ! nat (count + g + 1))"
    using assms by (simp add: load_int_def load_def)
  have v: "(if GetOrientation mesh = leftHanded then count + ((vCount - 1) - j) + 0 else count + j + 0) = count + g"
          "(if GetOrientation mesh = leftHanded then count + ((vCount - 1) - j) + 1 else count + j + 1) = count + g + 1"
    using assms(5) by simp_all
  show ?thesis
    unfolding FaceVarying_triangle_def Let_def v
    using assms(4) list_update3[of pos d]
    by (simp add: l0 l1 l2 store_def fan_triangle_def eval_nat_numeral)
qed

lemma fan_triangle_length: "length (fan_triangle to_cycles usd_data first j) = 3"
  by (simp add: fan_triangle_def)

lemma triangle_loop:
  assumes "0 \<le> count"
    and "\<forall>j\<in>set js. 0 \<le> g j \<and> count + g j + 1 < int (length usd_data)"
    and "pos + 3 * length js \<le> length d"
    and "\<And>j. g j = (if GetOrientation mesh = leftHanded then (vCount - 1) - j else j)"
  shows "for_each js (FaceVarying_triangle to_cycles usd_data mesh count vCount) (pos, d)
         = Inr (pos + 3 * length js,
                take pos d @ concat (map (\<lambda>j. fan_triangle to_cycles usd_data count (g j)) js)
                @ drop (pos + 3 * length js) d)"
  using assms(2,3)
proof (induction js arbitrary: pos d)
  case Nil
  then show ?case by simp
next
  case (Cons j js)
  let ?tri = "fan_triangle to_cycles usd_data count (g j)"
  let ?d = "take pos d @ ?tri @ drop (pos + 3) d"
  have p: "pos + 3 \<le> length d" using Cons.prems(2) by simp
  have step: "FaceVarying_triangle to_cycles usd_data mesh count vCount j (pos, d) = Inr (pos + 3, ?d)"
    using Cons.prems(1) p by (intro triangle_step assms(1) assms(4)) auto
  have len: "length ?d = length d" using p by (simp add: fan_triangle_length)
  have tk: "take (pos + 3) ?d = take pos d @ ?tri"
    using p by (simp add: fan_triangle_length)
  have dr: "drop (pos + 3 + 3 * length js) ?d = drop (pos + 3 + 3 * length js) d"
    using p by (simp add: fan_triangle_length add.commute)
  have IH: "for_each js (FaceVarying_triangle to_cycles usd_data mesh count vCount) (pos + 3, ?d)
         = Inr (pos + 3 + 3 * length js,
                take (pos + 3) ?d @ concat (map (\<lambda>j. fan_triangle to_cycles usd_data count (g j)) js)
                @ drop (pos + 3 + 3 * length js) ?d)"
    using Cons.prems len by (intro Cons.IH) auto
  show ?case
    unfolding for_each.simps step and_then.simps IH tk dr
    by (simp add: add.assoc)
qed

lemma upto_reverse: "map (\<lambda>j. k - 1 - j) [1..k - 2] = rev [1..k - 2]"
proof (rule nth_equalityI)
  show "length (map (\<lambda>j. k - 1 - j) [1..k - 2]) = length (rev [1..k - 2])" by simp
next
  fix i assume "i < length (map (\<lambda>j. k - 1 - j) [1..k - 2])"
  then have i: "int i < k - 2" by simp
  then have "rev [1..k - 2] ! i = [1..k - 2] ! (nat (k - 2) - Suc i)"
    by (simp add: rev_nth)
  also have "\<dots> = 1 + int (nat (k - 2) - Suc i)"
    using i by (intro nth_upto) auto
  finally show "map (\<lambda>j. k - 1 - j) [1..k - 2] ! i = rev [1..k - 2] ! i"
    using i by (simp add: nth_upto)
qed

lemma fan_reverse:
  "map (\<lambda>j. f (k - 1 - j)) [1..k - 2] = rev (map f [1..k - 2])"
proof -
  have "map (\<lambda>j. f (k - 1 - j)) [1..k - 2] = map f (map (\<lambda>j. k - 1 - j) [1..k - 2])"
    by simp
  then show ?thesis by (simp only: upto_reverse rev_map)
qed

lemma face_loop:
  assumes "0 \<le> count" "0 \<le> k" "count + k \<le> int (length usd_data)"
    and "pos + 3 * nat (k - 2) \<le> length d"
  shows "for_each [1..k - 2] (FaceVarying_triangle to_cycles usd_data mesh count k) (pos, d)
         = Inr (pos + 3 * nat (k - 2),
                take pos d
                @ concat (oriented mesh (map (fan_triangle to_cycles usd_data count) [1..k - 2]))
                @ drop (pos + 3 * nat (k - 2)) d)"
proof -
  define g where "g j = (if GetOrientation mesh = leftHanded then (k - 1) - j else j)" for j
  have rng: "\<forall>j\<in>set [1..k - 2]. 0 \<le> g j \<and> count + g j + 1 < int (length usd_data)"
    using assms(1-3) by (auto simp: g_def)
  have "for_each [1..k - 2] (FaceVarying_triangle to_cycles usd_data mesh count k) (pos, d)
         = Inr (pos + 3 * length [1..k - 2],
                take pos d @ concat (map (\<lambda>j. fan_triangle to_cycles usd_data count (g j)) [1..k - 2])
                @ drop (pos + 3 * length [1..k - 2]) d)"
    using assms(4) by (intro triangle_loop assms(1) rng) (simp_all add: g_def)
  moreover have "map (\<lambda>j. fan_triangle to_cycles usd_data count (g j)) [1..k - 2]
                 = oriented mesh (map (fan_triangle to_cycles usd_data count) [1..k - 2])"
    unfolding oriented_def g_def using fan_reverse[of "fan_triangle to_cycles usd_data count" k]
    by (cases "GetOrientation mesh = leftHanded") simp_all
  ultimately show ?thesis by simp
qed

lemma FaceVarying_face_step:
  "FaceVarying_face to_cycles usd_data mesh counts i s
   = and_then (load counts i) (\<lambda>vCount. face_step to_cycles usd_data mesh vCount s)"
  by (cases s) (simp add: FaceVarying_face_def face_step_def)

lemma oriented_fan_length:
  "length (concat (oriented mesh (map (fan_triangle to_cycles usd_data count) [1..k - 2]))) = 3 * nat (k - 2)"
  by (simp add: oriented_def length_concat comp_def fan_triangle_length rev_map[symmetric] sum_list_triv)

lemma faces_loop:
  assumes "0 \<le> count" "\<forall>k\<in>set counts. 0 \<le> k" "count + sum_list counts \<le> int (length usd_data)"
    and "pos + length (concat (concat (map (oriented mesh) (fan_faces to_cycles usd_data count counts)))) \<le> length d"
  shows "for_each counts (face_step to_cycles usd_data mesh) (count, pos, d)
         = Inr (count + sum_list counts,
                pos + length (concat (concat (map (oriented mesh) (fan_faces to_cycles usd_data count counts)))),
                take pos d
                @ concat (concat (map (oriented mesh) (fan_faces to_cycles usd_data count counts)))
                @ drop (pos + length (concat (concat (map (oriented mesh) (fan_faces to_cycles usd_data count counts))))) d)"
  using assms
proof (induction counts arbitrary: count pos d)
  case Nil
  then show ?case by simp
next
  case (Cons k ks)
  let ?f = "concat (oriented mesh (map (fan_triangle to_cycles usd_data count) [1..k - 2]))"
  let ?rest = "concat (concat (map (oriented mesh) (fan_faces to_cycles usd_data (count + k) ks)))"
  let ?n = "3 * nat (k - 2)"
  let ?d = "take pos d @ ?f @ drop (pos + ?n) d"
  have k0: "0 \<le> k" and ks0: "\<forall>k\<in>set ks. 0 \<le> k" using Cons.prems(2) by simp_all
  have sum_nonneg: "0 \<le> sum_list ks" using ks0 by (simp add: sum_list_nonneg)
  have fl: "length ?f = ?n" by (rule oriented_fan_length)
  have bound: "pos + ?n + length ?rest \<le> length d"
    using Cons.prems(4) fl by simp
  have face: "for_each [1..k - 2] (FaceVarying_triangle to_cycles usd_data mesh count k) (pos, d)
         = Inr (pos + ?n, ?d)"
    using Cons.prems(1,3) k0 sum_nonneg bound by (intro face_loop) auto
  have dl: "length ?d = length d" using bound fl by simp
  have tk: "take (pos + ?n) ?d = take pos d @ ?f" using bound fl by simp
  have dr: "drop (pos + ?n + length ?rest) ?d = drop (pos + ?n + length ?rest) d"
    using bound fl by (simp add: add.commute)
  have IH: "for_each ks (face_step to_cycles usd_data mesh) (count + k, pos + ?n, ?d)
         = Inr (count + k + sum_list ks, pos + ?n + length ?rest,
                take (pos + ?n) ?d @ ?rest @ drop (pos + ?n + length ?rest) ?d)"
    using Cons.prems(1,3) k0 ks0 bound dl by (intro Cons.IH) auto
  have step: "face_step to_cycles usd_data mesh k (count, pos, d) = Inr (count + k, pos + ?n, ?d)"
    by (simp add: face_step_def face)
  have out: "concat (concat (map (oriented mesh) (fan_faces to_cycles usd_data count (k # ks)))) = ?f @ ?rest"
    by simp
  have "for_each (k # ks) (face_step to_cycles usd_data mesh) (count, pos, d)
        = Inr (count + k + sum_list ks, pos + ?n + length ?rest,
                take (pos + ?n) ?d @ ?rest @ drop (pos + ?n + length ?rest) ?d)"
    by (simp only: for_each.simps step and_then.simps IH)
  also have "\<dots> = Inr (count + sum_list (k # ks), pos + length (?f @ ?rest),
                take pos d @ (?f @ ?rest) @ drop (pos + length (?f @ ?rest)) d)"
    unfolding tk dr by (simp add: fl add.assoc)
  finally show ?case unfolding out .
qed



section \<open>The claims on the attribute populators\<close>

text \<open>
  Claim C2, as the specification states it: for a left-handed mesh the per-corner
  populator writes the fan triangles of the right-handed output with the second and the
  third corner of each triangle exchanged. The code does not do this. On one quad with
  the corner values 1, 2, 3, 4 the right-handed output is the triangles (1, 2, 3) and
  (1, 3, 4); exchanging corners gives (1, 3, 2) and (1, 4, 3); the left-handed output is
  (1, 3, 4) and (1, 2, 3). On one triangle both orientations write (1, 2, 3).
\<close>

theorem PopulateAttribte_FaceVarying_leftHanded_counterexample:
  "PopulateAttribte_FaceVarying (\<lambda>x::int. x) [1, 2, 3, 4] [0, 0, 0, 0, 0, 0]
     (example_mesh\<lparr>m_refiner := Some (example_refiner [4]), m_orientation := rightHanded\<rparr>)
   = Inr (True, [1, 2, 3, 1, 3, 4])
   \<and> PopulateAttribte_FaceVarying (\<lambda>x::int. x) [1, 2, 3, 4] [0, 0, 0, 0, 0, 0]
     (example_mesh\<lparr>m_refiner := Some (example_refiner [4]), m_orientation := leftHanded\<rparr>)
   = Inr (True, [1, 3, 4, 1, 2, 3])
   \<and> swap_corners_2_3 [1, 2, 3, 1, 3, 4 :: int] = [1, 3, 2, 1, 4, 3]
   \<and> [1, 3, 4, 1, 2, 3] \<noteq> swap_corners_2_3 [1, 2, 3, 1, 3, 4 :: int]
   \<and> PopulateAttribte_FaceVarying (\<lambda>x::int. x) [1, 2, 3] [0, 0, 0]
     (example_mesh\<lparr>m_refiner := Some (example_refiner [3]), m_orientation := leftHanded\<rparr>)
   = Inr (True, [1, 2, 3])"
  by code_simp

text \<open>
  Claim C2, what the code writes: when the source array is not empty, no corner count
  is negative, the counts sum to at most the length of the source array and the buffer
  has three cells for every fan triangle, the per-corner populator writes three values
  per fan triangle; for a left-handed mesh it writes, face by face, the fan triangles
  of the right-handed output with their corners in the same order, the triangles of
  each face in reverse order, so that the winding of no triangle changes; for any other
  orientation it writes them in their own order. The rest of the buffer is untouched.
\<close>

theorem PopulateAttribte_FaceVarying_fans:
  assumes "GetFaceVertexCounts mesh = Inr counts"
    and "usd_data \<noteq> []"
    and "\<forall>k\<in>set counts. 0 \<le> k"
    and "sum_list counts \<le> int (length usd_data)"
    and "3 * (\<Sum>k\<leftarrow>counts. nat (k - 2)) \<le> length data"
  shows "PopulateAttribte_FaceVarying to_cycles usd_data data mesh
         = Inr (True,
                concat (concat (if GetOrientation mesh = leftHanded
                                then map rev (fan_faces to_cycles usd_data 0 counts)
                                else fan_faces to_cycles usd_data 0 counts))
                @ drop (3 * (\<Sum>k\<leftarrow>counts. nat (k - 2))) data)
       \<and> (\<forall>face\<in>set (fan_faces to_cycles usd_data 0 counts). \<forall>t\<in>set face. length t = 3)
       \<and> map length (fan_faces to_cycles usd_data 0 counts) = map (\<lambda>k. nat (k - 2)) counts"
proof -
  let ?out = "concat (concat (map (oriented mesh) (fan_faces to_cycles usd_data 0 counts)))"
  have tri: "\<forall>face\<in>set (fan_faces to_cycles usd_data first counts). \<forall>t\<in>set face. length t = 3" for first
    by (induction counts arbitrary: first) (auto simp: fan_triangle_length)
  have lens: "map length (fan_faces to_cycles usd_data first counts) = map (\<lambda>k. nat (k - 2)) counts" for first
    by (induction counts arbitrary: first) auto
  have len: "length (concat (concat (map (oriented mesh) (fan_faces to_cycles usd_data first counts))))
             = 3 * (\<Sum>k\<leftarrow>counts. nat (k - 2))" for first
    by (induction counts arbitrary: first) (simp_all add: oriented_fan_length)
  have loop: "for_each [0..<length counts] (FaceVarying_face to_cycles usd_data mesh counts) (0, 0, data)
              = for_each counts (face_step to_cycles usd_data mesh) (0, 0, data)"
    unfolding FaceVarying_face_step by (rule for_each_index)
  have "for_each counts (face_step to_cycles usd_data mesh) (0, 0, data)
        = Inr (0 + sum_list counts, 0 + length ?out, take 0 data @ ?out @ drop (0 + length ?out) data)"
    using assms(3-5) len by (intro faces_loop) auto
  then have res: "PopulateAttribte_FaceVarying to_cycles usd_data data mesh
                  = Inr (True, ?out @ drop (3 * (\<Sum>k\<leftarrow>counts. nat (k - 2))) data)"
    using assms(1,2) by (simp add: PopulateAttribte_FaceVarying_def loop len)
  have "map (oriented mesh) (fan_faces to_cycles usd_data 0 counts)
        = (if GetOrientation mesh = leftHanded
           then map rev (fan_faces to_cycles usd_data 0 counts)
           else fan_faces to_cycles usd_data 0 counts)"
  proof -
    show ?thesis
    proof (cases "GetOrientation mesh = leftHanded")
      case True
      then have "oriented mesh = (rev :: 'b list list \<Rightarrow> 'b list list)"
        by (intro ext) (simp add: oriented_def)
      then show ?thesis using True by simp
    next
      case False
      then have "oriented mesh = (\<lambda>ts :: 'b list list. ts)"
        by (intro ext) (simp add: oriented_def)
      then show ?thesis using False by simp
    qed
  qed
  then show ?thesis using res tri lens by simp
qed

theorem PopulateAttribte_FaceVarying_fans_witness:
  "PopulateAttribte_FaceVarying (\<lambda>x::int. x) [1, 2, 3, 4, 5, 6, 7] [0, 0, 0, 0, 0, 0, 0, 0, 0, 9]
     (example_mesh\<lparr>m_refiner := Some (example_refiner [4, 3]), m_orientation := leftHanded\<rparr>)
   = Inr (True, [1, 3, 4, 1, 2, 3, 5, 6, 7, 9])"
proof -
  let ?mesh = "example_mesh\<lparr>m_refiner := Some (example_refiner [4, 3]), m_orientation := leftHanded\<rparr>"
  have c: "GetFaceVertexCounts ?mesh = Inr [4, 3]"
    by (simp add: GetFaceVertexCounts_def example_refiner_def)
  have o: "GetOrientation ?mesh = leftHanded"
    by (simp add: GetOrientation_def)
  show ?thesis
    using PopulateAttribte_FaceVarying_fans[OF c, of "[1, 2, 3, 4, 5, 6, 7 :: int]"
        "[0, 0, 0, 0, 0, 0, 0, 0, 0, 9 :: int]" "\<lambda>x. x"]
    by (simp add: o fan_triangle_def upto.simps[of 1] upto.simps[of 5])
qed

text \<open>
  Claim C3: a per-face source array of length \<open>F\<close>, populated onto a mesh of \<open>F\<close> faces
  of at least 2 corners each (a face of \<open>k\<close> corners giving \<open>k - 2\<close> fan triangles,
  \<open>T\<close> in all), into a buffer of at least \<open>T\<close> cells, gives exactly \<open>T\<close> output
  elements: for each face in turn, \<open>k - 2\<close> copies of the converted value of that face.
  The cells after the first \<open>T\<close> are untouched, and the populator returns \<open>true\<close>
  unless the array is empty.
\<close>

theorem PopulateAttribte_Uniform_expands:
  assumes "GetFaceVertexCounts mesh = Inr counts"
    and "length usd_data = length counts"
    and "\<forall>k\<in>set counts. 2 \<le> k \<and> k < 2 ^ 31"
    and "(\<Sum>k\<leftarrow>counts. nat (k - 2)) \<le> length data"
  shows "PopulateAttribte_Uniform to_cycles usd_data data mesh
         = Inr (usd_data \<noteq> [],
                concat (map2 (\<lambda>v k. replicate (nat (k - 2)) (to_cycles v)) usd_data counts)
                @ drop (\<Sum>k\<leftarrow>counts. nat (k - 2)) data)
       \<and> length (concat (map2 (\<lambda>v k. replicate (nat (k - 2)) (to_cycles v)) usd_data counts))
         = (\<Sum>k\<leftarrow>counts. nat (k - 2))"
proof -
  have len: "length (uniform_expand to_cycles usd_data counts) = (\<Sum>k\<leftarrow>counts. nat (k - 2))"
    using assms(2) unfolding uniform_expand_def
    by (induction usd_data counts rule: list_induct2) simp_all
  have "for_each [0..<length usd_data] (Uniform_face to_cycles usd_data mesh) (0, data)
         = Inr (length (uniform_expand to_cycles usd_data counts),
                uniform_expand to_cycles usd_data counts
                @ drop (length (uniform_expand to_cycles usd_data counts)) data)"
    using Uniform_face_loop[OF assms(1), of "length usd_data" usd_data to_cycles data] assms(2-) len by simp
  then show ?thesis
    using len assms(2) by (auto simp add: PopulateAttribte_Uniform_def uniform_expand_def)
qed

theorem PopulateAttribte_Uniform_expands_witness:
  "PopulateAttribte_Uniform (\<lambda>x::int. x) [10, 20] [0, 0, 0, 7]
     (example_mesh\<lparr>m_refiner := Some (example_refiner [4, 3])\<rparr>)
   = Inr (True, [10, 10, 20, 7])"
proof -
  have c: "GetFaceVertexCounts (example_mesh\<lparr>m_refiner := Some (example_refiner [4, 3])\<rparr>)
           = Inr [4, 3]"
    by (simp add: GetFaceVertexCounts_def example_refiner_def)
  show ?thesis
    using PopulateAttribte_Uniform_expands[OF c, of "[10, 20 :: int]" "[0, 0, 0, 7 :: int]" "\<lambda>x. x"]
    by (simp add: numeral_2_eq_2)
qed

text \<open>
  Claim C4, as the specification states it: a uniform source array with more elements
  than the mesh has unrefined faces is reported as oversized and nothing is written.
  The code compares the length with the size of \<open>GetFaceVertexCounts()\<close>, which is
  the array of the refined counts of the refiner. On a topology of one face that the
  refiner turns into two triangles, a source array of two values is longer than the
  unrefined face count: it is not reported as oversized, and both values are written.
\<close>

theorem PopulateAttribute_Uniform_unrefined_counterexample:
  "GetNumFaces (m_topology
     (example_mesh\<lparr>m_topology := \<lparr>GetNumFaces = 1, GetGeomSubsets = []\<rparr>,
                    m_refiner := Some (example_refiner [3, 3])\<rparr>)) = 1
   \<and> GetArraySize (VtFloatArray [1, 2]) = 2
   \<and> PopulateAttribute example_casts ''displayOpacity'' ''vector'' HdInterpolationUniform
       (VtFloatArray [1, 2]) [F1 0, F1 0]
       (example_mesh\<lparr>m_topology := \<lparr>GetNumFaces = 1, GetGeomSubsets = []\<rparr>,
                      m_refiner := Some (example_refiner [3, 3])\<rparr>)
     = Inr ([F1 1, F1 2], [UniformSizes 2 2])"
  by code_simp

text \<open>
  Claim C4, amended: when the interpolation is uniform and the source array has more
  elements than \<open>GetFaceVertexCounts()\<close> has entries (the refined counts),
  \<open>_PopulateAttribute\<close> prints the two sizes and the line \<open>Oversized...\<close> and returns:
  the buffer of the attribute is as it was, and the call ends without a fault, so the
  caller goes on. When the source array has no more elements than that, the call goes
  on to the template for the type of the array and, when it returns, has printed the two
  sizes and nothing else, whatever the unrefined face count is.
\<close>

theorem PopulateAttribute_Uniform_oversized:
  assumes "GetFaceVertexCounts mesh = Inr counts"
  shows "(GetArraySize v > length counts \<longrightarrow>
          PopulateAttribute cv name role HdInterpolationUniform v data mesh
          = Inr (data, [UniformSizes (GetArraySize v) (length counts), Oversized]))
       \<and> (GetArraySize v \<le> length counts \<longrightarrow>
          PopulateAttribute cv name role HdInterpolationUniform v data mesh
          = and_then (PopulateAttribute_Uniform cv v data mesh)
              (\<lambda>r. Inr (fst r, UniformSizes (GetArraySize v) (length counts) # snd r))
          \<and> (\<forall>d ds. PopulateAttribute cv name role HdInterpolationUniform v data mesh
                       = Inr (d, ds)
                     \<longrightarrow> ds = [UniformSizes (GetArraySize v) (length counts)]))"
proof (intro conjI impI allI)
  assume "GetArraySize v > length counts"
  then show "PopulateAttribute cv name role HdInterpolationUniform v data mesh
          = Inr (data, [UniformSizes (GetArraySize v) (length counts), Oversized])"
    using assms by (simp add: PopulateAttribute_def)
next
  assume le: "GetArraySize v \<le> length counts"
  then show eq: "PopulateAttribute cv name role HdInterpolationUniform v data mesh
          = and_then (PopulateAttribute_Uniform cv v data mesh)
              (\<lambda>r. Inr (fst r, UniformSizes (GetArraySize v) (length counts) # snd r))"
    using assms by (simp add: PopulateAttribute_def)
  fix d ds
  assume "PopulateAttribute cv name role HdInterpolationUniform v data mesh = Inr (d, ds)"
  then obtain r where r: "PopulateAttribute_Uniform cv v data mesh = Inr r"
    and ds: "ds = UniformSizes (GetArraySize v) (length counts) # snd r"
    unfolding eq by (auto simp: and_then_Inr_iff)
  have "snd r = []"
    using r
    by (auto simp: PopulateAttribute_Uniform_def written_def and_then_Inr_iff
        split: VtValue.splits)
  then show "ds = [UniformSizes (GetArraySize v) (length counts)]"
    using ds by simp
qed

theorem PopulateAttribute_Uniform_oversized_witness:
  "PopulateAttribute example_casts ''displayOpacity'' ''vector'' HdInterpolationUniform
     (VtFloatArray [1, 2, 3]) [F1 0, F1 0]
     (example_mesh\<lparr>m_refiner := Some (example_refiner [4, 3])\<rparr>)
   = Inr ([F1 0, F1 0], [UniformSizes 3 2, Oversized])
   \<and> PopulateAttribute example_casts ''displayOpacity'' ''vector'' HdInterpolationUniform
       (VtFloatArray [1, 2]) [F1 0, F1 0, F1 0]
       (example_mesh\<lparr>m_refiner := Some (example_refiner [4, 3])\<rparr>)
     = Inr ([F1 1, F1 1, F1 2], [UniformSizes 2 2])"
proof -
  have c: "GetFaceVertexCounts (example_mesh\<lparr>m_refiner := Some (example_refiner [4, 3])\<rparr>)
           = Inr [4, 3]"
    by (simp add: GetFaceVertexCounts_def example_refiner_def)
  have run: "PopulateAttribute example_casts ''displayOpacity'' ''vector'' HdInterpolationUniform
       (VtFloatArray [1, 2]) [F1 0, F1 0, F1 0]
       (example_mesh\<lparr>m_refiner := Some (example_refiner [4, 3])\<rparr>)
     = Inr ([F1 1, F1 1, F1 2], [UniformSizes 2 2])"
    by code_simp
  show ?thesis
    using PopulateAttribute_Uniform_oversized[OF c, of "VtFloatArray [1, 2, 3]" example_casts]
      PopulateAttribute_Uniform_oversized[OF c, of "VtFloatArray [1, 2]" example_casts]
      run
    by simp
qed

text \<open>
  Claim C6: \<open>_PopulateAttribte_Constant\<close> on a source array whose length is not 1
  prints the incompatible size, returns \<open>false\<close> and leaves the buffer as it was; on a
  source array of length 1 it writes the converted element into the first cell of the
  buffer, and nothing else (the renderer gives a per-mesh attribute one cell; on a
  buffer of no cell the write is a fault).
\<close>

theorem PopulateAttribte_Constant_size:
  "PopulateAttribte_Constant to_cycles usd_data data
   = (if length usd_data \<noteq> 1 then Inr (False, data, [ConstantIncompatibleSize (length usd_data)])
      else if data = [] then Inl OutOfBounds
      else Inr (True, data[0 := to_cycles (usd_data ! 0)], []))"
  by (simp add: PopulateAttribte_Constant_def load_def store_def)

theorem PopulateAttribte_Constant_size_witness:
  "PopulateAttribte_Constant (\<lambda>x::int. x + 1) [1, 2] [0, 0] = Inr (False, [0, 0], [ConstantIncompatibleSize 2])
   \<and> PopulateAttribte_Constant (\<lambda>x::int. x + 1) [] [0, 0] = Inr (False, [0, 0], [ConstantIncompatibleSize 0])
   \<and> PopulateAttribte_Constant (\<lambda>x::int. x + 1) [5] [0, 0] = Inr (True, [6, 0], [])"
  using PopulateAttribte_Constant_size[of "\<lambda>x::int. x + 1" "[1, 2]" "[0, 0]"]
    PopulateAttribte_Constant_size[of "\<lambda>x::int. x + 1" "[]" "[0, 0]"]
    PopulateAttribte_Constant_size[of "\<lambda>x::int. x + 1" "[5]" "[0, 0]"]
  by simp

section \<open>Lemmas on normals, vertices and motion\<close>

lemma copy_converted_loop:
  assumes "n \<le> length xs" "n \<le> length d"
  shows "for_each [0..<n] (\<lambda>i d. and_then (load xs i) (\<lambda>x. store d i (f x))) d
         = Inr (map f (take n xs) @ drop n d)"
  using assms
proof (induction n)
  case 0
  then show ?case by simp
next
  case (Suc n)
  have IH: "for_each [0..<n] (\<lambda>i d. and_then (load xs i) (\<lambda>x. store d i (f x))) d
            = Inr (map f (take n xs) @ drop n d)"
    using Suc by simp
  have "(map f (take n xs) @ drop n d)[n := f (xs ! n)] = map f (take (Suc n) xs) @ drop (Suc n) d"
    using Suc.prems
    by (simp add: take_Suc_conv_app_nth list_update_append upd_conv_take_nth_drop drop_Suc
        Cons_nth_drop_Suc[symmetric] min_def)
  then show ?case
    unfolding upt_Suc_append[OF le0] for_each_append IH
    using Suc.prems by (simp add: load_def store_def)
qed

lemma attribute_data_set:
  "attribute_data n attrs = Inr old \<Longrightarrow> attribute_data n (set_attribute_data n d attrs) = Inr d"
  by (induction attrs)
     (auto simp: attribute_data_def set_attribute_data_def attributes_find_name_def split: option.splits if_splits)

lemma fold_add_vertex:
  "fold (\<lambda>p. add_vertex (case p of (x, y, z) \<Rightarrow> (x, y, z))) ps mesh = mesh\<lparr>verts := verts mesh @ ps\<rparr>"
proof -
  have f: "(\<lambda>p. add_vertex (case p of (x, y, z) \<Rightarrow> (x, y, z))) = add_vertex"
    by (rule ext) (simp split: prod.splits)
  have "fold add_vertex ps mesh = mesh\<lparr>verts := verts mesh @ ps\<rparr>"
    by (induction ps arbitrary: mesh) (simp_all add: add_vertex_def)
  then show ?thesis by (simp only: f)
qed

lemma PopulateVertices_appends:
  "m_refiner self = Some refiner \<Longrightarrow>
   PopulateVertices sceneDelegate self
   = Inr (self\<lparr>m_cyclesMesh := (m_cyclesMesh self)
                  \<lparr>verts := verts (m_cyclesMesh self)
                     @ Get_VtVec3fArray (RefineVertexData refiner (GetPrimvar sceneDelegate ''points''))\<rparr>\<rparr>)"
  unfolding PopulateVertices_def Let_def fold_add_vertex by simp

lemma motion_copy_loop:
  assumes "n \<le> length pp" "pos + n \<le> length d"
  shows "for_each [0..<n]
           (\<lambda>j s. and_then (load pp j)
              (\<lambda>x. and_then (store (snd s) (fst s) (f x)) (\<lambda>d. Inr (fst s + 1, d))))
           (pos, d)
         = Inr (pos + n, take pos d @ map f (take n pp) @ drop (pos + n) d)"
  using assms
proof (induction n)
  case 0
  then show ?case by simp
next
  case (Suc n)
  have IH: "for_each [0..<n]
           (\<lambda>j s. and_then (load pp j)
              (\<lambda>x. and_then (store (snd s) (fst s) (f x)) (\<lambda>d. Inr (fst s + 1, d))))
           (pos, d)
         = Inr (pos + n, take pos d @ map f (take n pp) @ drop (pos + n) d)"
    using Suc by simp
  have upd: "(take pos d @ map f (take n pp) @ drop (pos + n) d)[pos + n := f (pp ! n)]
             = take pos d @ map f (take (Suc n) pp) @ drop (pos + Suc n) d"
    using Suc.prems
    by (simp add: take_Suc_conv_app_nth list_update_append min_def Cons_nth_drop_Suc[symmetric]
        drop_Suc)
  show ?case
    unfolding upt_Suc_append[OF le0] for_each_append IH
    using Suc.prems upd by (simp add: load_def store_def)
qed

lemma motion_samples_loop:
  assumes "\<forall>sample\<in>set samples. fst sample \<noteq> 0 \<longrightarrow> nv \<le> length (Get_VtVec3fArray (snd sample))"
    and "pos + length (motion_positions nv samples) \<le> length d"
  shows "for_each samples (PopulateMotion_sample nv) (pos, d)
         = Inr (pos + length (motion_positions nv samples),
                take pos d @ motion_positions nv samples
                @ drop (pos + length (motion_positions nv samples)) d)"
  using assms
proof (induction samples arbitrary: pos d)
  case Nil
  then show ?case by (simp add: motion_positions_def)
next
  case (Cons sample samples)
  show ?case
  proof (cases "fst sample = 0")
    case True
    then have mp: "motion_positions nv (sample # samples) = motion_positions nv samples"
      by (simp add: motion_positions_def)
    show ?thesis
      using Cons.IH[of pos d] Cons.prems True
      by (simp add: mp PopulateMotion_sample_def)
  next
    case False
    let ?pp = "Get_VtVec3fArray (snd sample)"
    let ?w = "map (\<lambda>x. F3 (vec3f_to_float3 x)) (take nv ?pp)"
    let ?d = "take pos d @ ?w @ drop (pos + nv) d"
    have mp: "motion_positions nv (sample # samples) = ?w @ motion_positions nv samples"
      using False by (simp add: motion_positions_def)
    have nv: "nv \<le> length ?pp" using Cons.prems(1) False by simp
    have lw: "length ?w = nv" using nv by simp
    have bound: "pos + nv + length (motion_positions nv samples) \<le> length d"
      using Cons.prems(2) lw by (simp add: mp)
    have step: "PopulateMotion_sample nv sample (pos, d) = Inr (pos + nv, ?d)"
      using False motion_copy_loop[of nv ?pp pos d "\<lambda>x. F3 (vec3f_to_float3 x)"] nv bound
      by (simp add: PopulateMotion_sample_def Let_def)
    have dl: "length ?d = length d" using bound lw by simp
    have tk: "take (pos + nv) ?d = take pos d @ ?w" using bound lw by simp
    have dr: "drop (pos + nv + length (motion_positions nv samples)) ?d
              = drop (pos + nv + length (motion_positions nv samples)) d"
      using bound lw by (simp add: add.commute)
    have IH: "for_each samples (PopulateMotion_sample nv) (pos + nv, ?d)
         = Inr (pos + nv + length (motion_positions nv samples),
                take (pos + nv) ?d @ motion_positions nv samples
                @ drop (pos + nv + length (motion_positions nv samples)) ?d)"
      using Cons.prems(1) bound dl by (intro Cons.IH) auto
    have "for_each (sample # samples) (PopulateMotion_sample nv) (pos, d)
         = Inr (pos + nv + length (motion_positions nv samples),
                take (pos + nv) ?d @ motion_positions nv samples
                @ drop (pos + nv + length (motion_positions nv samples)) ?d)"
      by (simp only: for_each.simps step and_then.simps IH)
    then show ?thesis
      unfolding tk dr mp using nv by (simp add: add.assoc min_def)
  qed
qed

lemma copy_converted_loop_short:
  assumes "length xs < n" "length xs \<le> length d"
  shows "for_each [0..<n] (\<lambda>i d. and_then (load xs i) (\<lambda>x. store d i (f x))) d
         = Inl OutOfBounds"
proof -
  have split: "[0..<n] = [0..<length xs] @ length xs # [Suc (length xs)..<n]"
    using assms(1) by (metis le0 less_imp_le_nat upt_add_eq_append le_add_diff_inverse upt_conv_Cons)
  show ?thesis
    unfolding split for_each_append
    using copy_converted_loop[of "length xs" xs d f] assms(2)
    by (simp add: load_def)
qed

lemma AddNormals_Vertex_short:
  assumes "length normals < length (verts (m_cyclesMesh self))"
  shows "\<exists>e. AddNormals env normals HdInterpolationVertex self = Inl e"
proof -
  let ?mesh = "m_cyclesMesh self"
  let ?attrs = "attributes_add_std env ?mesh ATTR_STD_VERTEX_NORMAL [] (attributes ?mesh)"
  let ?n = "standard_name env ATTR_STD_VERTEX_NORMAL"
  show ?thesis
  proof (cases "attribute_data ?n ?attrs")
    case (Inl e)
    then show ?thesis by (simp add: AddNormals_def Let_def)
  next
    case (Inr cdata)
    show ?thesis
    proof (cases "length (verts ?mesh) \<le> length cdata")
      case False
      then show ?thesis using Inr by (simp add: AddNormals_def Let_def memset_float3_def)
    next
      case True
      let ?d0 = "replicate (length (verts ?mesh)) (F3 (0, 0, 0)) @ drop (length (verts ?mesh)) cdata"
      have len: "length normals \<le> length ?d0" using True assms by simp
      have loop: "for_each [0..<length (verts ?mesh)]
                    (\<lambda>i d. and_then (load normals i)
                       (\<lambda>x. store d i
                              (F3 (if m_orientation self = leftHanded
                                   then neg_float3 (vec3f_to_float3 x) else vec3f_to_float3 x))))
                    ?d0 = Inl OutOfBounds"
        by (rule copy_converted_loop_short[OF assms len])
      show ?thesis
        using Inr True loop by (simp add: AddNormals_def Let_def memset_float3_def)
    qed
  qed
qed

section \<open>The claims on normals and motion\<close>

text \<open>
  Claim C10: for normals given per vertex, \<open>_AddNormals\<close> writes one normal for
  every vertex of the renderer's mesh into the buffer of the vertex-normal attribute:
  the negated normal when the orientation of the mesh is left-handed, the normal as it
  is for any other orientation. The buffer must have a cell for every vertex and the
  array a normal for every vertex (otherwise the loop leaves one of them); the cells
  after the last vertex keep their values.
\<close>

theorem AddNormals_Vertex_orientation:
  assumes "mesh = m_cyclesMesh self"
    and "n = standard_name env ATTR_STD_VERTEX_NORMAL"
    and "attrs = attributes_add_std env mesh ATTR_STD_VERTEX_NORMAL [] (attributes mesh)"
    and "attribute_data n attrs = Inr cdata"
    and "length (verts mesh) \<le> length cdata"
    and "length (verts mesh) \<le> length normals"
    and "cells = map (\<lambda>x. F3 (if m_orientation self = leftHanded
                                 then neg_float3 (vec3f_to_float3 x) else vec3f_to_float3 x))
                     (take (length (verts mesh)) normals)"
  shows "AddNormals env normals HdInterpolationVertex self
         = Inr (self\<lparr>m_cyclesMesh :=
                       mesh\<lparr>attributes :=
                              set_attribute_data n (cells @ drop (length (verts mesh)) cdata) attrs\<rparr>\<rparr>)
       \<and> attribute_data n
            (set_attribute_data n (cells @ drop (length (verts mesh)) cdata) attrs)
         = Inr (cells @ drop (length (verts mesh)) cdata)
       \<and> length cells = length (verts mesh)"
proof -
  let ?nv = "length (verts mesh)"
  let ?f = "\<lambda>x. F3 (if m_orientation self = leftHanded
                       then neg_float3 (vec3f_to_float3 x) else vec3f_to_float3 x)"
  have ms: "memset_float3 cdata ?nv = Inr (replicate ?nv (F3 (0, 0, 0)) @ drop ?nv cdata)"
    using assms(5) by (simp add: memset_float3_def)
  have loop: "for_each [0..<?nv] (\<lambda>i d. and_then (load normals i) (\<lambda>x. store d i (?f x)))
                (replicate ?nv (F3 (0, 0, 0)) @ drop ?nv cdata)
              = Inr (map ?f (take ?nv normals) @ drop ?nv cdata)"
    using copy_converted_loop[of ?nv normals "replicate ?nv (F3 (0, 0, 0)) @ drop ?nv cdata" ?f]
      assms(5,6) by simp
  have res: "AddNormals env normals HdInterpolationVertex self
         = Inr (self\<lparr>m_cyclesMesh :=
                       mesh\<lparr>attributes :=
                              set_attribute_data n (cells @ drop ?nv cdata) attrs\<rparr>\<rparr>)"
    unfolding AddNormals_def Let_def
    using assms(1-4) ms loop by (simp add: assms(7))
  show ?thesis
    using res attribute_data_set[OF assms(4)] assms(6,7) by simp
qed

theorem AddNormals_Vertex_orientation_witness:
  "(case AddNormals example_env [(0, 0, 1), (0, 1, 0)] HdInterpolationVertex
           (example_mesh\<lparr>m_cyclesMesh := example_ccl_Mesh\<lparr>verts := [(0, 0, 0), (1, 0, 0)]\<rparr>,
                          m_orientation := leftHanded\<rparr>) of
      Inr self' \<Rightarrow> attribute_data ''N'' (attributes (m_cyclesMesh self'))
                   = Inr [F3 (0, 0, - 1), F3 (0, - 1, 0)]
    | Inl e \<Rightarrow> False)
   \<and> (case AddNormals example_env [(0, 0, 1), (0, 1, 0)] HdInterpolationVertex
           (example_mesh\<lparr>m_cyclesMesh := example_ccl_Mesh\<lparr>verts := [(0, 0, 0), (1, 0, 0)]\<rparr>,
                          m_orientation := rightHanded\<rparr>) of
      Inr self' \<Rightarrow> attribute_data ''N'' (attributes (m_cyclesMesh self'))
                   = Inr [F3 (0, 0, 1), F3 (0, 1, 0)]
    | Inl e \<Rightarrow> False)"
proof -
  let ?mesh = "example_ccl_Mesh\<lparr>verts := [(0, 0, 0), (1, 0, 0)]\<rparr>"
  let ?attrs = "attributes_add_std example_env ?mesh ATTR_STD_VERTEX_NORMAL [] (attributes ?mesh)"
  have a: "attribute_data ''N'' ?attrs = Inr [F3 (0, 0, 0), F3 (0, 0, 0)]"
    by (simp add: attribute_data_def attributes_add_std_def attributes_add_def
        attributes_find_name_def standard_or_given_def example_env_def example_ccl_Mesh_def
        numeral_2_eq_2)
  have n: "standard_name example_env ATTR_STD_VERTEX_NORMAL = ''N''"
    by (simp add: example_env_def)
  show ?thesis
    using AddNormals_Vertex_orientation[of ?mesh
        "example_mesh\<lparr>m_cyclesMesh := ?mesh, m_orientation := leftHanded\<rparr>" "''N''" example_env
        ?attrs "[F3 (0, 0, 0), F3 (0, 0, 0)]" "[(0, 0, 1), (0, 1, 0)]", OF _ _ refl a _ _ refl]
      AddNormals_Vertex_orientation[of ?mesh
        "example_mesh\<lparr>m_cyclesMesh := ?mesh, m_orientation := rightHanded\<rparr>" "''N''" example_env
        ?attrs "[F3 (0, 0, 0), F3 (0, 0, 0)]" "[(0, 0, 1), (0, 1, 0)]", OF _ _ refl a _ _ refl]
    by (simp add: n neg_float3_def vec3f_to_float3_def leftHanded_def rightHanded_def)
qed

text \<open>
  Claim C7: with \<open>N > 1\<close> position samples, \<open>_PopulateMotion\<close> sets the motion
  steps of the renderer's mesh to \<open>N + 1\<close> and writes into the motion-position
  attribute the positions of the samples whose time is not 0, in their order, and
  nothing of a sample at time 0; \<open>_PopulateVertices\<close> appends the refined points
  to the vertices of the mesh once. The mesh must not have a motion-position
  attribute yet (the code removes it and then writes through the removed pointer),
  every sample that is written must have a point for every vertex, and the buffer
  must hold what is written.
\<close>

theorem PopulateMotion_steps:
  assumes "N = length (m_pointSamples self)"
    and "1 < N"
    and "mesh = (m_cyclesMesh self)\<lparr>use_motion_blur := True, motion_steps := N + 1\<rparr>"
    and "attrs = (if m_useSubdivision self then subd_attributes mesh else attributes mesh)"
    and "attributes_find_std ATTR_STD_MOTION_VERTEX_POSITION attrs = None"
    and "n = standard_name env ATTR_STD_MOTION_VERTEX_POSITION"
    and "attrs1 = attributes_add_std env mesh ATTR_STD_MOTION_VERTEX_POSITION [] attrs"
    and "attribute_data n attrs1 = Inr mP"
    and "\<forall>sample\<in>set (m_pointSamples self).
           fst sample \<noteq> 0 \<longrightarrow> m_numMeshVerts self \<le> length (Get_VtVec3fArray (snd sample))"
    and "cells = motion_positions (m_numMeshVerts self) (m_pointSamples self)"
    and "length cells \<le> length mP"
    and "m_refiner self = Some refiner"
  shows "PopulateMotion env self
         = Inr (self\<lparr>m_cyclesMesh :=
                       (if m_useSubdivision self
                        then mesh\<lparr>subd_attributes :=
                                    set_attribute_data n (cells @ drop (length cells) mP) attrs1\<rparr>
                        else mesh\<lparr>attributes :=
                                    set_attribute_data n (cells @ drop (length cells) mP) attrs1\<rparr>)\<rparr>)
       \<and> motion_steps mesh = N + 1
       \<and> attribute_data n (set_attribute_data n (cells @ drop (length cells) mP) attrs1)
         = Inr (cells @ drop (length cells) mP)
       \<and> PopulateVertices sceneDelegate self
         = Inr (self\<lparr>m_cyclesMesh := (m_cyclesMesh self)
                        \<lparr>verts := verts (m_cyclesMesh self)
                           @ Get_VtVec3fArray
                               (RefineVertexData refiner (GetPrimvar sceneDelegate ''points''))\<rparr>\<rparr>)"
proof -
  have loop: "for_each (m_pointSamples self) (PopulateMotion_sample (m_numMeshVerts self)) (0, mP)
              = Inr (length cells, cells @ drop (length cells) mP)"
    using motion_samples_loop[of "m_pointSamples self" "m_numMeshVerts self" 0 mP] assms(9-11)
    by simp
  have N: "\<not> length (m_pointSamples self) \<le> 1" using assms(1,2) by simp
  note defs = assms(7,6,4,3,1)
  have res: "PopulateMotion env self
         = Inr (self\<lparr>m_cyclesMesh :=
                       (if m_useSubdivision self
                        then mesh\<lparr>subd_attributes :=
                                    set_attribute_data n (cells @ drop (length cells) mP) attrs1\<rparr>
                        else mesh\<lparr>attributes :=
                                    set_attribute_data n (cells @ drop (length cells) mP) attrs1\<rparr>)\<rparr>)"
    using N assms(5)[unfolded defs] assms(8)[unfolded defs] loop
    unfolding defs
    by (cases "m_useSubdivision self") (simp_all add: PopulateMotion_def Let_def)
  show ?thesis
    using res attribute_data_set[OF assms(8)] PopulateVertices_appends[OF assms(12)] assms(3)
    by simp
qed

theorem PopulateMotion_steps_witness:
  "(case PopulateMotion example_env
           (example_mesh\<lparr>m_cyclesMesh := example_ccl_Mesh\<lparr>verts := [(1, 1, 1)]\<rparr>,
                          m_numMeshVerts := 1, m_refiner := Some (example_refiner [3]),
                          m_pointSamples := [(- 1 / 2, VtVec3fArray [(0, 0, 0)]),
                                             (0, VtVec3fArray [(1, 1, 1)]),
                                             (1 / 2, VtVec3fArray [(2, 2, 2)])]\<rparr>) of
      Inr self' \<Rightarrow> motion_steps (m_cyclesMesh self') = 4
                 \<and> attribute_data ''motion_P'' (attributes (m_cyclesMesh self'))
                   = Inr [F3 (0, 0, 0), F3 (2, 2, 2), F3 (0, 0, 0)]
    | Inl e \<Rightarrow> False)"
proof -
  let ?self = "example_mesh\<lparr>m_cyclesMesh := example_ccl_Mesh\<lparr>verts := [(1, 1, 1)]\<rparr>,
                          m_numMeshVerts := 1, m_refiner := Some (example_refiner [3]),
                          m_pointSamples := [(- 1 / 2, VtVec3fArray [(0, 0, 0)]),
                                             (0, VtVec3fArray [(1, 1, 1)]),
                                             (1 / 2, VtVec3fArray [(2, 2, 2)])]\<rparr>"
  let ?mesh = "(m_cyclesMesh ?self)\<lparr>use_motion_blur := True, motion_steps := 3 + 1\<rparr>"
  let ?attrs1 = "attributes_add_std example_env ?mesh ATTR_STD_MOTION_VERTEX_POSITION [] []"
  have n: "standard_name example_env ATTR_STD_MOTION_VERTEX_POSITION = ''motion_P''"
    by (simp add: example_env_def)
  have a: "attribute_data ''motion_P'' ?attrs1 = Inr [F3 (0, 0, 0), F3 (0, 0, 0), F3 (0, 0, 0)]"
    by (simp add: attribute_data_def attributes_add_std_def attributes_add_def
        attributes_find_name_def standard_or_given_def example_env_def example_ccl_Mesh_def
        numeral_3_eq_3)
  have c: "motion_positions 1 (m_pointSamples ?self) = [F3 (0, 0, 0), F3 (2, 2, 2)]"
    by (simp add: motion_positions_def Get_VtVec3fArray_def vec3f_to_float3_def)
  show ?thesis
    using PopulateMotion_steps[of 3 ?self ?mesh "[]" "''motion_P''" example_env ?attrs1
        "[F3 (0, 0, 0), F3 (0, 0, 0), F3 (0, 0, 0)]" "[F3 (0, 0, 0), F3 (2, 2, 2)]"
        "example_refiner [3]" example_delegate] a c
    by (simp add: n example_mesh_def example_ccl_Mesh_def attributes_find_std_def
        Get_VtVec3fArray_def)
qed

section \<open>Lemmas on transforms\<close>

lemma center_sample_last:
  "center_sample xf
   = (if filter (\<lambda>sample. fst sample = 0) xf = [] then None
      else Some (snd (last (filter (\<lambda>sample. fst sample = 0) xf))))"
  by (simp add: center_sample_def split: list.splits)

lemma center_sample_snoc:
  "center_sample (xf @ [s]) = (if fst s = 0 then Some (snd s) else center_sample xf)"
  by (simp add: center_sample_last)

lemma center_sample_Nil: "center_sample [] = None"
  by (simp add: center_sample_def)

lemma fold_SetTransform_center:
  "fold (SetTransform_center cv) xf (object, b)
   = (case center_sample xf of
        None \<Rightarrow> (object, b)
      | Some m \<Rightarrow> (object\<lparr>tfm := mat4d_to_transform cv m\<rparr>, True))"
proof (induction xf rule: rev_induct)
  case Nil
  then show ?case by (simp add: center_sample_Nil)
next
  case (snoc s xf)
  then show ?case
    by (simp add: center_sample_snoc SetTransform_center_def split: option.splits)
qed

lemma fold_SetTransform_step:
  assumes "n \<le> length xf" "n \<le> length (motion object)"
  shows "fold (SetTransform_step cv xf) [0..<n] object
         = object\<lparr>tfm := (case center_sample (take n xf) of
                              None \<Rightarrow> tfm object
                            | Some m \<Rightarrow> mat4d_to_transform cv m),
                   motion := map (\<lambda>s. mat4d_to_transform cv (snd s)) (take n xf)
                             @ drop n (motion object)\<rparr>"
  using assms
proof (induction n)
  case 0
  then show ?case by (simp add: center_sample_Nil)
next
  case (Suc n)
  have IH: "fold (SetTransform_step cv xf) [0..<n] object
         = object\<lparr>tfm := (case center_sample (take n xf) of
                              None \<Rightarrow> tfm object
                            | Some m \<Rightarrow> mat4d_to_transform cv m),
                   motion := map (\<lambda>s. mat4d_to_transform cv (snd s)) (take n xf)
                             @ drop n (motion object)\<rparr>"
    using Suc by simp
  have tk: "take (Suc n) xf = take n xf @ [xf ! n]"
    using Suc.prems by (simp add: take_Suc_conv_app_nth)
  have upd: "(map (\<lambda>s. mat4d_to_transform cv (snd s)) (take n xf) @ drop n (motion object))
               [n := mat4d_to_transform cv (snd (xf ! n))]
             = map (\<lambda>s. mat4d_to_transform cv (snd s)) (take n xf)
               @ mat4d_to_transform cv (snd (xf ! n)) # drop (Suc n) (motion object)"
    using Suc.prems
    by (simp add: list_update_append min_def Cons_nth_drop_Suc[symmetric])
  show ?case
    unfolding upt_Suc_append[OF le0] fold_append comp_def IH
    by (simp add: SetTransform_step_def Let_def tk center_sample_snoc upd)
qed

lemma HdCyclesSetTransform_result:
  assumes "xf = SampleTransform delegate"
  shows "HdCyclesSetTransform cv (Some object) (Some g) delegate use_motion
         = (Some (object
              \<lparr>tfm := base_transform cv xf,
               motion :=
                 (if xf = [] \<or> \<not> use_motion then motion object
                  else if motion_steps g = length xf
                  then map (\<lambda>s. mat4d_to_transform cv (snd s)) xf
                  else if use_motion_blur g then replicate (motion_steps g) (base_transform cv xf)
                  else [])\<rparr>),
            Some (if xf \<noteq> [] \<and> use_motion \<and> motion_steps g = length xf
                  then g\<lparr>use_motion_blur := True,
                         need_update := (transform_applied g \<or> need_update g)\<rparr>
                  else g),
            xf)"
proof (cases "xf = []")
  case True
  then show ?thesis
    using assms by (simp add: HdCyclesSetTransform_def base_transform_def)
next
  case False
  have steps: "fold (SetTransform_step cv xf) [0..<length xf]
                 (object\<lparr>tfm := T, motion := replicate (length xf) transform_empty\<rparr>)
               = object\<lparr>tfm := (case center_sample xf of
                                    None \<Rightarrow> T | Some m \<Rightarrow> mat4d_to_transform cv m),
                        motion := map (\<lambda>s. mat4d_to_transform cv (snd s)) xf\<rparr>" for T
    using fold_SetTransform_step[of "length xf" xf
        "object\<lparr>tfm := T, motion := replicate (length xf) transform_empty\<rparr>" cv]
    by (simp split: option.splits)
  have g: "(if transform_applied g then g\<lparr>use_motion_blur := True, need_update := True\<rparr>
            else g\<lparr>use_motion_blur := True\<rparr>)
           = g\<lparr>use_motion_blur := True, need_update := (transform_applied g \<or> need_update g)\<rparr>"
    by simp
  show ?thesis
  proof (cases "center_sample xf")
    case None
    then have bt: "base_transform cv xf = mat4d_to_transform cv (snd (xf ! 0))"
      using False by (simp add: base_transform_def)
    show ?thesis
      unfolding HdCyclesSetTransform_def Let_def assms[symmetric]
      using False None
      by (simp add: fold_SetTransform_center steps g bt)
  next
    case (Some m)
    then have bt: "base_transform cv xf = mat4d_to_transform cv m"
      using False by (simp add: base_transform_def)
    have single: "mat4d_to_transform cv (snd (xf ! 0)) = mat4d_to_transform cv m"
      if "\<not> Suc 0 < length xf"
    proof -
      have "length xf = 1" using False that by (cases xf) simp_all
      then obtain s where s: "xf = [s]"
        by (metis length_0_conv length_Suc_conv One_nat_def)
      show ?thesis using Some by (simp add: s center_sample_last split: if_splits)
    qed
    show ?thesis
      unfolding HdCyclesSetTransform_def Let_def assms[symmetric]
      using False Some single
      by (simp add: fold_SetTransform_center steps g bt)
  qed
qed

section \<open>Lemmas on a sync with clean dirty bits\<close>







section \<open>The claim on a sync with clean dirty bits\<close>




section \<open>Lemmas on what the blocks of a sync keep\<close>

lemma AddNormals_keeps:
  assumes "AddNormals env normals interpolation this = Inr this'"
  shows "m_cyclesObject this' = m_cyclesObject this"
    and "m_hasVertexColors this' = m_hasVertexColors this"
    and "m_refiner this' = m_refiner this"
    and "m_usedShaders this' = m_usedShaders this"
  using assms
  by (auto simp: AddNormals_def Let_def and_then_Inr_iff split: if_splits)

lemma PopulateVertices_keeps:
  assumes "PopulateVertices sceneDelegate this = Inr this'"
  shows "m_cyclesObject this' = m_cyclesObject this"
    and "m_hasVertexColors this' = m_hasVertexColors this"
    and "m_refiner this' = m_refiner this"
    and "m_usedShaders this' = m_usedShaders this"
  using assms
  by (auto simp: PopulateVertices_def Let_def split: option.splits)

lemma PopulateFaces_keeps:
  assumes "PopulateFaces env ids this = Inr this'"
  shows "m_cyclesObject this' = m_cyclesObject this"
    and "m_hasVertexColors this' = m_hasVertexColors this"
    and "m_refiner this' = m_refiner this"
    and "m_usedShaders this' = m_usedShaders this"
  using assms
  by (auto simp: PopulateFaces_def Let_def split: option.splits)

lemma PopulateMotion_keeps:
  assumes "PopulateMotion env this = Inr this'"
  shows "m_cyclesObject this' = m_cyclesObject this"
    and "m_hasVertexColors this' = m_hasVertexColors this"
    and "m_refiner this' = m_refiner this"
    and "m_usedShaders this' = m_usedShaders this"
  using assms
  by (auto simp: PopulateMotion_def Let_def and_then_Inr_iff split: if_splits option.splits)

lemma PopulateGenerated_keeps:
  assumes "PopulateGenerated env this = Inr this'"
  shows "m_cyclesObject this' = m_cyclesObject this"
    and "m_hasVertexColors this' = m_hasVertexColors this"
    and "m_refiner this' = m_refiner this"
    and "m_usedShaders this' = m_usedShaders this"
  using assms
  by (auto simp: PopulateGenerated_def Let_def and_then_Inr_iff split: if_splits)

lemma FinishMesh_keeps:
  assumes "FinishMesh env this = Inr this'"
  shows "m_cyclesObject this' = m_cyclesObject this"
    and "m_hasVertexColors this' = m_hasVertexColors this"
    and "m_refiner this' = m_refiner this"
    and "m_usedShaders this' = m_usedShaders this"
  using assms
  by (auto simp: FinishMesh_def dest: PopulateGenerated_keeps)

lemma AddUVSet_keeps:
  assumes "AddUVSet env name uvs interpolation (this, evs) = Inr (this', evs')"
  shows "m_cyclesObject this' = m_cyclesObject this"
    and "m_hasVertexColors this' = m_hasVertexColors this"
    and "m_refiner this' = m_refiner this"
    and "m_usedShaders this' = m_usedShaders this"
  using assms
  by (auto simp: AddUVSet_def Let_def and_then_Inr_iff)

lemma AddColors_keeps:
  assumes "AddColors env name role colors interpolation (this, evs) = Inr (this', evs')"
  shows "tfm (m_cyclesObject this') = tfm (m_cyclesObject this)"
    and "motion (m_cyclesObject this') = motion (m_cyclesObject this)"
    and "m_hasVertexColors this' = m_hasVertexColors this"
    and "m_refiner this' = m_refiner this"
    and "m_usedShaders this' = m_usedShaders this"
    and "\<not> (name = displayColor_token \<and> interpolation = HdInterpolationConstant)
         \<Longrightarrow> color (m_cyclesObject this') = color (m_cyclesObject this)"
  using assms
  by (auto simp: AddColors_def Let_def and_then_Inr_iff split: if_splits)

lemma AddColors_displayColor:
  assumes "AddColors env displayColor_token role colors HdInterpolationConstant (this, evs)
           = Inr (this', evs')"
    and "displayColor_of env colors = Inr (x, y, z, w)"
  shows "color (m_cyclesObject this') = (x, y, z)"
proof -
  have "\<not> IsEmpty colors"
    using assms(2) by (auto simp: IsEmpty_def displayColor_of_def)
  then show ?thesis
    using assms by (auto simp: AddColors_def Let_def and_then_Inr_iff split: if_splits)
qed

lemma Sync_primvar_keeps:
  assumes "Sync_primvar env sceneDelegate dirtyBits interpolation pv fr = Inr fr'"
  shows "m_refiner (rprim fr') = m_refiner (rprim fr)"
    and "m_usedShaders (rprim fr') = m_usedShaders (rprim fr)"
    and "m_hasVertexColors (rprim fr) \<Longrightarrow> m_hasVertexColors (rprim fr')"
    and "newMesh fr' = newMesh fr"
    and "\<not> (pv_name pv = displayColor_token \<and> interpolation = HdInterpolationConstant)
         \<Longrightarrow> color (m_cyclesObject (rprim fr')) = color (m_cyclesObject (rprim fr))"
proof -
  consider (clean) "\<not> IsPrimvarDirty dirtyBits (pv_name pv)"
    | (normals) "IsPrimvarDirty dirtyBits (pv_name pv)"
        "pv_name pv = ''normals'' \<or> pv_role pv = ''normal''"
    | (velocities) "IsPrimvarDirty dirtyBits (pv_name pv)"
        "\<not> (pv_name pv = ''normals'' \<or> pv_role pv = ''normal'')" "pv_name pv = ''velocities''"
    | (uv) "IsPrimvarDirty dirtyBits (pv_name pv)"
        "\<not> (pv_name pv = ''normals'' \<or> pv_role pv = ''normal'')" "pv_name pv \<noteq> ''velocities''"
        "pv_role pv = ''textureCoordinate''"
    | (colors) "IsPrimvarDirty dirtyBits (pv_name pv)"
        "\<not> (pv_name pv = ''normals'' \<or> pv_role pv = ''normal'')" "pv_name pv \<noteq> ''velocities''"
        "pv_role pv \<noteq> ''textureCoordinate''"
        "pv_name pv = displayColor_token \<or> pv_role pv = ''color''"
    | (other) "IsPrimvarDirty dirtyBits (pv_name pv)"
        "\<not> (pv_name pv = ''normals'' \<or> pv_role pv = ''normal'')" "pv_name pv \<noteq> ''velocities''"
        "pv_role pv \<noteq> ''textureCoordinate''"
        "\<not> (pv_name pv = displayColor_token \<or> pv_role pv = ''color'')"
    by blast
  then have "m_refiner (rprim fr') = m_refiner (rprim fr)
     \<and> m_usedShaders (rprim fr') = m_usedShaders (rprim fr)
     \<and> (m_hasVertexColors (rprim fr) \<longrightarrow> m_hasVertexColors (rprim fr'))
     \<and> newMesh fr' = newMesh fr
     \<and> (\<not> (pv_name pv = displayColor_token \<and> interpolation = HdInterpolationConstant)
         \<longrightarrow> color (m_cyclesObject (rprim fr')) = color (m_cyclesObject (rprim fr)))"
  proof cases
    case clean
    then show ?thesis using assms by (simp add: Sync_primvar_def)
  next
    case normals
    then show ?thesis
      using assms
      by (auto simp: Sync_primvar_def Let_def and_then_Inr_iff
          split: option.splits VtValue.splits if_splits dest: AddNormals_keeps)
  next
    case velocities
    then show ?thesis using assms by (simp add: Sync_primvar_def)
  next
    case uv
    then show ?thesis
      using assms
      by (auto simp: Sync_primvar_def Let_def and_then_Inr_iff with_self_events_def
          split: option.splits if_splits dest: AddUVSet_keeps)
  next
    case colors
    then show ?thesis
      using assms
      by (auto simp: Sync_primvar_def Let_def and_then_Inr_iff with_self_events_def
          split: option.splits if_splits dest: AddColors_keeps)
  next
    case other
    then show ?thesis using assms by (simp add: Sync_primvar_def)
  qed
  then show "m_refiner (rprim fr') = m_refiner (rprim fr)"
    and "m_usedShaders (rprim fr') = m_usedShaders (rprim fr)"
    and "m_hasVertexColors (rprim fr) \<Longrightarrow> m_hasVertexColors (rprim fr')"
    and "newMesh fr' = newMesh fr"
    and "\<not> (pv_name pv = displayColor_token \<and> interpolation = HdInterpolationConstant)
         \<Longrightarrow> color (m_cyclesObject (rprim fr')) = color (m_cyclesObject (rprim fr))"
    by simp_all
qed

lemma Sync_primvar_displayColor:
  assumes "Sync_primvar env sceneDelegate dirtyBits HdInterpolationConstant pv fr = Inr fr'"
    and "pv_name pv = displayColor_token"
    and "pv_role pv \<noteq> ''normal''" "pv_role pv \<noteq> ''textureCoordinate''"
    and "is_set dirtyBits DirtyPrimvar"
    and "m_refiner (rprim fr) = Some refiner"
    and "refined = RefineData refiner (GetPrimvar sceneDelegate displayColor_token)
                     HdInterpolationConstant"
    and "GetArraySize (GetPrimvar sceneDelegate displayColor_token) \<le> GetArraySize refined"
  shows "displayColor_of env refined = Inr (x, y, z, w)
         \<Longrightarrow> color (m_cyclesObject (rprim fr')) = (x, y, z)"
    and "m_hasVertexColors (rprim fr')"
proof -
  have d: "IsPrimvarDirty dirtyBits (pv_name pv)"
    using assms(2,5) by (simp add: IsPrimvarDirty_def displayColor_token_def)
  have n: "pv_name pv \<noteq> ''normals''" "pv_name pv \<noteq> ''velocities''"
    using assms(2) by (simp_all add: displayColor_token_def)
  obtain p where p: "AddColors env displayColor_token (pv_role pv) refined HdInterpolationConstant
                       (rprim fr, events fr) = Inr p"
    and fr': "fr' = (with_self_events fr p)
                      \<lparr>rprim := (rprim (with_self_events fr p))\<lparr>m_hasVertexColors := True\<rparr>,
                       mesh_updated := True\<rparr>"
    using assms(1) d n assms(3,4,6,8) unfolding assms(7)
    by (auto simp: Sync_primvar_def Let_def and_then_Inr_iff assms(2))
  have "color (m_cyclesObject (fst p)) = (x, y, z)"
    if "displayColor_of env refined = Inr (x, y, z, w)"
    using AddColors_displayColor[of env "pv_role pv" refined "rprim fr" "events fr" "fst p" "snd p"
        x y z w] p that
    by simp
  then show "displayColor_of env refined = Inr (x, y, z, w)
         \<Longrightarrow> color (m_cyclesObject (rprim fr')) = (x, y, z)"
    and "m_hasVertexColors (rprim fr')"
    by (simp_all add: fr' with_self_events_def)
qed

lemma Sync_primvar_loop_keeps:
  assumes "for_each pvs (Sync_primvar env sceneDelegate dirtyBits interpolation) fr = Inr fr'"
  shows "m_refiner (rprim fr') = m_refiner (rprim fr)"
    and "m_usedShaders (rprim fr') = m_usedShaders (rprim fr)"
    and "m_hasVertexColors (rprim fr) \<Longrightarrow> m_hasVertexColors (rprim fr')"
    and "newMesh fr' = newMesh fr"
    and "interpolation \<noteq> HdInterpolationConstant
           \<or> (\<forall>pv\<in>set pvs. pv_name pv \<noteq> displayColor_token)
         \<Longrightarrow> color (m_cyclesObject (rprim fr')) = color (m_cyclesObject (rprim fr))"
proof -
  have "m_refiner (rprim fr') = m_refiner (rprim fr)
      \<and> m_usedShaders (rprim fr') = m_usedShaders (rprim fr)
      \<and> (m_hasVertexColors (rprim fr) \<longrightarrow> m_hasVertexColors (rprim fr'))
      \<and> newMesh fr' = newMesh fr
      \<and> (interpolation \<noteq> HdInterpolationConstant
           \<or> (\<forall>pv\<in>set pvs. pv_name pv \<noteq> displayColor_token)
         \<longrightarrow> color (m_cyclesObject (rprim fr')) = color (m_cyclesObject (rprim fr)))"
    using assms
  proof (induction pvs arbitrary: fr)
    case Nil
    then show ?case by simp
  next
    case (Cons pv pvs)
    from Cons.prems obtain fr1 where
      s: "Sync_primvar env sceneDelegate dirtyBits interpolation pv fr = Inr fr1"
      and r: "for_each pvs (Sync_primvar env sceneDelegate dirtyBits interpolation) fr1 = Inr fr'"
      by (auto simp: and_then_Inr_iff)
    note k = Sync_primvar_keeps[OF s]
    note IH = Cons.IH[OF r]
    show ?case
      using k(1,2,4) k(3) k(5) IH by auto
  qed
  then show "m_refiner (rprim fr') = m_refiner (rprim fr)"
    and "m_usedShaders (rprim fr') = m_usedShaders (rprim fr)"
    and "m_hasVertexColors (rprim fr) \<Longrightarrow> m_hasVertexColors (rprim fr')"
    and "newMesh fr' = newMesh fr"
    and "interpolation \<noteq> HdInterpolationConstant
           \<or> (\<forall>pv\<in>set pvs. pv_name pv \<noteq> displayColor_token)
         \<Longrightarrow> color (m_cyclesObject (rprim fr')) = color (m_cyclesObject (rprim fr))"
    by simp_all
qed

lemma Sync_primvar_loop_displayColor:
  assumes "for_each pvs (Sync_primvar env sceneDelegate dirtyBits HdInterpolationConstant) fr
           = Inr fr'"
    and "filter (\<lambda>pv. pv_name pv = displayColor_token) pvs = [pv]"
    and "pv_role pv \<noteq> ''normal''" "pv_role pv \<noteq> ''textureCoordinate''"
    and "is_set dirtyBits DirtyPrimvar"
    and "m_refiner (rprim fr) = Some refiner"
    and "refined = RefineData refiner (GetPrimvar sceneDelegate displayColor_token)
                     HdInterpolationConstant"
    and "GetArraySize (GetPrimvar sceneDelegate displayColor_token) \<le> GetArraySize refined"
  shows "m_hasVertexColors (rprim fr')
       \<and> (displayColor_of env refined = Inr (x, y, z, w)
          \<longrightarrow> color (m_cyclesObject (rprim fr')) = (x, y, z))"
  using assms(1,2,6)
proof (induction pvs arbitrary: fr)
  case Nil
  then show ?case by simp
next
  case (Cons pv0 pvs)
  from Cons.prems(1) obtain fr1 where
    s: "Sync_primvar env sceneDelegate dirtyBits HdInterpolationConstant pv0 fr = Inr fr1"
    and r: "for_each pvs (Sync_primvar env sceneDelegate dirtyBits HdInterpolationConstant) fr1
            = Inr fr'"
    by (auto simp: and_then_Inr_iff)
  show ?case
  proof (cases "pv_name pv0 = displayColor_token")
    case True
    then have pv0: "pv0 = pv" and none: "filter (\<lambda>pv. pv_name pv = displayColor_token) pvs = []"
      using Cons.prems(2) by simp_all
    have rest: "\<forall>pv\<in>set pvs. pv_name pv \<noteq> displayColor_token"
      using none by (simp add: filter_empty_conv)
    note c = Sync_primvar_displayColor[OF s True assms(3,4)[folded pv0] assms(5) Cons.prems(3)
        assms(7,8)]
    note k = Sync_primvar_loop_keeps[OF r]
    show ?thesis using c k(3) k(5) rest by auto
  next
    case False
    then have f: "filter (\<lambda>pv. pv_name pv = displayColor_token) pvs = [pv]"
      using Cons.prems(2) by simp
    have m: "m_refiner (rprim fr1) = Some refiner"
      using Sync_primvar_keeps(1)[OF s] Cons.prems(3) by simp
    show ?thesis by (rule Cons.IH[OF r f m])
  qed
qed

lemma Sync_primvars_split:
  assumes "Sync_primvars env sceneDelegate dirtyBits fr = Inr fr'"
  obtains fr1 fr2 fr3 where
    "for_each (GetPrimvarDescriptors sceneDelegate HdInterpolationConstant)
       (Sync_primvar env sceneDelegate dirtyBits HdInterpolationConstant) fr = Inr fr1"
    "for_each (GetPrimvarDescriptors sceneDelegate HdInterpolationUniform)
       (Sync_primvar env sceneDelegate dirtyBits HdInterpolationUniform) fr1 = Inr fr2"
    "for_each (GetPrimvarDescriptors sceneDelegate HdInterpolationVertex)
       (Sync_primvar env sceneDelegate dirtyBits HdInterpolationVertex) fr2 = Inr fr3"
    "for_each (GetPrimvarDescriptors sceneDelegate HdInterpolationFaceVarying)
       (Sync_primvar env sceneDelegate dirtyBits HdInterpolationFaceVarying) fr3 = Inr fr'"
  using assms
  unfolding Sync_primvars_def primvarDescsPerInterpolation_def
  by (auto simp: and_then_Inr_iff)

lemma Sync_primvars_keeps:
  assumes "Sync_primvars env sceneDelegate dirtyBits fr = Inr fr'"
  shows "m_refiner (rprim fr') = m_refiner (rprim fr)"
    and "m_usedShaders (rprim fr') = m_usedShaders (rprim fr)"
    and "m_hasVertexColors (rprim fr) \<Longrightarrow> m_hasVertexColors (rprim fr')"
    and "newMesh fr' = newMesh fr"
proof -
  from assms obtain fr1 fr2 fr3 where
    a: "for_each (GetPrimvarDescriptors sceneDelegate HdInterpolationConstant)
       (Sync_primvar env sceneDelegate dirtyBits HdInterpolationConstant) fr = Inr fr1"
    and b: "for_each (GetPrimvarDescriptors sceneDelegate HdInterpolationUniform)
       (Sync_primvar env sceneDelegate dirtyBits HdInterpolationUniform) fr1 = Inr fr2"
    and c: "for_each (GetPrimvarDescriptors sceneDelegate HdInterpolationVertex)
       (Sync_primvar env sceneDelegate dirtyBits HdInterpolationVertex) fr2 = Inr fr3"
    and d: "for_each (GetPrimvarDescriptors sceneDelegate HdInterpolationFaceVarying)
       (Sync_primvar env sceneDelegate dirtyBits HdInterpolationFaceVarying) fr3 = Inr fr'"
    by (rule Sync_primvars_split)
  note ka = Sync_primvar_loop_keeps[OF a]
  note kb = Sync_primvar_loop_keeps[OF b]
  note kc = Sync_primvar_loop_keeps[OF c]
  note kd = Sync_primvar_loop_keeps[OF d]
  show "m_refiner (rprim fr') = m_refiner (rprim fr)"
    using ka(1) kb(1) kc(1) kd(1) by simp
  show "m_usedShaders (rprim fr') = m_usedShaders (rprim fr)"
    using ka(2) kb(2) kc(2) kd(2) by simp
  show "m_hasVertexColors (rprim fr) \<Longrightarrow> m_hasVertexColors (rprim fr')"
    using ka(3) kb(3) kc(3) kd(3) by simp
  show "newMesh fr' = newMesh fr"
    using ka(4) kb(4) kc(4) kd(4) by simp
qed

lemma Sync_primvars_displayColor:
  assumes "Sync_primvars env sceneDelegate dirtyBits fr = Inr fr'"
    and "filter (\<lambda>pv. pv_name pv = displayColor_token)
           (GetPrimvarDescriptors sceneDelegate HdInterpolationConstant) = [pv]"
    and "pv_role pv \<noteq> ''normal''" "pv_role pv \<noteq> ''textureCoordinate''"
    and "is_set dirtyBits DirtyPrimvar"
    and "m_refiner (rprim fr) = Some refiner"
    and "refined = RefineData refiner (GetPrimvar sceneDelegate displayColor_token)
                     HdInterpolationConstant"
    and "GetArraySize (GetPrimvar sceneDelegate displayColor_token) \<le> GetArraySize refined"
  shows "m_hasVertexColors (rprim fr')
       \<and> (displayColor_of env refined = Inr (x, y, z, w)
          \<longrightarrow> color (m_cyclesObject (rprim fr')) = (x, y, z))"
proof -
  from assms(1) obtain fr1 fr2 fr3 where
    a: "for_each (GetPrimvarDescriptors sceneDelegate HdInterpolationConstant)
       (Sync_primvar env sceneDelegate dirtyBits HdInterpolationConstant) fr = Inr fr1"
    and b: "for_each (GetPrimvarDescriptors sceneDelegate HdInterpolationUniform)
       (Sync_primvar env sceneDelegate dirtyBits HdInterpolationUniform) fr1 = Inr fr2"
    and c: "for_each (GetPrimvarDescriptors sceneDelegate HdInterpolationVertex)
       (Sync_primvar env sceneDelegate dirtyBits HdInterpolationVertex) fr2 = Inr fr3"
    and d: "for_each (GetPrimvarDescriptors sceneDelegate HdInterpolationFaceVarying)
       (Sync_primvar env sceneDelegate dirtyBits HdInterpolationFaceVarying) fr3 = Inr fr'"
    by (rule Sync_primvars_split)
  note ca = Sync_primvar_loop_displayColor[OF a assms(2-8)]
  note kb = Sync_primvar_loop_keeps[OF b]
  note kc = Sync_primvar_loop_keeps[OF c]
  note kd = Sync_primvar_loop_keeps[OF d]
  show ?thesis
    using ca kb(3) kc(3) kd(3) kb(5) kc(5) kd(5) by simp
qed

lemma Sync_subset_keeps:
  assumes "Sync_subset sceneDelegate geomSubset s = Inr s'"
  shows "m_refiner (rprim (fst s')) = m_refiner (rprim (fst s))
       \<and> m_hasVertexColors (rprim (fst s')) = m_hasVertexColors (rprim (fst s))
       \<and> m_cyclesObject (rprim (fst s')) = m_cyclesObject (rprim (fst s))
       \<and> newMesh (fst s') = newMesh (fst s)"
  using assms
  by (auto simp: Sync_subset_def Let_def and_then_Inr_iff split: if_splits option.splits)

lemma Sync_subsets_keeps:
  assumes "for_each subsets (Sync_subset sceneDelegate) s = Inr s'"
  shows "m_refiner (rprim (fst s')) = m_refiner (rprim (fst s))
       \<and> m_hasVertexColors (rprim (fst s')) = m_hasVertexColors (rprim (fst s))
       \<and> m_cyclesObject (rprim (fst s')) = m_cyclesObject (rprim (fst s))
       \<and> newMesh (fst s') = newMesh (fst s)"
  using assms
proof (induction subsets arbitrary: s)
  case Nil
  then show ?case by simp
next
  case (Cons a subsets)
  from Cons.prems obtain s1 where
    s: "Sync_subset sceneDelegate a s = Inr s1"
    and r: "for_each subsets (Sync_subset sceneDelegate) s1 = Inr s'"
    by (auto simp: and_then_Inr_iff)
  show ?case using Sync_subset_keeps[OF s] Cons.IH[OF r] by simp
qed

lemma Sync_newMesh_split:
  assumes "Sync_newMesh env sceneDelegate dirtyBits fr = Inr fr'" and "newMesh fr"
  obtains s2 this3 this4 this5 fr6 where
    "for_each (GetGeomSubsets (m_topology (rprim fr))) (Sync_subset sceneDelegate)
       (fr\<lparr>rprim := (rprim fr)\<lparr>m_cyclesMesh := Mesh_clear env (m_cyclesMesh (rprim fr))\<rparr>\<rparr>,
        replicate (GetNumFaces (m_topology (rprim fr))) 0) = Inr s2"
    "PopulateFaces env (snd s2) (rprim (fst s2)) = Inr this3"
    "PopulateVertices sceneDelegate this3 = Inr this4"
    "(if m_useMotionBlur this4 \<and> m_useDeformMotionBlur this4
      then PopulateMotion env this4 else Inr this4) = Inr this5"
    "Sync_primvars env sceneDelegate dirtyBits ((fst s2)\<lparr>rprim := this5\<rparr>) = Inr fr6"
    "fr' = (if length (m_usedShaders (rprim fr6)) > 0
            then fr6\<lparr>rprim := (rprim fr6)
                        \<lparr>m_cyclesMesh := (m_cyclesMesh (rprim fr6))
                           \<lparr>used_shaders := m_usedShaders (rprim fr6)\<rparr>\<rparr>\<rparr>
            else fr6)"
proof -
  have "\<exists>s2 this3 this4 this5 fr6.
    for_each (GetGeomSubsets (m_topology (rprim fr))) (Sync_subset sceneDelegate)
       (fr\<lparr>rprim := (rprim fr)\<lparr>m_cyclesMesh := Mesh_clear env (m_cyclesMesh (rprim fr))\<rparr>\<rparr>,
        replicate (GetNumFaces (m_topology (rprim fr))) 0) = Inr s2
    \<and> PopulateFaces env (snd s2) (rprim (fst s2)) = Inr this3
    \<and> PopulateVertices sceneDelegate this3 = Inr this4
    \<and> (if m_useMotionBlur this4 \<and> m_useDeformMotionBlur this4
      then PopulateMotion env this4 else Inr this4) = Inr this5
    \<and> Sync_primvars env sceneDelegate dirtyBits ((fst s2)\<lparr>rprim := this5\<rparr>) = Inr fr6
    \<and> fr' = (if length (m_usedShaders (rprim fr6)) > 0
            then fr6\<lparr>rprim := (rprim fr6)
                        \<lparr>m_cyclesMesh := (m_cyclesMesh (rprim fr6))
                           \<lparr>used_shaders := m_usedShaders (rprim fr6)\<rparr>\<rparr>\<rparr>
            else fr6)"
    using assms unfolding Sync_newMesh_def Let_def
    by (auto simp add: and_then_Inr_iff split del: if_split)
  then show ?thesis using that by blast
qed

lemma PopulateMotion_if_keeps:
  assumes "(if m_useMotionBlur this \<and> m_useDeformMotionBlur this
            then PopulateMotion env this else Inr this) = Inr this'"
  shows "m_cyclesObject this' = m_cyclesObject this"
    and "m_hasVertexColors this' = m_hasVertexColors this"
    and "m_refiner this' = m_refiner this"
    and "m_usedShaders this' = m_usedShaders this"
  using assms PopulateMotion_keeps[of env this this']
  by (auto split: if_splits)

lemma Sync_newMesh_keeps:
  assumes "Sync_newMesh env sceneDelegate dirtyBits fr = Inr fr'"
  shows "m_refiner (rprim fr') = m_refiner (rprim fr)"
    and "m_hasVertexColors (rprim fr) \<Longrightarrow> m_hasVertexColors (rprim fr')"
    and "newMesh fr' = newMesh fr"
proof -
  have "m_refiner (rprim fr') = m_refiner (rprim fr)
      \<and> (m_hasVertexColors (rprim fr) \<longrightarrow> m_hasVertexColors (rprim fr'))
      \<and> newMesh fr' = newMesh fr"
  proof (cases "newMesh fr")
    case False
    then show ?thesis using assms by (simp add: Sync_newMesh_def)
  next
    case True
    from Sync_newMesh_split[OF assms True] obtain s2 this3 this4 this5 fr6 where
      a: "for_each (GetGeomSubsets (m_topology (rprim fr))) (Sync_subset sceneDelegate)
       (fr\<lparr>rprim := (rprim fr)\<lparr>m_cyclesMesh := Mesh_clear env (m_cyclesMesh (rprim fr))\<rparr>\<rparr>,
        replicate (GetNumFaces (m_topology (rprim fr))) 0) = Inr s2"
      and b: "PopulateFaces env (snd s2) (rprim (fst s2)) = Inr this3"
      and c: "PopulateVertices sceneDelegate this3 = Inr this4"
      and d: "(if m_useMotionBlur this4 \<and> m_useDeformMotionBlur this4
      then PopulateMotion env this4 else Inr this4) = Inr this5"
      and e: "Sync_primvars env sceneDelegate dirtyBits ((fst s2)\<lparr>rprim := this5\<rparr>) = Inr fr6"
      and f: "fr' = (if length (m_usedShaders (rprim fr6)) > 0
            then fr6\<lparr>rprim := (rprim fr6)
                        \<lparr>m_cyclesMesh := (m_cyclesMesh (rprim fr6))
                           \<lparr>used_shaders := m_usedShaders (rprim fr6)\<rparr>\<rparr>\<rparr>
            else fr6)"
      by blast
    note ka = Sync_subsets_keeps[OF a]
    note kb = PopulateFaces_keeps[OF b]
    note kc = PopulateVertices_keeps[OF c]
    note kd = PopulateMotion_if_keeps[OF d]
    note ke = Sync_primvars_keeps[OF e]
    have r: "m_refiner (rprim fr6) = m_refiner (rprim fr)"
      using ka kb(3) kc(3) kd(3) ke(1) by simp
    have h: "m_hasVertexColors (rprim fr) \<longrightarrow> m_hasVertexColors (rprim fr6)"
      using ka kb(2) kc(2) kd(2) ke(3) by simp
    have n: "newMesh fr6 = newMesh fr"
      using ka ke(4) by simp
    show ?thesis using r h n by (simp add: f)
  qed
  then show "m_refiner (rprim fr') = m_refiner (rprim fr)"
    and "m_hasVertexColors (rprim fr) \<Longrightarrow> m_hasVertexColors (rprim fr')"
    and "newMesh fr' = newMesh fr"
    by simp_all
qed

lemma Sync_newMesh_displayColor:
  assumes "Sync_newMesh env sceneDelegate dirtyBits fr = Inr fr'"
    and "newMesh fr"
    and "filter (\<lambda>pv. pv_name pv = displayColor_token)
           (GetPrimvarDescriptors sceneDelegate HdInterpolationConstant) = [pv]"
    and "pv_role pv \<noteq> ''normal''" "pv_role pv \<noteq> ''textureCoordinate''"
    and "is_set dirtyBits DirtyPrimvar"
    and "m_refiner (rprim fr) = Some refiner"
    and "refined = RefineData refiner (GetPrimvar sceneDelegate displayColor_token)
                     HdInterpolationConstant"
    and "GetArraySize (GetPrimvar sceneDelegate displayColor_token) \<le> GetArraySize refined"
  shows "m_hasVertexColors (rprim fr')
       \<and> (displayColor_of env refined = Inr (x, y, z, w)
          \<longrightarrow> color (m_cyclesObject (rprim fr')) = (x, y, z))"
proof -
  from Sync_newMesh_split[OF assms(1,2)] obtain s2 this3 this4 this5 fr6 where
    a: "for_each (GetGeomSubsets (m_topology (rprim fr))) (Sync_subset sceneDelegate)
       (fr\<lparr>rprim := (rprim fr)\<lparr>m_cyclesMesh := Mesh_clear env (m_cyclesMesh (rprim fr))\<rparr>\<rparr>,
        replicate (GetNumFaces (m_topology (rprim fr))) 0) = Inr s2"
    and b: "PopulateFaces env (snd s2) (rprim (fst s2)) = Inr this3"
    and c: "PopulateVertices sceneDelegate this3 = Inr this4"
    and d: "(if m_useMotionBlur this4 \<and> m_useDeformMotionBlur this4
      then PopulateMotion env this4 else Inr this4) = Inr this5"
    and e: "Sync_primvars env sceneDelegate dirtyBits ((fst s2)\<lparr>rprim := this5\<rparr>) = Inr fr6"
    and f: "fr' = (if length (m_usedShaders (rprim fr6)) > 0
            then fr6\<lparr>rprim := (rprim fr6)
                        \<lparr>m_cyclesMesh := (m_cyclesMesh (rprim fr6))
                           \<lparr>used_shaders := m_usedShaders (rprim fr6)\<rparr>\<rparr>\<rparr>
            else fr6)"
    by blast
  note ka = Sync_subsets_keeps[OF a]
  note kb = PopulateFaces_keeps[OF b]
  note kc = PopulateVertices_keeps[OF c]
  note kd = PopulateMotion_if_keeps[OF d]
  have r: "m_refiner (rprim ((fst s2)\<lparr>rprim := this5\<rparr>)) = Some refiner"
    using ka kb(3) kc(3) kd(3) assms(7) by simp
  note ce = Sync_primvars_displayColor[OF e assms(3-6) r assms(8,9)]
  show ?thesis using ce by (simp add: f)
qed

lemma Sync_schema_primvar_keeps:
  "m_hasVertexColors (rprim (Sync_schema_primvar env sceneDelegate dirtyBits pv fr))
   = m_hasVertexColors (rprim fr)"
  by (simp add: Sync_schema_primvar_def Let_def)

lemma Sync_schema_keeps:
  "m_hasVertexColors (rprim (Sync_schema env sceneDelegate dirtyBits fr))
   = m_hasVertexColors (rprim fr)"
proof -
  have inner: "m_hasVertexColors (rprim (fold (Sync_schema_primvar env sceneDelegate dirtyBits) pvs fr))
               = m_hasVertexColors (rprim fr)" for pvs fr
    by (induction pvs arbitrary: fr) (simp_all add: Sync_schema_primvar_keeps)
  have outer: "m_hasVertexColors (rprim (fold (\<lambda>primvarDescsEntry.
                   fold (Sync_schema_primvar env sceneDelegate dirtyBits) (snd primvarDescsEntry))
                 es fr))
               = m_hasVertexColors (rprim fr)" for es fr
    by (induction es arbitrary: fr) (simp_all add: inner)
  show ?thesis by (simp add: Sync_schema_def outer)
qed

lemma Sync_pull_keeps:
  "m_hasVertexColors (rprim (Sync_pull env sceneDelegate dirtyBits s)) = m_hasVertexColors (fst s)"
  unfolding Sync_pull_def Sync_schema_keeps
  by (simp add: Sync_displayStyle_def Sync_doubleSided_def Sync_topology_def Sync_points_def
      Let_def split: option.splits)

lemma Sync_transform_keeps:
  "m_refiner (rprim (Sync_transform env sceneDelegate dirtyBits fr)) = m_refiner (rprim fr)"
  "m_hasVertexColors (rprim (Sync_transform env sceneDelegate dirtyBits fr))
   = m_hasVertexColors (rprim fr)"
  "color (m_cyclesObject (rprim (Sync_transform env sceneDelegate dirtyBits fr)))
   = color (m_cyclesObject (rprim fr))"
  "newMesh (Sync_transform env sceneDelegate dirtyBits fr) = newMesh fr"
  unfolding Sync_transform_def HdCyclesSetTransform_result[OF refl]
  by simp_all

lemma Sync_primId_keeps:
  "m_refiner (rprim (Sync_primId sceneDelegate dirtyBits fr)) = m_refiner (rprim fr)"
  "m_hasVertexColors (rprim (Sync_primId sceneDelegate dirtyBits fr))
   = m_hasVertexColors (rprim fr)"
  "color (m_cyclesObject (rprim (Sync_primId sceneDelegate dirtyBits fr)))
   = color (m_cyclesObject (rprim fr))"
  "newMesh (Sync_primId sceneDelegate dirtyBits fr) = newMesh fr"
  by (simp_all add: Sync_primId_def)

lemma Sync_material_keeps:
  assumes "Sync_material env sceneDelegate dirtyBits fr = Inr fr'"
  shows "m_hasVertexColors (rprim fr') = m_hasVertexColors (rprim fr)"
    and "m_cyclesObject (rprim fr') = m_cyclesObject (rprim fr)"
    and "newMesh fr' = newMesh fr"
  using assms
  by (auto simp: Sync_material_def Let_def and_then_Inr_iff split: if_splits option.splits)

lemma Sync_material_fallback:
  assumes "Sync_material env sceneDelegate dirtyBits fr = Inr fr'"
    and "is_set dirtyBits DirtyMaterialId"
    and "GetMaterialId sceneDelegate = []
         \<or> GetSprim sceneDelegate (GetMaterialId sceneDelegate) = None
         \<or> GetSprim sceneDelegate (GetMaterialId sceneDelegate) = Some None"
    and "m_refiner (rprim fr) = Some refiner"
    and "m_hasVertexColors (rprim fr)"
  shows "m_usedShaders (rprim fr')
         = m_usedShaders (rprim fr)
           @ (if RefinedCounts refiner = [] then [] else [default_vcol_surface env])"
  using assms
  by (auto simp: Sync_material_def Let_def and_then_Inr_iff GetFaceVertexCounts_def
      fallbackShader_def split: if_splits option.splits)

lemma Sync_visibility_keeps:
  "m_usedShaders (rprim (Sync_visibility sceneDelegate dirtyBits fr)) = m_usedShaders (rprim fr)"
  "m_hasVertexColors (rprim (Sync_visibility sceneDelegate dirtyBits fr))
   = m_hasVertexColors (rprim fr)"
  "m_cyclesObject (rprim (Sync_visibility sceneDelegate dirtyBits fr)) = m_cyclesObject (rprim fr)"
  "newMesh (Sync_visibility sceneDelegate dirtyBits fr) = newMesh fr"
  by (simp_all add: Sync_visibility_def)

lemma Sync_instances_add_keeps:
  assumes "Sync_instances_add env combinedTransforms j fr = Inr fr'"
  shows "m_usedShaders (rprim fr') = m_usedShaders (rprim fr)
       \<and> m_hasVertexColors (rprim fr') = m_hasVertexColors (rprim fr)
       \<and> m_cyclesObject (rprim fr') = m_cyclesObject (rprim fr)
       \<and> newMesh fr' = newMesh fr"
  using assms
  by (auto simp: Sync_instances_add_def Let_def and_then_Inr_iff)

lemma Sync_instances_add_loop_keeps:
  assumes "for_each js (Sync_instances_add env combinedTransforms) fr = Inr fr'"
  shows "m_usedShaders (rprim fr') = m_usedShaders (rprim fr)
       \<and> m_hasVertexColors (rprim fr') = m_hasVertexColors (rprim fr)
       \<and> m_cyclesObject (rprim fr') = m_cyclesObject (rprim fr)
       \<and> newMesh fr' = newMesh fr"
  using assms
proof (induction js arbitrary: fr)
  case Nil
  then show ?case by simp
next
  case (Cons j js)
  from Cons.prems obtain fr1 where
    s: "Sync_instances_add env combinedTransforms j fr = Inr fr1"
    and r: "for_each js (Sync_instances_add env combinedTransforms) fr1 = Inr fr'"
    by (auto simp: and_then_Inr_iff)
  show ?case using Sync_instances_add_keeps[OF s] Cons.IH[OF r] by simp
qed

lemma Sync_instances_keeps:
  assumes "Sync_instances env sceneDelegate dirtyBits fr = Inr fr'"
  shows "m_usedShaders (rprim fr') = m_usedShaders (rprim fr)"
    and "m_hasVertexColors (rprim fr') = m_hasVertexColors (rprim fr)"
    and "m_cyclesObject (rprim fr') = m_cyclesObject (rprim fr)"
    and "newMesh fr' = newMesh fr"
  using assms
  by (auto simp: Sync_instances_def Let_def and_then_Inr_iff
      split: if_splits option.splits dest!: Sync_instances_add_loop_keeps)

lemma Sync_finish_keeps:
  assumes "Sync_finish env fr = Inr fr'"
  shows "m_usedShaders (rprim fr') = m_usedShaders (rprim fr)"
    and "m_hasVertexColors (rprim fr') = m_hasVertexColors (rprim fr)"
    and "m_cyclesObject (rprim fr') = m_cyclesObject (rprim fr)"
  using assms
  by (auto simp: Sync_finish_def and_then_Inr_iff split: if_splits dest: FinishMesh_keeps)

lemma Sync_commit_keeps:
  "m_usedShaders (rprim (Sync_commit fr)) = m_usedShaders (rprim fr)"
  "m_hasVertexColors (rprim (Sync_commit fr)) = m_hasVertexColors (rprim fr)"
  "color (m_cyclesObject (rprim (Sync_commit fr))) = color (m_cyclesObject (rprim fr))"
  by (simp_all add: Sync_commit_def)

lemma Sync_split:
  assumes "Sync env sceneDelegate dirtyBits s = Inr (this', evs', bits')"
  obtains fr6 fr9 where
    "Sync_newMesh env sceneDelegate dirtyBits (Sync_pull env sceneDelegate dirtyBits s) = Inr fr6"
    "Sync_material env sceneDelegate dirtyBits
       (Sync_primId sceneDelegate dirtyBits (Sync_transform env sceneDelegate dirtyBits fr6))
     = Inr fr9"
    "m_usedShaders this' = m_usedShaders (rprim fr9)"
    "m_hasVertexColors this' = m_hasVertexColors (rprim fr9)"
    "color (m_cyclesObject this') = color (m_cyclesObject (rprim fr9))"
proof -
  from assms obtain fr6 fr9 fr11 fr12 where
    a: "Sync_newMesh env sceneDelegate dirtyBits (Sync_pull env sceneDelegate dirtyBits s) = Inr fr6"
    and b: "Sync_material env sceneDelegate dirtyBits
       (Sync_primId sceneDelegate dirtyBits (Sync_transform env sceneDelegate dirtyBits fr6))
     = Inr fr9"
    and c: "Sync_instances env sceneDelegate dirtyBits (Sync_visibility sceneDelegate dirtyBits fr9)
            = Inr fr11"
    and d: "Sync_finish env fr11 = Inr fr12"
    and e: "this' = rprim (Sync_commit fr12)"
    unfolding Sync_def by (auto simp: and_then_Inr_iff)
  note kc = Sync_instances_keeps[OF c]
  note kd = Sync_finish_keeps[OF d]
  have "m_usedShaders this' = m_usedShaders (rprim fr9)"
    using kc(1) kd(1) by (simp add: e Sync_commit_keeps Sync_visibility_keeps)
  moreover have "m_hasVertexColors this' = m_hasVertexColors (rprim fr9)"
    using kc(2) kd(2) by (simp add: e Sync_commit_keeps Sync_visibility_keeps)
  moreover have "color (m_cyclesObject this') = color (m_cyclesObject (rprim fr9))"
    using kc(3) kd(3) by (simp add: e Sync_commit_keeps Sync_visibility_keeps)
  ultimately show ?thesis using that a b by blast
qed

lemma Sync_object_after:
  assumes "Sync env sceneDelegate dirtyBits s = Inr (this', evs', bits')"
    and "Sync_newMesh env sceneDelegate dirtyBits (Sync_pull env sceneDelegate dirtyBits s) = Inr fr"
  shows "tfm (m_cyclesObject this')
         = tfm (m_cyclesObject (rprim (Sync_transform env sceneDelegate dirtyBits fr)))"
    and "motion (m_cyclesObject this')
         = motion (m_cyclesObject (rprim (Sync_transform env sceneDelegate dirtyBits fr)))"
proof -
  from assms obtain fr9 fr11 fr12 where
    b: "Sync_material env sceneDelegate dirtyBits
       (Sync_primId sceneDelegate dirtyBits (Sync_transform env sceneDelegate dirtyBits fr))
     = Inr fr9"
    and c: "Sync_instances env sceneDelegate dirtyBits (Sync_visibility sceneDelegate dirtyBits fr9)
            = Inr fr11"
    and d: "Sync_finish env fr11 = Inr fr12"
    and e: "this' = rprim (Sync_commit fr12)"
    unfolding Sync_def by (auto simp: and_then_Inr_iff)
  note kb = Sync_material_keeps[OF b]
  note kc = Sync_instances_keeps[OF c]
  note kd = Sync_finish_keeps[OF d]
  have o: "m_cyclesObject (rprim fr12)
           = m_cyclesObject (rprim (Sync_primId sceneDelegate dirtyBits
                                      (Sync_transform env sceneDelegate dirtyBits fr)))"
    using kb(2) kc(3) kd(3) by (simp add: Sync_visibility_keeps)
  show "tfm (m_cyclesObject this')
         = tfm (m_cyclesObject (rprim (Sync_transform env sceneDelegate dirtyBits fr)))"
    unfolding e by (simp add: Sync_commit_def o) (simp add: Sync_primId_def)
  show "motion (m_cyclesObject this')
         = motion (m_cyclesObject (rprim (Sync_transform env sceneDelegate dirtyBits fr)))"
    unfolding e by (simp add: Sync_commit_def o) (simp add: Sync_primId_def)
qed

section \<open>The claim on a refinement shortfall\<close>

text \<open>
  Claim C5, as the specification states it: when the refined array of a dirty primvar
  has fewer elements than its source, a warning is reported, the attribute is skipped
  and \<open>Sync\<close> completes, for normals, texture coordinates and colours. The branch for
  normals does not compare the two sizes as the branches for texture coordinates and
  colours do. A normals primvar of two vectors whose refined array has one vector is
  passed to \<open>_AddNormals\<close> and \<open>Sync\<close> reports no warning; on a mesh of two points
  \<open>_AddNormals\<close> then reads the second normal, which the array does not have, so that
  \<open>Sync\<close> does not complete.
\<close>

theorem Sync_normals_shortfall_counterexample:
  "(case Sync example_short_env
           (example_primvar_delegate HdInterpolationVertex ''normals'' ''normal''
              (VtVec3fArray [(0, 0, 1), (0, 1, 0)]))
           (DirtyTopology OR DirtyNormals) (example_mesh, []) of
      Inr r \<Rightarrow> (fst (snd r), attribute_data ''N'' (attributes (m_cyclesMesh (fst r))))
    | Inl e \<Rightarrow> ([], Inl e))
   = ([Mesh_tag_update, Object_tag_update, Interrupt], Inr [F3 (0, 0, 1)])
   \<and> (case Sync example_short_env
           ((example_primvar_delegate HdInterpolationVertex ''normals'' ''normal''
               (VtVec3fArray [(0, 0, 1), (0, 1, 0)]))
              \<lparr>GetPrimvar := (\<lambda>name. if name = ''normals''
                                      then VtVec3fArray [(0, 0, 1), (0, 1, 0)]
                                      else if name = ''points''
                                      then VtVec3fArray [(0, 0, 0), (1, 0, 0)]
                                      else VtEmpty)\<rparr>)
           (DirtyTopology OR DirtyNormals) (example_mesh, []) of
      Inr r \<Rightarrow> None
    | Inl e \<Rightarrow> Some e)
     = Some OutOfBounds
   \<and> GetArraySize (RefineData (example_short_refiner [3])
                      (VtVec3fArray [(0, 0, 1), (0, 1, 0)]) HdInterpolationVertex) = 1
   \<and> GetArraySize (VtVec3fArray [(0, 0, 1), (0, 1, 0)]) = 2"
  by code_simp

text \<open>
  Claim C5, branch by branch, for a dirty primvar \<open>pv\<close> whose refined array has fewer
  elements than its source. For a texture coordinate the body of the primvar loop
  appends the warning and changes nothing else; for a colour it appends the warning,
  adds no attribute, marks the mesh as updated and, for \<open>displayColor\<close>, sets the
  vertex-colour flag. In both cases the loop over a descriptor list that holds \<open>pv\<close>
  does what the loop over the descriptors before \<open>pv\<close> does and then, if that has
  returned, what the loop over the descriptors after \<open>pv\<close> does from the frame with
  the warning: \<open>pv\<close> alone is skipped. For normals the body appends the warning only
  when the refined value is empty or no array of \<open>GfVec3f\<close>, and otherwise calls
  \<open>_AddNormals\<close> with the refined array; for normals per vertex, when the refined
  array has fewer normals than the mesh has vertices, that call is a fault.
\<close>

theorem Sync_primvar_shortfall:
  assumes "IsPrimvarDirty dirtyBits (pv_name pv)"
    and "m_refiner (rprim fr) = Some refiner"
    and "v = GetPrimvar sceneDelegate (pv_name pv)"
    and "refined = RefineData refiner v interpolation"
    and "GetArraySize refined < GetArraySize v"
    and "step = Sync_primvar env sceneDelegate dirtyBits interpolation"
  shows "(pv_name pv \<noteq> ''normals'' \<and> pv_role pv \<noteq> ''normal'' \<and> pv_name pv \<noteq> ''velocities''
          \<and> pv_role pv = ''textureCoordinate'' \<longrightarrow>
          step pv fr
          = Inr (fr\<lparr>events := events fr
                       @ [TF_CODING_WARNING ''Failed to compute texture coordinates!'']\<rparr>)
          \<and> for_each (pre @ pv # post) step fr
            = and_then (for_each pre step fr)
                (\<lambda>fr1. for_each post step
                   (fr1\<lparr>events := events fr1
                          @ [TF_CODING_WARNING ''Failed to compute texture coordinates!'']\<rparr>)))
       \<and> (pv_name pv \<noteq> ''normals'' \<and> pv_role pv \<noteq> ''normal'' \<and> pv_name pv \<noteq> ''velocities''
          \<and> pv_role pv \<noteq> ''textureCoordinate''
          \<and> (pv_name pv = displayColor_token \<or> pv_role pv = ''color'') \<longrightarrow>
          step pv fr
          = Inr (fr\<lparr>events := events fr @ [TF_CODING_WARNING ''Failed to compute colors!''],
                    rprim := (if pv_name pv = displayColor_token
                              then (rprim fr)\<lparr>m_hasVertexColors := True\<rparr> else rprim fr),
                    mesh_updated := True\<rparr>)
          \<and> for_each (pre @ pv # post) step fr
            = and_then (for_each pre step fr)
                (\<lambda>fr1. for_each post step
                   (fr1\<lparr>events := events fr1 @ [TF_CODING_WARNING ''Failed to compute colors!''],
                        rprim := (if pv_name pv = displayColor_token
                                  then (rprim fr1)\<lparr>m_hasVertexColors := True\<rparr> else rprim fr1),
                        mesh_updated := True\<rparr>)))
       \<and> (pv_name pv = ''normals'' \<or> pv_role pv = ''normal'' \<longrightarrow>
          step pv fr
          = (case refined of
               VtVec3fArray normals \<Rightarrow>
                 if normals = []
                 then Inr (fr\<lparr>events := events fr
                                 @ [TF_CODING_WARNING ''Failed to compute normals!'']\<rparr>)
                 else and_then (AddNormals env normals interpolation (rprim fr))
                        (\<lambda>this. Inr (fr\<lparr>rprim := this, mesh_updated := True\<rparr>))
             | _ \<Rightarrow> Inr (fr\<lparr>events := events fr
                                @ [TF_CODING_WARNING ''Failed to compute normals!'']\<rparr>)))
       \<and> ((pv_name pv = ''normals'' \<or> pv_role pv = ''normal'')
          \<and> interpolation = HdInterpolationVertex
          \<and> refined = VtVec3fArray normals \<and> normals \<noteq> []
          \<and> length normals < length (verts (m_cyclesMesh (rprim fr))) \<longrightarrow>
          (\<exists>e. step pv fr = Inl e))"
proof -
  have uv: "step pv fr1
          = Inr (fr1\<lparr>events := events fr1
                       @ [TF_CODING_WARNING ''Failed to compute texture coordinates!'']\<rparr>)"
    if "pv_name pv \<noteq> ''normals'' \<and> pv_role pv \<noteq> ''normal'' \<and> pv_name pv \<noteq> ''velocities''
          \<and> pv_role pv = ''textureCoordinate''"
      and "m_refiner (rprim fr1) = Some refiner" for fr1
    using assms(1) that assms(5)[unfolded assms(4) assms(3)]
    unfolding assms(6) Sync_primvar_def Let_def
    by simp
  have col: "step pv fr1
          = Inr (fr1\<lparr>events := events fr1 @ [TF_CODING_WARNING ''Failed to compute colors!''],
                    rprim := (if pv_name pv = displayColor_token
                              then (rprim fr1)\<lparr>m_hasVertexColors := True\<rparr> else rprim fr1),
                    mesh_updated := True\<rparr>)"
    if "pv_name pv \<noteq> ''normals'' \<and> pv_role pv \<noteq> ''normal'' \<and> pv_name pv \<noteq> ''velocities''
          \<and> pv_role pv \<noteq> ''textureCoordinate''
          \<and> (pv_name pv = displayColor_token \<or> pv_role pv = ''color'')"
      and "m_refiner (rprim fr1) = Some refiner" for fr1
    using assms(1) that assms(5)[unfolded assms(4) assms(3)]
    unfolding assms(6) Sync_primvar_def Let_def
    by auto
  have skip: "for_each (pre @ pv # post) step fr
            = and_then (for_each pre step fr) (\<lambda>fr1. for_each post step (w fr1))"
    if "\<And>fr1. m_refiner (rprim fr1) = Some refiner \<Longrightarrow> step pv fr1 = Inr (w fr1)" for w
  proof (cases "for_each pre step fr")
    case (Inl e)
    then show ?thesis by (simp add: for_each_append)
  next
    case (Inr fr1)
    have "m_refiner (rprim fr1) = Some refiner"
      using Sync_primvar_loop_keeps(1)[OF Inr[unfolded assms(6)]] assms(2) by simp
    then show ?thesis using that[of fr1] Inr by (simp add: for_each_append)
  qed
  have nrm: "step pv fr
          = (case refined of
               VtVec3fArray normals \<Rightarrow>
                 if normals = []
                 then Inr (fr\<lparr>events := events fr
                                 @ [TF_CODING_WARNING ''Failed to compute normals!'']\<rparr>)
                 else and_then (AddNormals env normals interpolation (rprim fr))
                        (\<lambda>this. Inr (fr\<lparr>rprim := this, mesh_updated := True\<rparr>))
             | _ \<Rightarrow> Inr (fr\<lparr>events := events fr
                                @ [TF_CODING_WARNING ''Failed to compute normals!'']\<rparr>))"
    if "pv_name pv = ''normals'' \<or> pv_role pv = ''normal''"
    using assms(1,2) that unfolding assms(6) assms(4) assms(3) Sync_primvar_def Let_def
    by (auto split: VtValue.splits)
  have flt: "\<exists>e. step pv fr = Inl e"
    if "(pv_name pv = ''normals'' \<or> pv_role pv = ''normal'')
          \<and> interpolation = HdInterpolationVertex
          \<and> refined = VtVec3fArray normals \<and> normals \<noteq> []
          \<and> length normals < length (verts (m_cyclesMesh (rprim fr)))"
  proof -
    from that obtain e where "AddNormals env normals HdInterpolationVertex (rprim fr) = Inl e"
      using AddNormals_Vertex_short[of normals "rprim fr" env] by blast
    then show ?thesis using nrm that by simp
  qed
  show ?thesis
    using uv[OF _ assms(2)] col[OF _ assms(2)] skip[OF uv] skip[OF col] nrm flt
    by blast
qed

theorem Sync_primvar_shortfall_witness:
  "Sync_primvar example_short_env
     (example_primvar_delegate HdInterpolationVertex ''st'' ''textureCoordinate''
        (VtVec2fArray [(0, 0), (0, 1)]))
     DirtyPrimvar HdInterpolationVertex \<lparr>pv_name = ''st'', pv_role = ''textureCoordinate''\<rparr>
     \<lparr>rprim = example_mesh\<lparr>m_refiner := Some (example_short_refiner [3])\<rparr>, events = [],
      mesh_updated = False, newMesh = True\<rparr>
   = Inr \<lparr>rprim = example_mesh\<lparr>m_refiner := Some (example_short_refiner [3])\<rparr>,
          events = [TF_CODING_WARNING ''Failed to compute texture coordinates!''],
          mesh_updated = False, newMesh = True\<rparr>
   \<and> Sync_primvar example_short_env
     (example_primvar_delegate HdInterpolationVertex ''displayColor'' ''color''
        (VtVec3fArray [(1, 0, 0), (0, 1, 0)]))
     DirtyPrimvar HdInterpolationVertex \<lparr>pv_name = ''displayColor'', pv_role = ''color''\<rparr>
     \<lparr>rprim = example_mesh\<lparr>m_refiner := Some (example_short_refiner [3])\<rparr>, events = [],
      mesh_updated = False, newMesh = True\<rparr>
   = Inr \<lparr>rprim = example_mesh\<lparr>m_refiner := Some (example_short_refiner [3]),
                              m_hasVertexColors := True\<rparr>,
          events = [TF_CODING_WARNING ''Failed to compute colors!''],
          mesh_updated = True, newMesh = True\<rparr>
   \<and> (\<exists>e. Sync_primvar example_short_env
            (example_primvar_delegate HdInterpolationVertex ''normals'' ''normal''
               (VtVec3fArray [(0, 0, 1), (0, 1, 0)]))
            DirtyNormals HdInterpolationVertex \<lparr>pv_name = ''normals'', pv_role = ''normal''\<rparr>
            \<lparr>rprim = example_mesh
                      \<lparr>m_refiner := Some (example_short_refiner [3]),
                       m_cyclesMesh := example_ccl_Mesh\<lparr>verts := [(0, 0, 0), (1, 0, 0)]\<rparr>\<rparr>,
             events = [], mesh_updated = False, newMesh = True\<rparr>
          = Inl e)"
proof -
  let ?fr = "\<lparr>rprim = example_mesh\<lparr>m_refiner := Some (example_short_refiner [3])\<rparr>,
             events = [], mesh_updated = False, newMesh = True\<rparr>"
  let ?fr2 = "\<lparr>rprim = example_mesh
                      \<lparr>m_refiner := Some (example_short_refiner [3]),
                       m_cyclesMesh := example_ccl_Mesh\<lparr>verts := [(0, 0, 0), (1, 0, 0)]\<rparr>\<rparr>,
              events = [], mesh_updated = False, newMesh = True\<rparr>"
  have d: "IsPrimvarDirty DirtyPrimvar ''st''" "IsPrimvarDirty DirtyPrimvar ''displayColor''"
    "IsPrimvarDirty DirtyNormals ''normals''"
    by (simp_all add: IsPrimvarDirty_def is_set_def DirtyPrimvar_def DirtyNormals_def)
  have uv: "Sync_primvar example_short_env
     (example_primvar_delegate HdInterpolationVertex ''st'' ''textureCoordinate''
        (VtVec2fArray [(0, 0), (0, 1)]))
     DirtyPrimvar HdInterpolationVertex \<lparr>pv_name = ''st'', pv_role = ''textureCoordinate''\<rparr> ?fr
   = Inr (?fr\<lparr>events := [TF_CODING_WARNING ''Failed to compute texture coordinates!'']\<rparr>)"
    using Sync_primvar_shortfall[where dirtyBits = DirtyPrimvar
        and pv = "\<lparr>pv_name = ''st'', pv_role = ''textureCoordinate''\<rparr>"
        and fr = "?fr" and refiner = "example_short_refiner [3]"
        and sceneDelegate = "example_primvar_delegate HdInterpolationVertex ''st''
                               ''textureCoordinate'' (VtVec2fArray [(0, 0), (0, 1)])"
        and interpolation = HdInterpolationVertex and env = example_short_env
        and pre = "[]" and post = "[]", OF _ _ refl refl _ refl]
      d(1)
    by (simp add: example_primvar_delegate_def example_short_refiner_def)
  have col: "Sync_primvar example_short_env
     (example_primvar_delegate HdInterpolationVertex ''displayColor'' ''color''
        (VtVec3fArray [(1, 0, 0), (0, 1, 0)]))
     DirtyPrimvar HdInterpolationVertex \<lparr>pv_name = ''displayColor'', pv_role = ''color''\<rparr> ?fr
   = Inr (?fr\<lparr>events := [TF_CODING_WARNING ''Failed to compute colors!''],
               rprim := (rprim ?fr)\<lparr>m_hasVertexColors := True\<rparr>, mesh_updated := True\<rparr>)"
    using Sync_primvar_shortfall[where dirtyBits = DirtyPrimvar
        and pv = "\<lparr>pv_name = ''displayColor'', pv_role = ''color''\<rparr>"
        and fr = "?fr" and refiner = "example_short_refiner [3]"
        and sceneDelegate = "example_primvar_delegate HdInterpolationVertex ''displayColor''
                               ''color'' (VtVec3fArray [(1, 0, 0), (0, 1, 0)])"
        and interpolation = HdInterpolationVertex and env = example_short_env
        and pre = "[]" and post = "[]", OF _ _ refl refl _ refl]
      d(2)
    by (simp add: example_primvar_delegate_def example_short_refiner_def displayColor_token_def)
  let ?dn = "example_primvar_delegate HdInterpolationVertex ''normals'' ''normal''
               (VtVec3fArray [(0, 0, 1), (0, 1, 0)])"
  have rn: "RefineData (example_short_refiner [3])
              (GetPrimvar ?dn (pv_name \<lparr>pv_name = ''normals'', pv_role = ''normal''\<rparr>))
              HdInterpolationVertex
            = VtVec3fArray [(0, 0, 1)]"
    by (simp add: example_primvar_delegate_def example_short_refiner_def)
  have sn: "GetArraySize (RefineData (example_short_refiner [3])
              (GetPrimvar ?dn (pv_name \<lparr>pv_name = ''normals'', pv_role = ''normal''\<rparr>))
              HdInterpolationVertex)
            < GetArraySize (GetPrimvar ?dn (pv_name \<lparr>pv_name = ''normals'', pv_role = ''normal''\<rparr>))"
    unfolding rn by (simp add: example_primvar_delegate_def)
  have mn: "m_refiner (rprim ?fr2) = Some (example_short_refiner [3])"
    by simp
  have dn: "IsPrimvarDirty DirtyNormals (pv_name \<lparr>pv_name = ''normals'', pv_role = ''normal''\<rparr>)"
    using d(3) by simp
  have nrm: "\<exists>e. Sync_primvar example_short_env ?dn
            DirtyNormals HdInterpolationVertex \<lparr>pv_name = ''normals'', pv_role = ''normal''\<rparr>
            ?fr2 = Inl e"
    using Sync_primvar_shortfall[where normals = "[(0, 0, 1)]" and pre = "[]" and post = "[]"
        and env = example_short_env, OF dn mn refl refl sn refl,
        THEN conjunct2, THEN conjunct2, THEN conjunct2]
      rn
    by simp
  show ?thesis
    using uv col nrm by (simp add: example_mesh_def)
qed

section \<open>The claim on the transform block\<close>

text \<open>
  Claim C8, as the specification states it: the array of motion transforms of the
  object is filled only when motion blur is enabled and the number of transform samples
  equals the motion steps of the geometry. The code also fills it when the numbers
  differ: with one sample, on a mesh of 3 motion steps that uses motion blur, a
  transform-dirty sync leaves 3 motion transforms on the object, all of them the base
  transform.
\<close>

theorem Sync_transform_motion_counterexample:
  "(case Sync example_env (example_delegate\<lparr>SampleTransform := [(0, GfMatrix4d_1)]\<rparr>)
           DirtyTransform
           (example_mesh\<lparr>m_useMotionBlur := True,
                          m_cyclesMesh := example_ccl_Mesh\<lparr>use_motion_blur := True\<rparr>\<rparr>, []) of
      Inr r \<Rightarrow> motion (m_cyclesObject (fst r))
    | Inl e \<Rightarrow> [])
   = [transform_identity, transform_identity, transform_identity]
   \<and> length (SampleTransform (example_delegate\<lparr>SampleTransform := [(0, GfMatrix4d_1)]\<rparr>)) = 1
   \<and> motion_steps (example_ccl_Mesh\<lparr>use_motion_blur := True\<rparr>) = 3"
  by code_simp

text \<open>
  Claim C8, amended: the transform block of \<open>Sync\<close> sets the base transform of the
  object to the identity when there is no transform sample, to the (last) sample at
  time 0 when there is one, and to the first sample otherwise. The motion transforms
  are left as they are when there is no sample or motion blur is disabled for the
  primitive; they are the converted samples, one per step, when the number of samples
  equals the motion steps of the mesh; otherwise they are as many copies of the base
  transform as the mesh has motion steps when the mesh uses motion blur, and none when
  it does not. The block keeps the samples and marks the mesh as updated. When \<open>Sync\<close>
  returns, the transform and the motion transforms of the object are those the block
  set, where \<open>fr\<close> is the frame of \<open>Sync\<close> after the new-mesh block.
\<close>

theorem Sync_transform_sets_transform:
  assumes "is_set dirtyBits DirtyTransform"
    and "xf = SampleTransform sceneDelegate"
    and "object = m_cyclesObject (rprim fr)"
    and "g = m_cyclesMesh (rprim fr)"
    and "cv = numeric env"
  shows "tfm (m_cyclesObject (rprim (Sync_transform env sceneDelegate dirtyBits fr)))
         = (if xf = [] then transform_identity
            else mat4d_to_transform cv
                   (case center_sample xf of None \<Rightarrow> snd (xf ! 0) | Some m \<Rightarrow> m))
       \<and> motion (m_cyclesObject (rprim (Sync_transform env sceneDelegate dirtyBits fr)))
         = (if xf = [] \<or> \<not> m_useMotionBlur (rprim fr) then motion object
            else if motion_steps g = length xf
            then map (\<lambda>s. mat4d_to_transform cv (snd s)) xf
            else if use_motion_blur g then replicate (motion_steps g) (base_transform cv xf)
            else [])
       \<and> m_transformSamples (rprim (Sync_transform env sceneDelegate dirtyBits fr)) = xf
       \<and> mesh_updated (Sync_transform env sceneDelegate dirtyBits fr)
       \<and> (Sync env sceneDelegate dirtyBits s = Inr (this', evs', bits')
          \<and> Sync_newMesh env sceneDelegate dirtyBits (Sync_pull env sceneDelegate dirtyBits s)
            = Inr fr
          \<longrightarrow> tfm (m_cyclesObject this')
                = tfm (m_cyclesObject (rprim (Sync_transform env sceneDelegate dirtyBits fr)))
              \<and> motion (m_cyclesObject this')
                = motion (m_cyclesObject (rprim (Sync_transform env sceneDelegate dirtyBits fr))))"
proof -
  have block: "tfm (m_cyclesObject (rprim (Sync_transform env sceneDelegate dirtyBits fr)))
         = (if xf = [] then transform_identity
            else mat4d_to_transform cv
                   (case center_sample xf of None \<Rightarrow> snd (xf ! 0) | Some m \<Rightarrow> m))
       \<and> motion (m_cyclesObject (rprim (Sync_transform env sceneDelegate dirtyBits fr)))
         = (if xf = [] \<or> \<not> m_useMotionBlur (rprim fr) then motion object
            else if motion_steps g = length xf
            then map (\<lambda>s. mat4d_to_transform cv (snd s)) xf
            else if use_motion_blur g then replicate (motion_steps g) (base_transform cv xf)
            else [])
       \<and> m_transformSamples (rprim (Sync_transform env sceneDelegate dirtyBits fr)) = xf
       \<and> mesh_updated (Sync_transform env sceneDelegate dirtyBits fr)"
    using assms(1)
    unfolding Sync_transform_def assms(3-5)
      HdCyclesSetTransform_result[of xf sceneDelegate, OF assms(2)]
    by (simp add: base_transform_def)
  have whole: "tfm (m_cyclesObject this')
                = tfm (m_cyclesObject (rprim (Sync_transform env sceneDelegate dirtyBits fr)))
              \<and> motion (m_cyclesObject this')
                = motion (m_cyclesObject (rprim (Sync_transform env sceneDelegate dirtyBits fr)))"
    if "Sync env sceneDelegate dirtyBits s = Inr (this', evs', bits')"
      and "Sync_newMesh env sceneDelegate dirtyBits (Sync_pull env sceneDelegate dirtyBits s)
            = Inr fr"
    using Sync_object_after[OF that] by simp
  show ?thesis using block whole by blast
qed

theorem Sync_transform_sets_transform_witness:
  "(case Sync example_env
          (example_delegate\<lparr>SampleTransform :=
             [(- 1, ((1, 0, 0, 0), (0, 1, 0, 0), (0, 0, 1, 0), (5, 0, 0, 1))),
              (0, ((1, 0, 0, 0), (0, 1, 0, 0), (0, 0, 1, 0), (6, 0, 0, 1))),
              (1, ((1, 0, 0, 0), (0, 1, 0, 0), (0, 0, 1, 0), (7, 0, 0, 1)))]\<rparr>)
          DirtyTransform (example_mesh\<lparr>m_useMotionBlur := True\<rparr>, []) of
      Inr r \<Rightarrow>
        tfm (m_cyclesObject (fst r)) = ((1, 0, 0, 6), (0, 1, 0, 0), (0, 0, 1, 0))
        \<and> motion (m_cyclesObject (fst r))
          = [((1, 0, 0, 5), (0, 1, 0, 0), (0, 0, 1, 0)),
             ((1, 0, 0, 6), (0, 1, 0, 0), (0, 0, 1, 0)),
             ((1, 0, 0, 7), (0, 1, 0, 0), (0, 0, 1, 0))]
    | Inl e \<Rightarrow> False)"
proof -
  let ?d = "example_delegate\<lparr>SampleTransform :=
             [(- 1, ((1, 0, 0, 0), (0, 1, 0, 0), (0, 0, 1, 0), (5, 0, 0, 1))),
              (0, ((1, 0, 0, 0), (0, 1, 0, 0), (0, 0, 1, 0), (6, 0, 0, 1))),
              (1, ((1, 0, 0, 0), (0, 1, 0, 0), (0, 0, 1, 0), (7, 0, 0, 1)))]\<rparr>"
  let ?fr = "\<lparr>rprim = example_mesh\<lparr>m_useMotionBlur := True\<rparr>, events = [],
             mesh_updated = False, newMesh = False\<rparr>"
  have runs: "(case Sync example_env ?d DirtyTransform (example_mesh\<lparr>m_useMotionBlur := True\<rparr>, [])
               of Inr r \<Rightarrow> True | Inl e \<Rightarrow> False)"
    by code_simp
  then obtain this' evs' bits' where
    s: "Sync example_env ?d DirtyTransform (example_mesh\<lparr>m_useMotionBlur := True\<rparr>, [])
        = Inr (this', evs', bits')"
    by (cases "Sync example_env ?d DirtyTransform (example_mesh\<lparr>m_useMotionBlur := True\<rparr>, [])")
      auto
  have d: "is_set DirtyTransform DirtyTransform"
    by code_simp
  have clean: "\<not> is_set DirtyTransform DirtyPoints" "\<not> is_set DirtyTransform DirtyTopology"
    "\<not> is_set DirtyTransform DirtySubdivTags" "\<not> is_set DirtyTransform DirtyDisplayStyle"
    "\<not> is_set DirtyTransform DirtyDoubleSided"
    by code_simp+
  have n: "Sync_newMesh example_env ?d DirtyTransform
             (Sync_pull example_env ?d DirtyTransform (example_mesh\<lparr>m_useMotionBlur := True\<rparr>, []))
           = Inr ?fr"
    using clean
    by (simp add: Sync_newMesh_def Sync_pull_def Sync_schema_def Sync_displayStyle_def
        Sync_doubleSided_def Sync_topology_def Sync_points_def IsTopologyDirty_def
        IsSubdivTagsDirty_def IsDisplayStyleDirty_def IsPrimvarDirty_def Let_def example_env_def
        example_delegate_def split: option.splits)
  show ?thesis
    using Sync_transform_sets_transform[where dirtyBits = DirtyTransform and env = example_env
        and sceneDelegate = "?d" and fr = "?fr"
        and s = "(example_mesh\<lparr>m_useMotionBlur := True\<rparr>, [])"
        and this' = this' and evs' = evs' and bits' = bits', OF d refl refl refl refl]
      s n
    by (simp add: center_sample_def mat4d_to_transform_def example_env_def example_casts_def
        example_mesh_def example_ccl_Mesh_def)
qed

section \<open>The claim on the display colour\<close>

text \<open>
  Claim C9, as the specification states it: whenever a constant \<open>displayColor\<close>
  primvar is populated in a new-mesh \<open>Sync\<close>, the colour of the object becomes the
  value of the primvar. A \<open>displayColor\<close> held as an array of \<open>GfVec3d\<close> is
  populated: \<open>_PopulateAttribute\<close> converts it into the buffer of the attribute. But
  \<open>_AddColors\<close> then matches none of its four \<open>float\<close> array types, prints
  \<open>Invalid color size\<close> and assigns the colour of the object from the local
  \<open>displayColor\<close>, which nothing has set.
\<close>

theorem Sync_displayColor_double_counterexample:
  "(case Sync example_env
           (example_primvar_delegate HdInterpolationConstant ''displayColor'' ''color''
              (VtVec3dArray [(1, 0, 0)]))
           (DirtyTopology OR DirtyPrimvar) (example_mesh, []) of
      Inr r \<Rightarrow> None
    | Inl e \<Rightarrow> Some e)
   = Some Uninitialised
   \<and> PopulateAttribute example_casts ''displayColor'' ''vector'' HdInterpolationConstant
       (VtVec3dArray [(1, 0, 0)]) [F3 (0, 0, 0)] example_mesh
     = Inr ([F3 (1, 0, 0)], [])"
  by code_simp

text \<open>
  Claim C9, where the code agrees with it: in a new-mesh \<open>Sync\<close> with dirty primvars
  that returns, where the primitive has one constant \<open>displayColor\<close> primvar whose
  refined value is no shorter than its source, the vertex-colour flag of the primitive
  is set, and the colour of the renderer's object is the first element of the refined
  value when that is an array of \<open>float\<close> (the element three times), of \<open>GfVec2f\<close>
  (with the default third component), of \<open>GfVec3f\<close> or of \<open>GfVec4f\<close> (the first three
  components). A later \<open>Sync\<close> of the state this one returned, with the material id
  dirty and a material that is not resolved (no material id, no material prim, or a
  material without a shader), pushes the vertex-colour surface, once, onto the used
  shaders that its new-mesh block left in the frame \<open>fr2\<close>, when the mesh has a face;
  it pushes nothing when the refiner has no face.
\<close>

theorem Sync_displayColor_fallback:
  assumes "Sync env d1 bits1 s0 = Inr (self1, evs1, b1)"
    and "newMesh (Sync_pull env d1 bits1 s0)"
    and "m_refiner (rprim (Sync_pull env d1 bits1 s0)) = Some refiner"
    and "is_set bits1 DirtyPrimvar"
    and "filter (\<lambda>pv. pv_name pv = displayColor_token)
           (GetPrimvarDescriptors d1 HdInterpolationConstant) = [pv]"
    and "pv_role pv \<noteq> ''normal''"
    and "pv_role pv \<noteq> ''textureCoordinate''"
    and "refined = RefineData refiner (GetPrimvar d1 displayColor_token) HdInterpolationConstant"
    and "GetArraySize (GetPrimvar d1 displayColor_token) \<le> GetArraySize refined"
  shows "m_hasVertexColors self1
       \<and> (refined = VtFloatArray (x # rest1)
          \<longrightarrow> color (m_cyclesObject self1) = (x, x, x))
       \<and> (refined = VtVec2fArray ((x, y) # rest2)
          \<longrightarrow> color (m_cyclesObject self1) = (x, y, vec2f_to_float4_a_z env))
       \<and> (refined = VtVec3fArray ((x, y, z) # rest3)
          \<longrightarrow> color (m_cyclesObject self1) = (x, y, z))
       \<and> (refined = VtVec4fArray ((x, y, z, w) # rest4)
          \<longrightarrow> color (m_cyclesObject self1) = (x, y, z))
       \<and> (Sync env d2 bits2 (self1, evs1) = Inr (self2, evs2, b2)
          \<and> Sync_newMesh env d2 bits2 (Sync_pull env d2 bits2 (self1, evs1)) = Inr fr2
          \<and> is_set bits2 DirtyMaterialId
          \<and> (GetMaterialId d2 = [] \<or> GetSprim d2 (GetMaterialId d2) = None
             \<or> GetSprim d2 (GetMaterialId d2) = Some None)
          \<and> m_refiner (rprim fr2) = Some refiner2
          \<longrightarrow> m_usedShaders self2
              = m_usedShaders (rprim fr2)
                @ (if RefinedCounts refiner2 = [] then [] else [default_vcol_surface env]))"
proof -
  from Sync_split[OF assms(1)] obtain fr6 fr9 where
    a: "Sync_newMesh env d1 bits1 (Sync_pull env d1 bits1 s0) = Inr fr6"
    and b: "Sync_material env d1 bits1 (Sync_primId d1 bits1 (Sync_transform env d1 bits1 fr6))
            = Inr fr9"
    and h: "m_hasVertexColors self1 = m_hasVertexColors (rprim fr9)"
    and c: "color (m_cyclesObject self1) = color (m_cyclesObject (rprim fr9))"
    by blast
  note kb = Sync_material_keeps[OF b]
  have n: "m_hasVertexColors (rprim fr6)
       \<and> (displayColor_of env refined = Inr (cx, cy, cz, cw)
          \<longrightarrow> color (m_cyclesObject (rprim fr6)) = (cx, cy, cz))" for cx cy cz cw
    by (rule Sync_newMesh_displayColor[OF a assms(2) assms(5,6,7,4,3,8,9)])
  have flag: "m_hasVertexColors self1"
    using n kb(1) by (simp add: h Sync_primId_keeps Sync_transform_keeps)
  have col: "color (m_cyclesObject self1) = (cx, cy, cz)"
    if "displayColor_of env refined = Inr (cx, cy, cz, cw)" for cx cy cz cw
    using n[of cx cy cz cw] that kb(2) by (simp add: c Sync_primId_keeps Sync_transform_keeps)
  have c1: "color (m_cyclesObject self1) = (x, x, x)" if "refined = VtFloatArray (x # rest1)"
    using col[of x x x x] that by (simp add: displayColor_of_def load_def vec1f_to_float4_def)
  have c2: "color (m_cyclesObject self1) = (x, y, vec2f_to_float4_a_z env)"
    if "refined = VtVec2fArray ((x, y) # rest2)"
    using col[of x y "vec2f_to_float4_a_z env" "vec2f_to_float4_a_alpha env"] that
    by (simp add: displayColor_of_def load_def vec2f_to_float4_def)
  have c3: "color (m_cyclesObject self1) = (x, y, z)"
    if "refined = VtVec3fArray ((x, y, z) # rest3)"
    using col[of x y z "vec3f_to_float4_a_alpha env"] that
    by (simp add: displayColor_of_def load_def vec3f_to_float4_def)
  have c4: "color (m_cyclesObject self1) = (x, y, z)"
    if "refined = VtVec4fArray ((x, y, z, w) # rest4)"
    using col[of x y z w] that
    by (simp add: displayColor_of_def load_def vec4f_to_float4_def)
  have second: "m_usedShaders self2
              = m_usedShaders (rprim fr2)
                @ (if RefinedCounts refiner2 = [] then [] else [default_vcol_surface env])"
    if s: "Sync env d2 bits2 (self1, evs1) = Inr (self2, evs2, b2)"
      and a2: "Sync_newMesh env d2 bits2 (Sync_pull env d2 bits2 (self1, evs1)) = Inr fr2"
      and m: "is_set bits2 DirtyMaterialId"
      and u: "GetMaterialId d2 = [] \<or> GetSprim d2 (GetMaterialId d2) = None
             \<or> GetSprim d2 (GetMaterialId d2) = Some None"
      and r: "m_refiner (rprim fr2) = Some refiner2"
  proof -
    from Sync_split[OF s] obtain gr6 gr9 where
      a3: "Sync_newMesh env d2 bits2 (Sync_pull env d2 bits2 (self1, evs1)) = Inr gr6"
      and b2: "Sync_material env d2 bits2 (Sync_primId d2 bits2 (Sync_transform env d2 bits2 gr6))
               = Inr gr9"
      and us: "m_usedShaders self2 = m_usedShaders (rprim gr9)"
      by blast
    have g: "gr6 = fr2" using a2 a3 by simp
    have p: "m_hasVertexColors (rprim (Sync_pull env d2 bits2 (self1, evs1)))"
      using flag by (simp add: Sync_pull_keeps)
    note k = Sync_newMesh_keeps[OF a2]
    have r6: "m_refiner (rprim (Sync_primId d2 bits2 (Sync_transform env d2 bits2 fr2)))
              = Some refiner2"
      using r by (simp add: Sync_primId_keeps Sync_transform_keeps)
    have h6: "m_hasVertexColors (rprim (Sync_primId d2 bits2 (Sync_transform env d2 bits2 fr2)))"
      using k(2)[OF p] by (simp add: Sync_primId_keeps Sync_transform_keeps)
    have u6: "m_usedShaders (rprim (Sync_primId d2 bits2 (Sync_transform env d2 bits2 fr2)))
              = m_usedShaders (rprim fr2)"
      by (simp add: Sync_primId_def Sync_transform_def HdCyclesSetTransform_result[OF refl])
    show ?thesis
      using Sync_material_fallback[OF b2[unfolded g] m u r6 h6] by (simp add: us u6)
  qed
  show ?thesis using flag c1 c2 c3 c4 second by blast
qed

theorem Sync_displayColor_fallback_witness:
  "(case Sync example_env
           (example_primvar_delegate HdInterpolationConstant ''displayColor'' ''color''
              (VtVec3fArray [(1, 0, 0)]))
           (DirtyTopology OR DirtyPrimvar) (example_mesh, []) of
      Inr r1 \<Rightarrow>
        color (m_cyclesObject (fst r1)) = (1, 0, 0)
        \<and> m_hasVertexColors (fst r1)
        \<and> (case Sync example_env
                   (example_primvar_delegate HdInterpolationConstant ''displayColor'' ''color''
                      (VtVec3fArray [(1, 0, 0)]))
                   DirtyMaterialId (fst r1, fst (snd r1)) of
              Inr r2 \<Rightarrow> m_usedShaders (fst r2) = m_usedShaders (fst r1) @ [1]
            | Inl e \<Rightarrow> False)
    | Inl e \<Rightarrow> False)"
proof -
  let ?d = "example_primvar_delegate HdInterpolationConstant ''displayColor'' ''color''
              (VtVec3fArray [(1, 0, 0)])"
  let ?b = "DirtyTopology OR DirtyPrimvar"
  have runs: "(case Sync example_env ?d ?b (example_mesh, []) of
                 Inr r1 \<Rightarrow>
                   (case m_refiner (fst r1) of
                      Some rf \<Rightarrow> RefinedCounts rf \<noteq> [] | None \<Rightarrow> False)
                   \<and> (case Sync example_env ?d DirtyMaterialId (fst r1, fst (snd r1)) of
                         Inr r2 \<Rightarrow> True | Inl e \<Rightarrow> False)
               | Inl e \<Rightarrow> False)"
    by code_simp
  then obtain self1 evs1 b1 where
    s1: "Sync example_env ?d ?b (example_mesh, []) = Inr (self1, evs1, b1)"
    by (cases "Sync example_env ?d ?b (example_mesh, [])") auto
  from runs s1 obtain refiner2 where
    rf: "m_refiner self1 = Some refiner2" "RefinedCounts refiner2 \<noteq> []"
    by (cases "m_refiner self1") auto
  from runs s1 obtain self2 evs2 b2 where
    s2: "Sync example_env ?d DirtyMaterialId (self1, evs1) = Inr (self2, evs2, b2)"
    by (cases "Sync example_env ?d DirtyMaterialId (self1, evs1)") auto
  have bits: "is_set ?b DirtyPrimvar" "is_set DirtyMaterialId DirtyMaterialId"
    by code_simp+
  have clean: "\<not> is_set DirtyMaterialId DirtyPoints" "\<not> is_set DirtyMaterialId DirtyTopology"
    "\<not> is_set DirtyMaterialId DirtySubdivTags" "\<not> is_set DirtyMaterialId DirtyDisplayStyle"
    "\<not> is_set DirtyMaterialId DirtyDoubleSided"
    by code_simp+
  have top: "is_set ?b DirtyTopology" by code_simp
  have n1: "newMesh (Sync_pull example_env ?d ?b (example_mesh, []))"
    by code_simp
  have r1: "m_refiner (rprim (Sync_pull example_env ?d ?b (example_mesh, [])))
            = Some (example_refiner [3])"
    using top
    by (simp add: Sync_pull_def Sync_schema_def Sync_displayStyle_def Sync_doubleSided_def
        Sync_topology_def Sync_points_def IsTopologyDirty_def Let_def example_env_def
        example_primvar_delegate_def example_delegate_def split: option.splits)
  have p2: "Sync_newMesh example_env ?d DirtyMaterialId
              (Sync_pull example_env ?d DirtyMaterialId (self1, evs1))
            = Inr \<lparr>rprim = self1, events = evs1, mesh_updated = False, newMesh = False\<rparr>"
    using clean
    by (simp add: Sync_newMesh_def Sync_pull_def Sync_schema_def Sync_displayStyle_def
        Sync_doubleSided_def Sync_topology_def Sync_points_def IsTopologyDirty_def
        IsSubdivTagsDirty_def IsDisplayStyleDirty_def IsPrimvarDirty_def Let_def example_env_def
        example_primvar_delegate_def example_delegate_def split: option.splits)
  have f: "filter (\<lambda>pv. pv_name pv = displayColor_token)
             (GetPrimvarDescriptors ?d HdInterpolationConstant)
           = [\<lparr>pv_name = ''displayColor'', pv_role = ''color''\<rparr>]"
    by (simp add: example_primvar_delegate_def displayColor_token_def)
  have c: "RefineData (example_refiner [3]) (GetPrimvar ?d displayColor_token)
             HdInterpolationConstant
           = VtVec3fArray [(1, 0, 0)]"
    by (simp add: example_refiner_def example_primvar_delegate_def displayColor_token_def)
  have g: "GetArraySize (GetPrimvar ?d displayColor_token) = 1"
    by (simp add: example_primvar_delegate_def displayColor_token_def)
  have u: "GetMaterialId ?d = []"
    by (simp add: example_primvar_delegate_def example_delegate_def)
  have v: "default_vcol_surface example_env = 1"
    by (simp add: example_env_def)
  show ?thesis
    using Sync_displayColor_fallback[OF s1 n1 r1 bits(1) f _ _ refl,
        where ?d2.0 = "?d" and ?bits2.0 = DirtyMaterialId and ?self2.0 = self2
          and ?evs2.0 = evs2 and ?b2.0 = b2 and ?refiner2.0 = refiner2
          and ?fr2.0 = "\<lparr>rprim = self1, events = evs1, mesh_updated = False, newMesh = False\<rparr>"
          and x = 1 and y = 0 and z = 0 and ?rest3.0 = "[]"]
      s1 s2 bits(2) u p2 rf v c g
    by simp
qed

end
